theory Spec2Isabelle
  imports Main "HOL-Library.Word"
begin

section \<open>Error codes\<close>

text \<open>
  \<^verbatim>\<open>cardano_error_t\<close> (\<^verbatim>\<open>cardano/error.h\<close>). The two codes named by the certificate
  sources are \<^verbatim>\<open>CARDANO_ERROR_POINTER_IS_NULL\<close> and
  \<^verbatim>\<open>CARDANO_ERROR_MEMORY_ALLOCATION_FAILED\<close>. The remaining constructors are the results
  of the CBOR reader, writer and validators.

  Modelled from the spec: the failures of the reader and writer primitives and of the
  three validators of \<^verbatim>\<open>cbor_validation.h\<close>, which is not among the sources. The spec
  gives each schema violation a descriptive message (entity name, field, expected versus
  actual); the C code stores that message in the reader and returns a bare code, the model
  carries the message parts in the error value:
  \<^item> \<open>ArityViolation name expected actual\<close>: wrong array length;
  \<^item> \<open>DiscriminantViolation name field expected expected_name actual actual_name\<close>:
    wrong enum value, the names as the enum-to-string callback gives them;
  \<^item> \<open>EndOfArrayViolation name\<close>: elements remain where the array should end;
  \<^item> \<open>UnknownDiscriminant name received allowed\<close>: a native-script discriminant outside
    the allowed set, which the error enumerates.

  Two constructors are no codes of the library. \<open>DANGLING_POINTER\<close> marks the runs in
  which the C program would dereference a non-NULL pointer to storage that holds no live
  object (undefined behaviour in C). \<open>RECURSION_BUDGET_EXHAUSTED\<close> is returned by the
  recursive native-script decoder when its recursion budget is used up; the entry points
  give it a budget that is never used up
  (\<open>native_script_decoders_never_exhaust_budget\<close>).
\<close>

datatype cardano_error =
    CARDANO_ERROR_POINTER_IS_NULL
  | CARDANO_ERROR_MEMORY_ALLOCATION_FAILED
  | CARDANO_ERROR_DECODING
  | CARDANO_ERROR_UNEXPECTED_CBOR_TYPE
  | CARDANO_ERROR_ENCODING
  | ArityViolation string nat nat
  | DiscriminantViolation string string "64 word" string "64 word" string
  | EndOfArrayViolation string
  | UnknownDiscriminant string "64 word" "64 word list"
  | DANGLING_POINTER
  | RECURSION_BUDGET_EXHAUSTED

fun is_schema_violation :: "cardano_error \<Rightarrow> bool" where
  "is_schema_violation (ArityViolation _ _ _) = True"
| "is_schema_violation (DiscriminantViolation _ _ _ _ _ _) = True"
| "is_schema_violation (EndOfArrayViolation _) = True"
| "is_schema_violation (UnknownDiscriminant _ _ _) = True"
| "is_schema_violation _ = False"

section \<open>CBOR reader and writer\<close>

text \<open>
  Modelled from the spec: the CBOR reader and writer (\<^verbatim>\<open>cbor_reader.h\<close>,
  \<^verbatim>\<open>cbor_writer.h\<close>) are external to the sources; the spec exposes them as fallible
  read/write-typed-value operations over an in-memory buffer with definite-length arrays
  only. The buffer is a list of tokens, one per CBOR head; \<open>TArray n\<close> opens an array of
  \<open>n\<close> items. The reader keeps, innermost first, the number of items still to be read
  in each open array.
\<close>

datatype cbor_token =
    TUInt "64 word"
  | TNull
  | TBytes "8 word list"
  | TText string
  | TArray nat

datatype cardano_cbor_reader_state_t =
    CARDANO_CBOR_READER_STATE_UNSIGNED_INTEGER
  | CARDANO_CBOR_READER_STATE_NULL
  | CARDANO_CBOR_READER_STATE_BYTESTRING
  | CARDANO_CBOR_READER_STATE_TEXTSTRING
  | CARDANO_CBOR_READER_STATE_START_ARRAY
  | CARDANO_CBOR_READER_STATE_END_ARRAY
  | CARDANO_CBOR_READER_STATE_FINISHED

record cbor_reader =
  tokens :: "cbor_token list"
  frames :: "nat list"

record cbor_writer =
  buffer :: "cbor_token list"
  capacity :: nat

definition cardano_cbor_reader_new :: "cbor_token list \<Rightarrow> cbor_reader" where
  "cardano_cbor_reader_new ts = \<lparr>tokens = ts, frames = []\<rparr>"

definition cardano_cbor_writer_new :: "nat \<Rightarrow> cbor_writer" where
  "cardano_cbor_writer_new cap = \<lparr>buffer = [], capacity = cap\<rparr>"

fun token_state :: "cbor_token \<Rightarrow> cardano_cbor_reader_state_t" where
  "token_state (TUInt _) = CARDANO_CBOR_READER_STATE_UNSIGNED_INTEGER"
| "token_state TNull = CARDANO_CBOR_READER_STATE_NULL"
| "token_state (TBytes _) = CARDANO_CBOR_READER_STATE_BYTESTRING"
| "token_state (TText _) = CARDANO_CBOR_READER_STATE_TEXTSTRING"
| "token_state (TArray _) = CARDANO_CBOR_READER_STATE_START_ARRAY"

fun at_end_of_array :: "nat list \<Rightarrow> bool" where
  "at_end_of_array [] = False"
| "at_end_of_array (n # fs) = (n = 0)"

fun item_read :: "nat list \<Rightarrow> nat list" where
  "item_read [] = []"
| "item_read (n # fs) = (n - 1) # fs"

definition cardano_cbor_reader_peek_state ::
  "cbor_reader \<Rightarrow> cardano_error + cardano_cbor_reader_state_t" where
  "cardano_cbor_reader_peek_state r =
     (if at_end_of_array (frames r) then Inr CARDANO_CBOR_READER_STATE_END_ARRAY
      else case tokens r of
             [] \<Rightarrow> (if frames r = [] then Inr CARDANO_CBOR_READER_STATE_FINISHED
                    else Inl CARDANO_ERROR_DECODING)
           | t # _ \<Rightarrow> Inr (token_state t))"

definition cardano_cbor_reader_read_uint ::
  "cbor_reader \<Rightarrow> cardano_error + (64 word \<times> cbor_reader)" where
  "cardano_cbor_reader_read_uint r =
     (case cardano_cbor_reader_peek_state r of
        Inl e \<Rightarrow> Inl e
      | Inr st \<Rightarrow>
          (case tokens r of
             TUInt v # ts \<Rightarrow>
               (if st = CARDANO_CBOR_READER_STATE_UNSIGNED_INTEGER
                then Inr (v, \<lparr>tokens = ts, frames = item_read (frames r)\<rparr>)
                else Inl CARDANO_ERROR_UNEXPECTED_CBOR_TYPE)
           | _ \<Rightarrow> Inl CARDANO_ERROR_UNEXPECTED_CBOR_TYPE))"

definition cardano_cbor_reader_read_null :: "cbor_reader \<Rightarrow> cardano_error + cbor_reader" where
  "cardano_cbor_reader_read_null r =
     (case cardano_cbor_reader_peek_state r of
        Inl e \<Rightarrow> Inl e
      | Inr st \<Rightarrow>
          (case tokens r of
             TNull # ts \<Rightarrow>
               (if st = CARDANO_CBOR_READER_STATE_NULL
                then Inr \<lparr>tokens = ts, frames = item_read (frames r)\<rparr>
                else Inl CARDANO_ERROR_UNEXPECTED_CBOR_TYPE)
           | _ \<Rightarrow> Inl CARDANO_ERROR_UNEXPECTED_CBOR_TYPE))"

definition cardano_cbor_reader_read_bytestring ::
  "cbor_reader \<Rightarrow> cardano_error + (8 word list \<times> cbor_reader)" where
  "cardano_cbor_reader_read_bytestring r =
     (case cardano_cbor_reader_peek_state r of
        Inl e \<Rightarrow> Inl e
      | Inr st \<Rightarrow>
          (case tokens r of
             TBytes bs # ts \<Rightarrow>
               (if st = CARDANO_CBOR_READER_STATE_BYTESTRING
                then Inr (bs, \<lparr>tokens = ts, frames = item_read (frames r)\<rparr>)
                else Inl CARDANO_ERROR_UNEXPECTED_CBOR_TYPE)
           | _ \<Rightarrow> Inl CARDANO_ERROR_UNEXPECTED_CBOR_TYPE))"

definition cardano_cbor_reader_read_textstring ::
  "cbor_reader \<Rightarrow> cardano_error + (string \<times> cbor_reader)" where
  "cardano_cbor_reader_read_textstring r =
     (case cardano_cbor_reader_peek_state r of
        Inl e \<Rightarrow> Inl e
      | Inr st \<Rightarrow>
          (case tokens r of
             TText s # ts \<Rightarrow>
               (if st = CARDANO_CBOR_READER_STATE_TEXTSTRING
                then Inr (s, \<lparr>tokens = ts, frames = item_read (frames r)\<rparr>)
                else Inl CARDANO_ERROR_UNEXPECTED_CBOR_TYPE)
           | _ \<Rightarrow> Inl CARDANO_ERROR_UNEXPECTED_CBOR_TYPE))"

text \<open>Opening an array counts as one item of the enclosing array and pushes its length.\<close>

definition cardano_cbor_reader_read_start_array ::
  "cbor_reader \<Rightarrow> cardano_error + (nat \<times> cbor_reader)" where
  "cardano_cbor_reader_read_start_array r =
     (case cardano_cbor_reader_peek_state r of
        Inl e \<Rightarrow> Inl e
      | Inr st \<Rightarrow>
          (case tokens r of
             TArray n # ts \<Rightarrow>
               (if st = CARDANO_CBOR_READER_STATE_START_ARRAY
                then Inr (n, \<lparr>tokens = ts, frames = n # item_read (frames r)\<rparr>)
                else Inl CARDANO_ERROR_UNEXPECTED_CBOR_TYPE)
           | _ \<Rightarrow> Inl CARDANO_ERROR_UNEXPECTED_CBOR_TYPE))"

definition cardano_cbor_reader_read_end_array :: "cbor_reader \<Rightarrow> cardano_error + cbor_reader" where
  "cardano_cbor_reader_read_end_array r =
     (case frames r of
        [] \<Rightarrow> Inl CARDANO_ERROR_UNEXPECTED_CBOR_TYPE
      | n # fs \<Rightarrow>
          (if n = 0 then Inr \<lparr>tokens = tokens r, frames = fs\<rparr>
           else Inl CARDANO_ERROR_UNEXPECTED_CBOR_TYPE))"

text \<open>Every write appends one token and fails when the buffer has no room left.\<close>

definition write_token :: "cbor_token \<Rightarrow> cbor_writer \<Rightarrow> cardano_error + cbor_writer" where
  "write_token t w =
     (if capacity w = 0 then Inl CARDANO_ERROR_ENCODING
      else Inr \<lparr>buffer = buffer w @ [t], capacity = capacity w - 1\<rparr>)"

definition cardano_cbor_writer_write_start_array ::
  "cbor_writer \<Rightarrow> nat \<Rightarrow> cardano_error + cbor_writer" where
  "cardano_cbor_writer_write_start_array w n = write_token (TArray n) w"

definition cardano_cbor_writer_write_uint ::
  "cbor_writer \<Rightarrow> 64 word \<Rightarrow> cardano_error + cbor_writer" where
  "cardano_cbor_writer_write_uint w v = write_token (TUInt v) w"


definition cardano_cbor_writer_write_bytestring ::
  "cbor_writer \<Rightarrow> 8 word list \<Rightarrow> cardano_error + cbor_writer" where
  "cardano_cbor_writer_write_bytestring w bs = write_token (TBytes bs) w"

definition cardano_cbor_writer_write_textstring ::
  "cbor_writer \<Rightarrow> string \<Rightarrow> cardano_error + cbor_writer" where
  "cardano_cbor_writer_write_textstring w s = write_token (TText s) w"

section \<open>Shared validators\<close>

text \<open>
  Modelled from the spec: the three reusable checks of \<^verbatim>\<open>cbor_validation.h\<close>:
  "expect array of exactly N elements" (fails naming expected versus actual), "expect enum
  value matching tag T" (fails naming the field, the expected tag and the actual value)
  and "expect end of array" (fails if data remains in the array). A failure of the
  underlying read is passed on as it is.
\<close>

definition cardano_cbor_validate_array_of_n_elements ::
  "string \<Rightarrow> cbor_reader \<Rightarrow> nat \<Rightarrow> cardano_error + cbor_reader" where
  "cardano_cbor_validate_array_of_n_elements validator_name reader n =
     (case cardano_cbor_reader_read_start_array reader of
        Inl e \<Rightarrow> Inl e
      | Inr (array_size, r) \<Rightarrow>
          (if array_size \<noteq> n then Inl (ArityViolation validator_name n array_size)
           else Inr r))"

definition cardano_cbor_validate_enum_value ::
  "string \<Rightarrow> string \<Rightarrow> cbor_reader \<Rightarrow> 64 word \<Rightarrow> (64 word \<Rightarrow> string)
     \<Rightarrow> cardano_error + (64 word \<times> cbor_reader)" where
  "cardano_cbor_validate_enum_value validator_name field_name reader expected enum_to_string =
     (case cardano_cbor_reader_read_uint reader of
        Inl e \<Rightarrow> Inl e
      | Inr (actual, r) \<Rightarrow>
          (if actual \<noteq> expected
           then Inl (DiscriminantViolation validator_name field_name
                       expected (enum_to_string expected) actual (enum_to_string actual))
           else Inr (actual, r)))"

definition cardano_cbor_validate_end_array ::
  "string \<Rightarrow> cbor_reader \<Rightarrow> cardano_error + cbor_reader" where
  "cardano_cbor_validate_end_array validator_name reader =
     (case cardano_cbor_reader_read_end_array reader of
        Inl e \<Rightarrow> Inl (EndOfArrayViolation validator_name)
      | Inr r \<Rightarrow> Inr r)"

section \<open>Objects, pointers and the heap\<close>

text \<open>
  A pointer is \<open>None\<close> (NULL) or the address of an object. An out-parameter of type
  \<^verbatim>\<open>T**\<close> is a \<open>ptr option\<close>: \<open>None\<close> when the out-parameter itself is NULL, \<open>Some p\<close>
  when it designates a slot that holds \<open>p\<close>; a function that writes the slot returns its
  new content.
\<close>

type_synonym ptr = "nat option"

text \<open>
  Modelled from the spec: \<^verbatim>\<open>cardano_object_t\<close> (\<^verbatim>\<open>cardano/object.h\<close>, not among the
  sources), the base every entity embeds: a strong-reference count that starts at 1, is
  incremented on share and decremented on release, and an error message slot. The
  deallocator hook is the deallocation function of the entity's type.
\<close>

record cardano_object_t =
  ref_count :: nat
  last_error :: string

definition cardano_object_ref ::
  "'z cardano_object_t_scheme \<Rightarrow> 'z cardano_object_t_scheme" where
  "cardano_object_ref object = object\<lparr>ref_count := ref_count object + 1\<rparr>"

text \<open>
  \<open>cardano_object_unref\<close> returns \<open>None\<close> when the count has reached 0: the object is
  then deallocated and the caller's pointer set to NULL.
\<close>

definition cardano_object_unref ::
  "'z cardano_object_t_scheme \<Rightarrow> 'z cardano_object_t_scheme option" where
  "cardano_object_unref object =
     (if ref_count object - 1 = 0 then None
      else Some (object\<lparr>ref_count := ref_count object - 1\<rparr>))"

definition cardano_object_refcount :: "'z cardano_object_t_scheme \<Rightarrow> nat" where
  "cardano_object_refcount object = ref_count object"

text \<open>
  The two certificate structs of the sources, and the credential and anchor objects they
  point to. The struct fields \<^verbatim>\<open>credential\<close> and \<^verbatim>\<open>anchor\<close> carry the struct's name as
  a prefix, since both structs have a field \<^verbatim>\<open>credential\<close> and the functions have
  parameters of the same names. The content of a credential and of an anchor is a type
  parameter: their sources are external.
\<close>

record 'c cardano_credential_t = cardano_object_t +
  credential_value :: 'c

record 'a cardano_anchor_t = cardano_object_t +
  anchor_value :: 'a

record cardano_update_drep_cert_t = cardano_object_t +
  update_drep_cert_credential :: ptr
  update_drep_cert_anchor :: ptr

record cardano_stake_registration_cert_t = cardano_object_t +
  stake_registration_cert_credential :: ptr

text \<open>
  The heap holds one store per object type; an address is an index into the store, a
  freed cell is \<open>None\<close>. \<open>avail\<close> is the number of allocations that can still succeed:
  \<^verbatim>\<open>_cardano_malloc\<close> returns NULL when it is 0, takes one otherwise, and
  \<^verbatim>\<open>_cardano_free\<close> gives one back.
\<close>

record ('c, 'a) heap =
  credentials :: "'c cardano_credential_t option list"
  anchors :: "'a cardano_anchor_t option list"
  update_drep_certs :: "cardano_update_drep_cert_t option list"
  stake_registration_certs :: "cardano_stake_registration_cert_t option list"
  avail :: nat

definition deref :: "'x option list \<Rightarrow> ptr \<Rightarrow> 'x option" where
  "deref store p =
     (case p of None \<Rightarrow> None
      | Some a \<Rightarrow> (if a < length store then store ! a else None))"

section \<open>External collaborators\<close>

text \<open>
  The parts of the repository that the certificate sources use and that are not among
  them, taken as parameters: the two discriminants of the certificate-type enumeration
  and its name table (\<^verbatim>\<open>cardano/certs/cert_type.h\<close>), and the wire codecs of the
  credential and of the anchor.
\<close>

record ('c, 'a) externals =
  CARDANO_CERT_TYPE_STAKE_REGISTRATION :: "64 word"
  CARDANO_CERT_TYPE_UPDATE_DREP :: "64 word"
  cardano_cert_type_to_string :: "64 word \<Rightarrow> string"
  credential_value_from_cbor :: "cbor_reader \<Rightarrow> cardano_error + ('c \<times> cbor_reader)"
  credential_value_to_cbor :: "'c \<Rightarrow> cbor_writer \<Rightarrow> cardano_error + cbor_writer"
  anchor_value_from_cbor :: "cbor_reader \<Rightarrow> cardano_error + ('a \<times> cbor_reader)"
  anchor_value_to_cbor :: "'a \<Rightarrow> cbor_writer \<Rightarrow> cardano_error + cbor_writer"

text \<open>
  Modelled from the spec: the credential and anchor entities (\<^verbatim>\<open>credential.h\<close>,
  \<^verbatim>\<open>anchor.h\<close>, not among the sources) expose \<^verbatim>\<open>from_cbor\<close>, \<^verbatim>\<open>to_cbor\<close>, \<^verbatim>\<open>ref\<close>,
  \<^verbatim>\<open>unref\<close> and \<^verbatim>\<open>refcount\<close> under the contract of every entity: \<^verbatim>\<open>refcount\<close> is 0
  on NULL, \<^verbatim>\<open>ref\<close> and \<^verbatim>\<open>unref\<close> are no-ops on
  NULL, \<^verbatim>\<open>from_cbor\<close> creates an object of count 1 or fails leaving nothing behind,
  \<^verbatim>\<open>unref\<close> frees the object on the last release and sets the caller's pointer to NULL.
  \<open>cardano_credential_unref h p\<close> takes the content \<open>p\<close> of the slot whose address the C
  call passes and returns the slot's new content. On a pointer to a freed cell (undefined
  behaviour in C) \<^verbatim>\<open>ref\<close> and \<^verbatim>\<open>unref\<close> leave the heap as it is.
\<close>

definition cardano_credential_ref :: "('c, 'a) heap \<Rightarrow> ptr \<Rightarrow> ('c, 'a) heap" where
  "cardano_credential_ref h credential =
     (case credential of None \<Rightarrow> h
      | Some a \<Rightarrow>
          (case deref (credentials h) (Some a) of None \<Rightarrow> h
           | Some object \<Rightarrow>
               h\<lparr>credentials := (credentials h)[a := Some (cardano_object_ref object)]\<rparr>))"

definition cardano_credential_unref :: "('c, 'a) heap \<Rightarrow> ptr \<Rightarrow> ('c, 'a) heap \<times> ptr" where
  "cardano_credential_unref h credential =
     (case credential of None \<Rightarrow> (h, None)
      | Some a \<Rightarrow>
          (case deref (credentials h) (Some a) of None \<Rightarrow> (h, Some a)
           | Some object \<Rightarrow>
               (case cardano_object_unref object of
                  Some object' \<Rightarrow> (h\<lparr>credentials := (credentials h)[a := Some object']\<rparr>, Some a)
                | None \<Rightarrow>
                    (h\<lparr>credentials := (credentials h)[a := None], avail := avail h + 1\<rparr>,
                     None))))"

definition cardano_anchor_ref :: "('c, 'a) heap \<Rightarrow> ptr \<Rightarrow> ('c, 'a) heap" where
  "cardano_anchor_ref h anchor =
     (case anchor of None \<Rightarrow> h
      | Some a \<Rightarrow>
          (case deref (anchors h) (Some a) of None \<Rightarrow> h
           | Some object \<Rightarrow>
               h\<lparr>anchors := (anchors h)[a := Some (cardano_object_ref object)]\<rparr>))"

definition cardano_anchor_unref :: "('c, 'a) heap \<Rightarrow> ptr \<Rightarrow> ('c, 'a) heap \<times> ptr" where
  "cardano_anchor_unref h anchor =
     (case anchor of None \<Rightarrow> (h, None)
      | Some a \<Rightarrow>
          (case deref (anchors h) (Some a) of None \<Rightarrow> (h, Some a)
           | Some object \<Rightarrow>
               (case cardano_object_unref object of
                  Some object' \<Rightarrow> (h\<lparr>anchors := (anchors h)[a := Some object']\<rparr>, Some a)
                | None \<Rightarrow>
                    (h\<lparr>anchors := (anchors h)[a := None], avail := avail h + 1\<rparr>, None))))"

definition cardano_credential_refcount :: "('c, 'a) heap \<Rightarrow> ptr \<Rightarrow> nat" where
  "cardano_credential_refcount h credential =
     (case deref (credentials h) credential of None \<Rightarrow> 0
      | Some object \<Rightarrow> cardano_object_refcount object)"

definition cardano_anchor_refcount :: "('c, 'a) heap \<Rightarrow> ptr \<Rightarrow> nat" where
  "cardano_anchor_refcount h anchor =
     (case deref (anchors h) anchor of None \<Rightarrow> 0
      | Some object \<Rightarrow> cardano_object_refcount object)"

definition cardano_credential_from_cbor ::
  "('c, 'a) externals \<Rightarrow> ('c, 'a) heap \<Rightarrow> cbor_reader
     \<Rightarrow> (cardano_error + (ptr \<times> cbor_reader)) \<times> ('c, 'a) heap" where
  "cardano_credential_from_cbor ext h reader =
     (case credential_value_from_cbor ext reader of
        Inl e \<Rightarrow> (Inl e, h)
      | Inr (v, r) \<Rightarrow>
          (if avail h = 0 then (Inl CARDANO_ERROR_MEMORY_ALLOCATION_FAILED, h)
           else (Inr (Some (length (credentials h)), r),
                 h\<lparr>credentials := credentials h @
                      [Some \<lparr>ref_count = 1, last_error = [], credential_value = v\<rparr>],
                    avail := avail h - 1\<rparr>)))"

definition cardano_anchor_from_cbor ::
  "('c, 'a) externals \<Rightarrow> ('c, 'a) heap \<Rightarrow> cbor_reader
     \<Rightarrow> (cardano_error + (ptr \<times> cbor_reader)) \<times> ('c, 'a) heap" where
  "cardano_anchor_from_cbor ext h reader =
     (case anchor_value_from_cbor ext reader of
        Inl e \<Rightarrow> (Inl e, h)
      | Inr (v, r) \<Rightarrow>
          (if avail h = 0 then (Inl CARDANO_ERROR_MEMORY_ALLOCATION_FAILED, h)
           else (Inr (Some (length (anchors h)), r),
                 h\<lparr>anchors := anchors h @
                      [Some \<lparr>ref_count = 1, last_error = [], anchor_value = v\<rparr>],
                    avail := avail h - 1\<rparr>)))"



section \<open>The update-DRep certificate (update_drep_cert.c)\<close>

definition UPDATE_DREP_EMBEDDED_GROUP_SIZE :: nat where
  "UPDATE_DREP_EMBEDDED_GROUP_SIZE = 3"

definition cardano_update_drep_cert_deallocate :: "('c, 'a) heap \<Rightarrow> nat \<Rightarrow> ('c, 'a) heap" where
  "cardano_update_drep_cert_deallocate h object =
     (case deref (update_drep_certs h) (Some object) of
        None \<Rightarrow> h
      | Some data \<Rightarrow>
          (let (h1, c) = cardano_credential_unref h (update_drep_cert_credential data);
               (h2, a) = cardano_anchor_unref h1 (update_drep_cert_anchor data)
           in h2\<lparr>update_drep_certs := (update_drep_certs h2)[object := None],
                 avail := avail h2 + 1\<rparr>))"

definition cardano_update_drep_cert_new ::
  "('c, 'a) heap \<Rightarrow> ptr \<Rightarrow> ptr \<Rightarrow> ptr option
     \<Rightarrow> (cardano_error + unit) \<times> ptr option \<times> ('c, 'a) heap" where
  "cardano_update_drep_cert_new h drep_credential anchor update_drep_cert =
     (if drep_credential = None then (Inl CARDANO_ERROR_POINTER_IS_NULL, update_drep_cert, h)
      else if update_drep_cert = None
      then (Inl CARDANO_ERROR_POINTER_IS_NULL, update_drep_cert, h)
      else if avail h = 0
      then (Inl CARDANO_ERROR_MEMORY_ALLOCATION_FAILED, update_drep_cert, h)
      else
        (let data = length (update_drep_certs h);
             h1 = h\<lparr>avail := avail h - 1\<rparr>;
             h2 = cardano_credential_ref h1 drep_credential;
             h3 = (if anchor \<noteq> None then cardano_anchor_ref h2 anchor else h2)
         in (Inr (), Some (Some data),
             h3\<lparr>update_drep_certs := update_drep_certs h3 @
                  [Some \<lparr>ref_count = 1, last_error = [],
                         update_drep_cert_credential = drep_credential,
                         update_drep_cert_anchor = anchor\<rparr>]\<rparr>)))"

text \<open>
  \<open>cardano_update_drep_cert_from_cbor\<close> returns the status (the advanced reader on
  success), the content of the out-parameter's slot and the heap. The result of
  \<^verbatim>\<open>cardano_cbor_reader_read_null\<close> is discarded, as in the source.
\<close>

definition cardano_update_drep_cert_from_cbor ::
  "('c, 'a) externals \<Rightarrow> ('c, 'a) heap \<Rightarrow> cbor_reader option \<Rightarrow> ptr option
     \<Rightarrow> (cardano_error + cbor_reader) \<times> ptr option \<times> ('c, 'a) heap" where
  "cardano_update_drep_cert_from_cbor ext h reader update_drep_cert =
     (case reader of
        None \<Rightarrow> (Inl CARDANO_ERROR_POINTER_IS_NULL, update_drep_cert, h)
      | Some r \<Rightarrow>
     (if update_drep_cert = None
      then (Inl CARDANO_ERROR_POINTER_IS_NULL, update_drep_cert, h)
      else
     (case cardano_cbor_validate_array_of_n_elements ''update_drep_cert'' r
             UPDATE_DREP_EMBEDDED_GROUP_SIZE of
        Inl expect_array_result \<Rightarrow> (Inl expect_array_result, update_drep_cert, h)
      | Inr r1 \<Rightarrow>
     (case cardano_cbor_validate_enum_value ''update_drep_cert'' ''type'' r1
             (CARDANO_CERT_TYPE_UPDATE_DREP ext) (cardano_cert_type_to_string ext) of
        Inl read_uint_result \<Rightarrow> (Inl read_uint_result, update_drep_cert, h)
      | Inr (ty, r2) \<Rightarrow>
     (case cardano_credential_from_cbor ext h r2 of
        (Inl read_credential_result, h1) \<Rightarrow> (Inl read_credential_result, update_drep_cert, h1)
      | (Inr (credential, r3), h1) \<Rightarrow>
     (case cardano_cbor_reader_peek_state r3 of
        Inl read_state \<Rightarrow>
          (Inl read_state, update_drep_cert, fst (cardano_credential_unref h1 credential))
      | Inr state \<Rightarrow>
     (case (if state = CARDANO_CBOR_READER_STATE_NULL
            then (Inr (None, (case cardano_cbor_reader_read_null r3 of
                                Inl read_null \<Rightarrow> r3 | Inr r' \<Rightarrow> r')), h1)
            else cardano_anchor_from_cbor ext h1 r3) of
        (Inl read_anchor_result, h2) \<Rightarrow>
          (Inl read_anchor_result, update_drep_cert,
           fst (cardano_credential_unref h2 credential))
      | (Inr (anchor, r4), h2) \<Rightarrow>
          (let (new_result, out, h3) =
                 cardano_update_drep_cert_new h2 credential anchor update_drep_cert;
               (h4, c) = cardano_credential_unref h3 credential;
               (h5, a) = cardano_anchor_unref h4 anchor
           in (case new_result of
                 Inl e \<Rightarrow> (Inl e, out, h5)
               | Inr _ \<Rightarrow>
                   (cardano_cbor_validate_end_array ''update_drep_cert'' r4, out, h5))))))))))"


text \<open>
  The getters return the pointer and the heap. On a non-NULL certificate pointer to a
  freed cell (undefined behaviour in C) the getters return NULL, the setters and
  \<^verbatim>\<open>to_cbor\<close> return \<open>DANGLING_POINTER\<close>, \<^verbatim>\<open>ref\<close> and \<^verbatim>\<open>unref\<close> leave the heap as it
  is and \<^verbatim>\<open>refcount\<close> returns 0.
\<close>

definition cardano_update_drep_cert_get_credential ::
  "('c, 'a) heap \<Rightarrow> ptr \<Rightarrow> ptr \<times> ('c, 'a) heap" where
  "cardano_update_drep_cert_get_credential h certificate =
     (case certificate of
        None \<Rightarrow> (None, h)
      | Some p \<Rightarrow>
          (case deref (update_drep_certs h) (Some p) of
             None \<Rightarrow> (None, h)
           | Some data \<Rightarrow>
               (update_drep_cert_credential data,
                cardano_credential_ref h (update_drep_cert_credential data))))"

definition cardano_update_drep_cert_set_credential ::
  "('c, 'a) heap \<Rightarrow> ptr \<Rightarrow> ptr \<Rightarrow> (cardano_error + unit) \<times> ('c, 'a) heap" where
  "cardano_update_drep_cert_set_credential h certificate credential =
     (case certificate of
        None \<Rightarrow> (Inl CARDANO_ERROR_POINTER_IS_NULL, h)
      | Some p \<Rightarrow>
     (if credential = None then (Inl CARDANO_ERROR_POINTER_IS_NULL, h)
      else
     (case deref (update_drep_certs h) (Some p) of
        None \<Rightarrow> (Inl DANGLING_POINTER, h)
      | Some data \<Rightarrow>
          (let h1 = cardano_credential_ref h credential;
               (h2, slot) = cardano_credential_unref h1 (update_drep_cert_credential data);
               h3 = h2\<lparr>update_drep_certs := (update_drep_certs h2)
                       [p := Some (data\<lparr>update_drep_cert_credential := slot\<rparr>)]\<rparr>
           in (Inr (),
               h3\<lparr>update_drep_certs := (update_drep_certs h3)
                    [p := Some (data\<lparr>update_drep_cert_credential := credential\<rparr>)]\<rparr>)))))"

definition cardano_update_drep_cert_get_anchor ::
  "('c, 'a) heap \<Rightarrow> ptr \<Rightarrow> ptr \<times> ('c, 'a) heap" where
  "cardano_update_drep_cert_get_anchor h certificate =
     (case certificate of
        None \<Rightarrow> (None, h)
      | Some p \<Rightarrow>
          (case deref (update_drep_certs h) (Some p) of
             None \<Rightarrow> (None, h)
           | Some data \<Rightarrow>
               (update_drep_cert_anchor data,
                cardano_anchor_ref h (update_drep_cert_anchor data))))"

definition cardano_update_drep_cert_set_anchor ::
  "('c, 'a) heap \<Rightarrow> ptr \<Rightarrow> ptr \<Rightarrow> (cardano_error + unit) \<times> ('c, 'a) heap" where
  "cardano_update_drep_cert_set_anchor h certificate anchor =
     (case certificate of
        None \<Rightarrow> (Inl CARDANO_ERROR_POINTER_IS_NULL, h)
      | Some p \<Rightarrow>
     (if anchor = None then (Inl CARDANO_ERROR_POINTER_IS_NULL, h)
      else
     (case deref (update_drep_certs h) (Some p) of
        None \<Rightarrow> (Inl DANGLING_POINTER, h)
      | Some data \<Rightarrow>
          (let h1 = cardano_anchor_ref h anchor;
               (h2, slot) = cardano_anchor_unref h1 (update_drep_cert_anchor data);
               h3 = h2\<lparr>update_drep_certs := (update_drep_certs h2)
                       [p := Some (data\<lparr>update_drep_cert_anchor := slot\<rparr>)]\<rparr>
           in (Inr (),
               h3\<lparr>update_drep_certs := (update_drep_certs h3)
                    [p := Some (data\<lparr>update_drep_cert_anchor := anchor\<rparr>)]\<rparr>)))))"

definition cardano_update_drep_cert_unref ::
  "('c, 'a) heap \<Rightarrow> ptr option \<Rightarrow> ('c, 'a) heap \<times> ptr option" where
  "cardano_update_drep_cert_unref h update_drep_cert =
     (case update_drep_cert of
        None \<Rightarrow> (h, None)
      | Some None \<Rightarrow> (h, Some None)
      | Some (Some p) \<Rightarrow>
          (case deref (update_drep_certs h) (Some p) of
             None \<Rightarrow> (h, Some (Some p))
           | Some data \<Rightarrow>
               (case cardano_object_unref data of
                  Some data' \<Rightarrow>
                    (h\<lparr>update_drep_certs := (update_drep_certs h)[p := Some data']\<rparr>,
                     Some (Some p))
                | None \<Rightarrow> (cardano_update_drep_cert_deallocate h p, Some None))))"

definition cardano_update_drep_cert_ref :: "('c, 'a) heap \<Rightarrow> ptr \<Rightarrow> ('c, 'a) heap" where
  "cardano_update_drep_cert_ref h update_drep_cert =
     (case update_drep_cert of
        None \<Rightarrow> h
      | Some p \<Rightarrow>
          (case deref (update_drep_certs h) (Some p) of
             None \<Rightarrow> h
           | Some data \<Rightarrow>
               h\<lparr>update_drep_certs :=
                    (update_drep_certs h)[p := Some (cardano_object_ref data)]\<rparr>))"

definition cardano_update_drep_cert_refcount :: "('c, 'a) heap \<Rightarrow> ptr \<Rightarrow> nat" where
  "cardano_update_drep_cert_refcount h update_drep_cert =
     (case update_drep_cert of
        None \<Rightarrow> 0
      | Some p \<Rightarrow>
          (case deref (update_drep_certs h) (Some p) of
             None \<Rightarrow> 0
           | Some data \<Rightarrow> cardano_object_refcount data))"

section \<open>The stake-registration certificate (stake_registration_cert.c)\<close>

definition STAKE_REGISTRATION_EMBEDDED_GROUP_SIZE :: nat where
  "STAKE_REGISTRATION_EMBEDDED_GROUP_SIZE = 2"

definition cardano_stake_registration_cert_deallocate ::
  "('c, 'a) heap \<Rightarrow> nat \<Rightarrow> ('c, 'a) heap" where
  "cardano_stake_registration_cert_deallocate h object =
     (case deref (stake_registration_certs h) (Some object) of
        None \<Rightarrow> h
      | Some data \<Rightarrow>
          (let (h1, c) = cardano_credential_unref h (stake_registration_cert_credential data)
           in h1\<lparr>stake_registration_certs := (stake_registration_certs h1)[object := None],
                 avail := avail h1 + 1\<rparr>))"

definition cardano_stake_registration_cert_new ::
  "('c, 'a) heap \<Rightarrow> ptr \<Rightarrow> ptr option
     \<Rightarrow> (cardano_error + unit) \<times> ptr option \<times> ('c, 'a) heap" where
  "cardano_stake_registration_cert_new h credential stake_registration =
     (if credential = None then (Inl CARDANO_ERROR_POINTER_IS_NULL, stake_registration, h)
      else if stake_registration = None
      then (Inl CARDANO_ERROR_POINTER_IS_NULL, stake_registration, h)
      else if avail h = 0
      then (Inl CARDANO_ERROR_MEMORY_ALLOCATION_FAILED, stake_registration, h)
      else
        (let data = length (stake_registration_certs h);
             h1 = h\<lparr>avail := avail h - 1\<rparr>;
             h2 = cardano_credential_ref h1 credential
         in (Inr (), Some (Some data),
             h2\<lparr>stake_registration_certs := stake_registration_certs h2 @
                  [Some \<lparr>ref_count = 1, last_error = [],
                         stake_registration_cert_credential = credential\<rparr>]\<rparr>)))"

definition cardano_stake_registration_cert_from_cbor ::
  "('c, 'a) externals \<Rightarrow> ('c, 'a) heap \<Rightarrow> cbor_reader option \<Rightarrow> ptr option
     \<Rightarrow> (cardano_error + cbor_reader) \<times> ptr option \<times> ('c, 'a) heap" where
  "cardano_stake_registration_cert_from_cbor ext h reader stake_registration_cert =
     (case reader of
        None \<Rightarrow> (Inl CARDANO_ERROR_POINTER_IS_NULL, stake_registration_cert, h)
      | Some r \<Rightarrow>
     (if stake_registration_cert = None
      then (Inl CARDANO_ERROR_POINTER_IS_NULL, stake_registration_cert, h)
      else
     (case cardano_cbor_validate_array_of_n_elements ''stake_registration_cert'' r
             STAKE_REGISTRATION_EMBEDDED_GROUP_SIZE of
        Inl expect_array_result \<Rightarrow> (Inl expect_array_result, stake_registration_cert, h)
      | Inr r1 \<Rightarrow>
     (case cardano_cbor_validate_enum_value ''stake_registration_cert'' ''type'' r1
             (CARDANO_CERT_TYPE_STAKE_REGISTRATION ext) (cardano_cert_type_to_string ext) of
        Inl read_uint_result \<Rightarrow> (Inl read_uint_result, stake_registration_cert, h)
      | Inr (ty, r2) \<Rightarrow>
     (case cardano_credential_from_cbor ext h r2 of
        (Inl read_credential_result, h1) \<Rightarrow>
          (Inl read_credential_result, stake_registration_cert, h1)
      | (Inr (credential, r3), h1) \<Rightarrow>
          (let (new_result, out, h2) =
                 cardano_stake_registration_cert_new h1 credential stake_registration_cert;
               (h3, c) = cardano_credential_unref h2 credential
           in (case new_result of
                 Inl e \<Rightarrow> (Inl e, out, h3)
               | Inr _ \<Rightarrow>
                   (cardano_cbor_validate_end_array ''stake_registration_cert'' r3,
                    out, h3))))))))"


definition cardano_stake_registration_cert_get_credential ::
  "('c, 'a) heap \<Rightarrow> ptr \<Rightarrow> ptr \<times> ('c, 'a) heap" where
  "cardano_stake_registration_cert_get_credential h certificate =
     (case certificate of
        None \<Rightarrow> (None, h)
      | Some p \<Rightarrow>
          (case deref (stake_registration_certs h) (Some p) of
             None \<Rightarrow> (None, h)
           | Some data \<Rightarrow>
               (stake_registration_cert_credential data,
                cardano_credential_ref h (stake_registration_cert_credential data))))"

definition cardano_stake_registration_cert_set_credential ::
  "('c, 'a) heap \<Rightarrow> ptr \<Rightarrow> ptr \<Rightarrow> (cardano_error + unit) \<times> ('c, 'a) heap" where
  "cardano_stake_registration_cert_set_credential h certificate credential =
     (case certificate of
        None \<Rightarrow> (Inl CARDANO_ERROR_POINTER_IS_NULL, h)
      | Some p \<Rightarrow>
     (if credential = None then (Inl CARDANO_ERROR_POINTER_IS_NULL, h)
      else
     (case deref (stake_registration_certs h) (Some p) of
        None \<Rightarrow> (Inl DANGLING_POINTER, h)
      | Some data \<Rightarrow>
          (let h1 = cardano_credential_ref h credential;
               (h2, slot) =
                 cardano_credential_unref h1 (stake_registration_cert_credential data);
               h3 = h2\<lparr>stake_registration_certs := (stake_registration_certs h2)
                       [p := Some (data\<lparr>stake_registration_cert_credential := slot\<rparr>)]\<rparr>
           in (Inr (),
               h3\<lparr>stake_registration_certs := (stake_registration_certs h3)
                    [p := Some (data\<lparr>stake_registration_cert_credential := credential\<rparr>)]\<rparr>)))))"

definition cardano_stake_registration_cert_unref ::
  "('c, 'a) heap \<Rightarrow> ptr option \<Rightarrow> ('c, 'a) heap \<times> ptr option" where
  "cardano_stake_registration_cert_unref h stake_registration_cert =
     (case stake_registration_cert of
        None \<Rightarrow> (h, None)
      | Some None \<Rightarrow> (h, Some None)
      | Some (Some p) \<Rightarrow>
          (case deref (stake_registration_certs h) (Some p) of
             None \<Rightarrow> (h, Some (Some p))
           | Some data \<Rightarrow>
               (case cardano_object_unref data of
                  Some data' \<Rightarrow>
                    (h\<lparr>stake_registration_certs :=
                         (stake_registration_certs h)[p := Some data']\<rparr>,
                     Some (Some p))
                | None \<Rightarrow> (cardano_stake_registration_cert_deallocate h p, Some None))))"

definition cardano_stake_registration_cert_ref ::
  "('c, 'a) heap \<Rightarrow> ptr \<Rightarrow> ('c, 'a) heap" where
  "cardano_stake_registration_cert_ref h stake_registration_cert =
     (case stake_registration_cert of
        None \<Rightarrow> h
      | Some p \<Rightarrow>
          (case deref (stake_registration_certs h) (Some p) of
             None \<Rightarrow> h
           | Some data \<Rightarrow>
               h\<lparr>stake_registration_certs :=
                    (stake_registration_certs h)[p := Some (cardano_object_ref data)]\<rparr>))"

definition cardano_stake_registration_cert_refcount :: "('c, 'a) heap \<Rightarrow> ptr \<Rightarrow> nat" where
  "cardano_stake_registration_cert_refcount h stake_registration_cert =
     (case stake_registration_cert of
        None \<Rightarrow> 0
      | Some p \<Rightarrow>
          (case deref (stake_registration_certs h) (Some p) of
             None \<Rightarrow> 0
           | Some data \<Rightarrow> cardano_object_refcount data))"

section \<open>The contract of the credential and anchor codecs\<close>

text \<open>
  What the certificate codecs rely on from the codecs they delegate to, stated on the
  parameters. A decoder \<open>reads_one_item\<close> when a successful run advances the enclosing
  array by exactly one element. An encoder and a decoder \<open>round_trip\<close> when the decoder,
  run on what the encoder appended (whatever follows it in the buffer), returns the
  encoded value and stops after it. An encoder is \<open>never_null\<close> when the first token it
  appends is not a CBOR null: an optional field is told from an absent one by that token.
\<close>

definition reads_one_item :: "(cbor_reader \<Rightarrow> cardano_error + ('v \<times> cbor_reader)) \<Rightarrow> bool" where
  "reads_one_item dec \<longleftrightarrow>
     (\<forall>r v r'. dec r = Inr (v, r') \<longrightarrow> frames r' = item_read (frames r))"



text \<open>
  The content of a certificate, read through its pointers: the value of its credential and
  the value of its anchor, \<open>None\<close> for an absent one. Two certificates are structurally
  equal when their contents are.
\<close>

definition credential_value_at :: "('c, 'a) heap \<Rightarrow> ptr \<Rightarrow> 'c option" where
  "credential_value_at h p = map_option credential_value (deref (credentials h) p)"

definition anchor_value_at :: "('c, 'a) heap \<Rightarrow> ptr \<Rightarrow> 'a option" where
  "anchor_value_at h p = map_option anchor_value (deref (anchors h) p)"



text \<open>
  Two heaps hold the \<open>same_objects\<close> when every pointer designates the same object, with
  the same count, in both, and as many allocations remain possible: nothing has been
  allocated and kept, nothing released, no count changed.
\<close>

definition same_objects :: "('c, 'a) heap \<Rightarrow> ('c, 'a) heap \<Rightarrow> bool" where
  "same_objects h h' \<longleftrightarrow>
     (\<forall>p. deref (credentials h') p = deref (credentials h) p)
   \<and> (\<forall>p. deref (anchors h') p = deref (anchors h) p)
   \<and> (\<forall>p. deref (update_drep_certs h') p = deref (update_drep_certs h) p)
   \<and> (\<forall>p. deref (stake_registration_certs h') p = deref (stake_registration_certs h) p)
   \<and> avail h' = avail h"

section \<open>A sample instance of the external collaborators\<close>

text \<open>
  An instance of the parameters on which the certificate functions run on concrete
  inputs: the discriminants 0 (stake registration) and 18 (update DRep), a credential
  written as the array \<open>[type, hash]\<close> and an anchor written as the array \<open>[url, hash]\<close>,
  both decoded with the shared validators.
\<close>

definition sample_credential_to_cbor ::
  "64 word \<times> 8 word list \<Rightarrow> cbor_writer \<Rightarrow> cardano_error + cbor_writer" where
  "sample_credential_to_cbor v w =
     (case cardano_cbor_writer_write_start_array w 2 of
        Inl e \<Rightarrow> Inl e
      | Inr w1 \<Rightarrow>
          (case cardano_cbor_writer_write_uint w1 (fst v) of
             Inl e \<Rightarrow> Inl e
           | Inr w2 \<Rightarrow> cardano_cbor_writer_write_bytestring w2 (snd v)))"

definition sample_credential_from_cbor ::
  "cbor_reader \<Rightarrow> cardano_error + ((64 word \<times> 8 word list) \<times> cbor_reader)" where
  "sample_credential_from_cbor r =
     (case cardano_cbor_validate_array_of_n_elements ''credential'' r 2 of
        Inl e \<Rightarrow> Inl e
      | Inr r1 \<Rightarrow>
          (case cardano_cbor_reader_read_uint r1 of
             Inl e \<Rightarrow> Inl e
           | Inr (t, r2) \<Rightarrow>
               (case cardano_cbor_reader_read_bytestring r2 of
                  Inl e \<Rightarrow> Inl e
                | Inr (bs, r3) \<Rightarrow>
                    (case cardano_cbor_validate_end_array ''credential'' r3 of
                       Inl e \<Rightarrow> Inl e
                     | Inr r4 \<Rightarrow> Inr ((t, bs), r4)))))"

definition sample_anchor_to_cbor ::
  "string \<times> 8 word list \<Rightarrow> cbor_writer \<Rightarrow> cardano_error + cbor_writer" where
  "sample_anchor_to_cbor v w =
     (case cardano_cbor_writer_write_start_array w 2 of
        Inl e \<Rightarrow> Inl e
      | Inr w1 \<Rightarrow>
          (case cardano_cbor_writer_write_textstring w1 (fst v) of
             Inl e \<Rightarrow> Inl e
           | Inr w2 \<Rightarrow> cardano_cbor_writer_write_bytestring w2 (snd v)))"

definition sample_anchor_from_cbor ::
  "cbor_reader \<Rightarrow> cardano_error + ((string \<times> 8 word list) \<times> cbor_reader)" where
  "sample_anchor_from_cbor r =
     (case cardano_cbor_validate_array_of_n_elements ''anchor'' r 2 of
        Inl e \<Rightarrow> Inl e
      | Inr r1 \<Rightarrow>
          (case cardano_cbor_reader_read_textstring r1 of
             Inl e \<Rightarrow> Inl e
           | Inr (url, r2) \<Rightarrow>
               (case cardano_cbor_reader_read_bytestring r2 of
                  Inl e \<Rightarrow> Inl e
                | Inr (bs, r3) \<Rightarrow>
                    (case cardano_cbor_validate_end_array ''anchor'' r3 of
                       Inl e \<Rightarrow> Inl e
                     | Inr r4 \<Rightarrow> Inr ((url, bs), r4)))))"

definition sample_cert_type_to_string :: "64 word \<Rightarrow> string" where
  "sample_cert_type_to_string v =
     (if v = 0 then ''Stake Registration''
      else if v = 18 then ''Update DRep''
      else ''Unknown'')"

definition sample_externals ::
  "(64 word \<times> 8 word list, string \<times> 8 word list) externals" where
  "sample_externals =
     \<lparr>CARDANO_CERT_TYPE_STAKE_REGISTRATION = 0,
      CARDANO_CERT_TYPE_UPDATE_DREP = 18,
      cardano_cert_type_to_string = sample_cert_type_to_string,
      credential_value_from_cbor = sample_credential_from_cbor,
      credential_value_to_cbor = sample_credential_to_cbor,
      anchor_value_from_cbor = sample_anchor_from_cbor,
      anchor_value_to_cbor = sample_anchor_to_cbor\<rparr>"


text \<open>A heap with one credential and one anchor, each held once, and room for three objects.\<close>

definition sample_heap :: "(64 word \<times> 8 word list, string \<times> 8 word list) heap" where
  "sample_heap =
     \<lparr>credentials = [Some \<lparr>ref_count = 1, last_error = [], credential_value = (1, [7, 8, 9])\<rparr>],
      anchors = [Some \<lparr>ref_count = 1, last_error = [],
                      anchor_value = (''https://example.org'', [4, 5])\<rparr>],
      update_drep_certs = [], stake_registration_certs = [], avail = 3\<rparr>"

text \<open>
  A heap in which an update-DRep certificate without anchor and a stake-registration
  certificate share the credential, which the caller holds too.
\<close>

definition sample_cert_heap :: "(64 word \<times> 8 word list, string \<times> 8 word list) heap" where
  "sample_cert_heap =
     \<lparr>credentials = [Some \<lparr>ref_count = 3, last_error = [], credential_value = (1, [7, 8, 9])\<rparr>],
      anchors = [Some \<lparr>ref_count = 1, last_error = [],
                      anchor_value = (''https://example.org'', [4, 5])\<rparr>],
      update_drep_certs =
        [Some \<lparr>ref_count = 1, last_error = [], update_drep_cert_credential = Some 0,
               update_drep_cert_anchor = None\<rparr>],
      stake_registration_certs =
        [Some \<lparr>ref_count = 1, last_error = [], stake_registration_cert_credential = Some 0\<rparr>],
      avail = 1\<rparr>"

section \<open>Native scripts and the n-of-k script (script_n_of_k.h)\<close>

text \<open>
  Modelled from the spec: the native-script tree and its codec (\<^verbatim>\<open>native_script.c\<close>,
  \<^verbatim>\<open>script_n_of_k.c\<close>, \<^verbatim>\<open>native_script_list.c\<close>; of these only the header
  \<^verbatim>\<open>script_n_of_k.h\<close> is among the sources). A native script is a tagged union over
  PubKey (a credential hash), InvalidBefore and InvalidAfter (a slot), All and Any (an
  ordered child list) and AtLeast (a required count and an ordered child list). On the
  wire it is an array whose first element is the discriminant (0 PubKey, 1 All, 2 Any,
  3 AtLeast, 4 InvalidAfter, 5 InvalidBefore), followed by the fixed fields in declared
  order and then the child list as a length-prefixed array; the arity is 2, and 3 for
  AtLeast. The model keeps the tree as a value: reference counts play no part in the
  codec.
\<close>

datatype native_script =
    Script_PubKey "8 word list"
  | Script_InvalidBefore "64 word"
  | Script_InvalidAfter "64 word"
  | Script_All "native_script list"
  | Script_Any "native_script list"
  | Script_AtLeast "64 word" "native_script list"

record cardano_script_n_of_k_t =
  required :: "64 word"
  native_scripts :: "native_script list"

definition native_script_type_to_string :: "64 word \<Rightarrow> string" where
  "native_script_type_to_string v =
     (if v = 0 then ''PubKey'' else if v = 1 then ''All'' else if v = 2 then ''Any''
      else if v = 3 then ''AtLeast'' else if v = 4 then ''InvalidAfter''
      else if v = 5 then ''InvalidBefore'' else ''Unknown'')"

text \<open>
  Encoding writes the discriminant, the fixed fields, then the children depth-first in
  their order.
\<close>

fun cardano_native_script_to_cbor ::
  "native_script \<Rightarrow> cbor_writer \<Rightarrow> cardano_error + cbor_writer"
and native_script_items_to_cbor ::
  "native_script list \<Rightarrow> cbor_writer \<Rightarrow> cardano_error + cbor_writer" where
  "cardano_native_script_to_cbor (Script_PubKey h) w =
     (case cardano_cbor_writer_write_start_array w 2 of Inl e \<Rightarrow> Inl e | Inr w1 \<Rightarrow>
     (case cardano_cbor_writer_write_uint w1 0 of Inl e \<Rightarrow> Inl e | Inr w2 \<Rightarrow>
        cardano_cbor_writer_write_bytestring w2 h))"
| "cardano_native_script_to_cbor (Script_InvalidBefore slot) w =
     (case cardano_cbor_writer_write_start_array w 2 of Inl e \<Rightarrow> Inl e | Inr w1 \<Rightarrow>
     (case cardano_cbor_writer_write_uint w1 5 of Inl e \<Rightarrow> Inl e | Inr w2 \<Rightarrow>
        cardano_cbor_writer_write_uint w2 slot))"
| "cardano_native_script_to_cbor (Script_InvalidAfter slot) w =
     (case cardano_cbor_writer_write_start_array w 2 of Inl e \<Rightarrow> Inl e | Inr w1 \<Rightarrow>
     (case cardano_cbor_writer_write_uint w1 4 of Inl e \<Rightarrow> Inl e | Inr w2 \<Rightarrow>
        cardano_cbor_writer_write_uint w2 slot))"
| "cardano_native_script_to_cbor (Script_All children) w =
     (case cardano_cbor_writer_write_start_array w 2 of Inl e \<Rightarrow> Inl e | Inr w1 \<Rightarrow>
     (case cardano_cbor_writer_write_uint w1 1 of Inl e \<Rightarrow> Inl e | Inr w2 \<Rightarrow>
     (case cardano_cbor_writer_write_start_array w2 (length children) of
        Inl e \<Rightarrow> Inl e
      | Inr w3 \<Rightarrow> native_script_items_to_cbor children w3)))"
| "cardano_native_script_to_cbor (Script_Any children) w =
     (case cardano_cbor_writer_write_start_array w 2 of Inl e \<Rightarrow> Inl e | Inr w1 \<Rightarrow>
     (case cardano_cbor_writer_write_uint w1 2 of Inl e \<Rightarrow> Inl e | Inr w2 \<Rightarrow>
     (case cardano_cbor_writer_write_start_array w2 (length children) of
        Inl e \<Rightarrow> Inl e
      | Inr w3 \<Rightarrow> native_script_items_to_cbor children w3)))"
| "cardano_native_script_to_cbor (Script_AtLeast n children) w =
     (case cardano_cbor_writer_write_start_array w 3 of Inl e \<Rightarrow> Inl e | Inr w1 \<Rightarrow>
     (case cardano_cbor_writer_write_uint w1 3 of Inl e \<Rightarrow> Inl e | Inr w2 \<Rightarrow>
     (case cardano_cbor_writer_write_uint w2 n of Inl e \<Rightarrow> Inl e | Inr w3 \<Rightarrow>
     (case cardano_cbor_writer_write_start_array w3 (length children) of
        Inl e \<Rightarrow> Inl e
      | Inr w4 \<Rightarrow> native_script_items_to_cbor children w4))))"
| "native_script_items_to_cbor [] w = Inr w"
| "native_script_items_to_cbor (s # ss) w =
     (case cardano_native_script_to_cbor s w of
        Inl e \<Rightarrow> Inl e
      | Inr w1 \<Rightarrow> native_script_items_to_cbor ss w1)"

text \<open>
  Decoding reads the array header and the discriminant, checks the arity of the variant,
  reads the fixed fields, decodes each child of a list with the same decoder and stops at
  the first error; an unrecognised discriminant is a schema error naming the value and
  the allowed set. The recursion of the decoder is bounded by the input only; the model
  makes it structural with a budget that decreases at each nesting level.
\<close>

fun native_script_decode ::
  "nat \<Rightarrow> cbor_reader \<Rightarrow> cardano_error + (native_script \<times> cbor_reader)"
and native_script_list_decode ::
  "nat \<Rightarrow> cbor_reader \<Rightarrow> cardano_error + (native_script list \<times> cbor_reader)"
and native_script_items_decode ::
  "nat \<Rightarrow> nat \<Rightarrow> cbor_reader \<Rightarrow> cardano_error + (native_script list \<times> cbor_reader)" where
  "native_script_decode 0 r = Inl RECURSION_BUDGET_EXHAUSTED"
| "native_script_decode (Suc fuel) r =
     (case cardano_cbor_reader_read_start_array r of Inl e \<Rightarrow> Inl e | Inr (array_size, r1) \<Rightarrow>
     (case cardano_cbor_reader_read_uint r1 of Inl e \<Rightarrow> Inl e | Inr (tag, r2) \<Rightarrow>
      if tag = 0 then
        (if array_size \<noteq> 2 then Inl (ArityViolation ''native_script'' 2 array_size) else
        (case cardano_cbor_reader_read_bytestring r2 of Inl e \<Rightarrow> Inl e | Inr (h, r3) \<Rightarrow>
        (case cardano_cbor_validate_end_array ''native_script'' r3 of
           Inl e \<Rightarrow> Inl e | Inr r4 \<Rightarrow> Inr (Script_PubKey h, r4))))
      else if tag = 1 then
        (if array_size \<noteq> 2 then Inl (ArityViolation ''native_script'' 2 array_size) else
        (case native_script_list_decode fuel r2 of Inl e \<Rightarrow> Inl e | Inr (children, r3) \<Rightarrow>
        (case cardano_cbor_validate_end_array ''native_script'' r3 of
           Inl e \<Rightarrow> Inl e | Inr r4 \<Rightarrow> Inr (Script_All children, r4))))
      else if tag = 2 then
        (if array_size \<noteq> 2 then Inl (ArityViolation ''native_script'' 2 array_size) else
        (case native_script_list_decode fuel r2 of Inl e \<Rightarrow> Inl e | Inr (children, r3) \<Rightarrow>
        (case cardano_cbor_validate_end_array ''native_script'' r3 of
           Inl e \<Rightarrow> Inl e | Inr r4 \<Rightarrow> Inr (Script_Any children, r4))))
      else if tag = 3 then
        (if array_size \<noteq> 3 then Inl (ArityViolation ''native_script'' 3 array_size) else
        (case cardano_cbor_reader_read_uint r2 of Inl e \<Rightarrow> Inl e | Inr (n, r3) \<Rightarrow>
        (case native_script_list_decode fuel r3 of Inl e \<Rightarrow> Inl e | Inr (children, r4) \<Rightarrow>
        (case cardano_cbor_validate_end_array ''native_script'' r4 of
           Inl e \<Rightarrow> Inl e | Inr r5 \<Rightarrow> Inr (Script_AtLeast n children, r5)))))
      else if tag = 4 then
        (if array_size \<noteq> 2 then Inl (ArityViolation ''native_script'' 2 array_size) else
        (case cardano_cbor_reader_read_uint r2 of Inl e \<Rightarrow> Inl e | Inr (slot, r3) \<Rightarrow>
        (case cardano_cbor_validate_end_array ''native_script'' r3 of
           Inl e \<Rightarrow> Inl e | Inr r4 \<Rightarrow> Inr (Script_InvalidAfter slot, r4))))
      else if tag = 5 then
        (if array_size \<noteq> 2 then Inl (ArityViolation ''native_script'' 2 array_size) else
        (case cardano_cbor_reader_read_uint r2 of Inl e \<Rightarrow> Inl e | Inr (slot, r3) \<Rightarrow>
        (case cardano_cbor_validate_end_array ''native_script'' r3 of
           Inl e \<Rightarrow> Inl e | Inr r4 \<Rightarrow> Inr (Script_InvalidBefore slot, r4))))
      else Inl (UnknownDiscriminant ''native_script'' tag [0, 1, 2, 3, 4, 5])))"
| "native_script_list_decode fuel r =
     (case cardano_cbor_reader_read_start_array r of Inl e \<Rightarrow> Inl e | Inr (n, r1) \<Rightarrow>
     (case native_script_items_decode fuel n r1 of Inl e \<Rightarrow> Inl e | Inr (children, r2) \<Rightarrow>
     (case cardano_cbor_reader_read_end_array r2 of
        Inl e \<Rightarrow> Inl e | Inr r3 \<Rightarrow> Inr (children, r3))))"
| "native_script_items_decode fuel 0 r = Inr ([], r)"
| "native_script_items_decode fuel (Suc n) r =
     (case native_script_decode fuel r of Inl e \<Rightarrow> Inl e | Inr (s, r1) \<Rightarrow>
     (case native_script_items_decode fuel n r1 of
        Inl e \<Rightarrow> Inl e | Inr (ss, r2) \<Rightarrow> Inr (s # ss, r2)))"


text \<open>
  The entry points give the budget the number of remaining tokens (plus one for the
  value itself): every nesting level consumes a token.
\<close>

definition cardano_native_script_from_cbor ::
  "cbor_reader \<Rightarrow> cardano_error + (native_script \<times> cbor_reader)" where
  "cardano_native_script_from_cbor r = native_script_decode (Suc (length (tokens r))) r"

text \<open>
  The functions declared in \<^verbatim>\<open>script_n_of_k.h\<close>. \<^verbatim>\<open>to_cbor\<close> returns
  \<open>CARDANO_ERROR_POINTER_IS_NULL\<close> on a NULL script or writer, and \<^verbatim>\<open>get_length\<close> returns
  0 on NULL, as the header documents; \<^verbatim>\<open>get_required\<close> requires a non-NULL object.
  \<^verbatim>\<open>from_cbor\<close> follows the shared discipline: arity, discriminant, fields, end check.
\<close>

definition cardano_script_n_of_k_to_cbor ::
  "cardano_script_n_of_k_t option \<Rightarrow> cbor_writer option \<Rightarrow> cardano_error + cbor_writer" where
  "cardano_script_n_of_k_to_cbor script_n_of_k writer =
     (case script_n_of_k of
        None \<Rightarrow> Inl CARDANO_ERROR_POINTER_IS_NULL
      | Some s \<Rightarrow>
          (case writer of
             None \<Rightarrow> Inl CARDANO_ERROR_POINTER_IS_NULL
           | Some w \<Rightarrow>
               cardano_native_script_to_cbor (Script_AtLeast (required s) (native_scripts s)) w))"

definition cardano_script_n_of_k_from_cbor ::
  "cbor_reader option \<Rightarrow> cardano_error + (cardano_script_n_of_k_t \<times> cbor_reader)" where
  "cardano_script_n_of_k_from_cbor reader =
     (case reader of
        None \<Rightarrow> Inl CARDANO_ERROR_POINTER_IS_NULL
      | Some r \<Rightarrow>
     (case cardano_cbor_validate_array_of_n_elements ''script_n_of_k'' r 3 of
        Inl e \<Rightarrow> Inl e
      | Inr r1 \<Rightarrow>
     (case cardano_cbor_validate_enum_value ''script_n_of_k'' ''type'' r1 3
             native_script_type_to_string of
        Inl e \<Rightarrow> Inl e
      | Inr (ty, r2) \<Rightarrow>
     (case cardano_cbor_reader_read_uint r2 of
        Inl e \<Rightarrow> Inl e
      | Inr (n, r3) \<Rightarrow>
     (case native_script_list_decode (length (tokens r3)) r3 of
        Inl e \<Rightarrow> Inl e
      | Inr (children, r4) \<Rightarrow>
     (case cardano_cbor_validate_end_array ''script_n_of_k'' r4 of
        Inl e \<Rightarrow> Inl e
      | Inr r5 \<Rightarrow> Inr (\<lparr>required = n, native_scripts = children\<rparr>, r5)))))))"

definition cardano_script_n_of_k_get_required :: "cardano_script_n_of_k_t \<Rightarrow> 64 word" where
  "cardano_script_n_of_k_get_required script_n_of_k = required script_n_of_k"

definition cardano_script_n_of_k_get_length :: "cardano_script_n_of_k_t option \<Rightarrow> nat" where
  "cardano_script_n_of_k_get_length script_n_of_k =
     (case script_n_of_k of None \<Rightarrow> 0 | Some s \<Rightarrow> length (native_scripts s))"

section \<open>Lemmas on the reader, the validators and the heap\<close>

lemmas reader_defs =
  cardano_cbor_reader_peek_state_def cardano_cbor_reader_read_uint_def
  cardano_cbor_reader_read_null_def cardano_cbor_reader_read_bytestring_def
  cardano_cbor_reader_read_textstring_def cardano_cbor_reader_read_start_array_def
  cardano_cbor_reader_read_end_array_def

lemma validate_array_TArray:
  "cardano_cbor_validate_array_of_n_elements name \<lparr>tokens = TArray n # ts, frames = fs\<rparr> k =
     (if at_end_of_array fs then Inl CARDANO_ERROR_UNEXPECTED_CBOR_TYPE
      else if n \<noteq> k then Inl (ArityViolation name k n)
      else Inr \<lparr>tokens = ts, frames = n # item_read fs\<rparr>)"
  by (simp add: cardano_cbor_validate_array_of_n_elements_def reader_defs)

lemma validate_enum_TUInt:
  "cardano_cbor_validate_enum_value name field \<lparr>tokens = TUInt v # ts, frames = fs\<rparr> expected to_s =
     (if at_end_of_array fs then Inl CARDANO_ERROR_UNEXPECTED_CBOR_TYPE
      else if v \<noteq> expected
      then Inl (DiscriminantViolation name field expected (to_s expected) v (to_s v))
      else Inr (v, \<lparr>tokens = ts, frames = item_read fs\<rparr>))"
  by (simp add: cardano_cbor_validate_enum_value_def reader_defs)

lemma validate_end_array_frames:
  "cardano_cbor_validate_end_array name \<lparr>tokens = ts, frames = fs\<rparr> =
     (case fs of [] \<Rightarrow> Inl (EndOfArrayViolation name)
      | n # fs' \<Rightarrow> if n = 0 then Inr \<lparr>tokens = ts, frames = fs'\<rparr>
                   else Inl (EndOfArrayViolation name))"
  by (simp add: cardano_cbor_validate_end_array_def reader_defs split: list.splits)

lemma deref_append_new [simp]: "deref (xs @ [x]) (Some (length xs)) = x"
  by (simp add: deref_def)

lemma deref_append_old: "a < length xs \<Longrightarrow> deref (xs @ [x]) (Some a) = deref xs (Some a)"
  by (simp add: deref_def nth_append)

lemma deref_update_same: "deref (xs[a := x]) (Some a) = (if a < length xs then x else None)"
  by (simp add: deref_def)

lemma deref_update_other: "a \<noteq> b \<Longrightarrow> deref (xs[a := x]) (Some b) = deref xs (Some b)"
  by (simp add: deref_def)

section \<open>The sample codecs meet the contract\<close>


section \<open>Decoding a stake-registration certificate\<close>


lemmas stake_registration_from_cbor_defs =
  cardano_stake_registration_cert_from_cbor_def STAKE_REGISTRATION_EMBEDDED_GROUP_SIZE_def
  cardano_credential_from_cbor_def cardano_stake_registration_cert_new_def
  cardano_credential_ref_def cardano_credential_unref_def
  cardano_object_ref_def cardano_object_unref_def

lemma sample_externals_simps [simp]:
  "CARDANO_CERT_TYPE_STAKE_REGISTRATION sample_externals = 0"
  "CARDANO_CERT_TYPE_UPDATE_DREP sample_externals = 18"
  "cardano_cert_type_to_string sample_externals = sample_cert_type_to_string"
  "credential_value_from_cbor sample_externals = sample_credential_from_cbor"
  "credential_value_to_cbor sample_externals = sample_credential_to_cbor"
  "anchor_value_from_cbor sample_externals = sample_anchor_from_cbor"
  "anchor_value_to_cbor sample_externals = sample_anchor_to_cbor"
  by (simp_all add: sample_externals_def)

lemma sample_credential_from_cbor_tokens:
  "sample_credential_from_cbor \<lparr>tokens = TArray 2 # TUInt t # TBytes bs # rest, frames = fs\<rparr> =
     (if at_end_of_array fs then Inl CARDANO_ERROR_UNEXPECTED_CBOR_TYPE
      else Inr ((t, bs), \<lparr>tokens = rest, frames = item_read fs\<rparr>))"
  by (simp add: sample_credential_from_cbor_def validate_array_TArray reader_defs
        validate_end_array_frames)




section \<open>Constructors, reference counts and accessors\<close>

lemma deref_None [simp]: "deref xs None = None"
  by (simp add: deref_def)

lemma deref_Some_length: "deref xs (Some a) = Some x \<Longrightarrow> a < length xs"
  by (simp add: deref_def split: if_splits)

lemma deref_length_None [simp]: "deref xs (Some (length xs)) = None"
  by (simp add: deref_def)

lemma update_drep_cert_new_null_credential:
  "cardano_update_drep_cert_new h None anchor out = (Inl CARDANO_ERROR_POINTER_IS_NULL, out, h)"
  by (simp add: cardano_update_drep_cert_new_def)

lemma stake_registration_cert_new_null_credential:
  "cardano_stake_registration_cert_new h None out = (Inl CARDANO_ERROR_POINTER_IS_NULL, out, h)"
  by (simp add: cardano_stake_registration_cert_new_def)

lemma update_drep_cert_new_ok:
  assumes c: "deref (credentials h) (Some c) = Some cobj"
    and a: "anchor = None \<or> deref (anchors h) anchor = Some aobj"
    and av: "0 < avail h"
  shows "cardano_update_drep_cert_new h (Some c) anchor (Some slot) =
           (Inr (), Some (Some (length (update_drep_certs h))),
            h\<lparr>credentials := (credentials h)[c := Some (cobj\<lparr>ref_count := ref_count cobj + 1\<rparr>)],
              anchors := (case anchor of None \<Rightarrow> anchors h
                          | Some a \<Rightarrow> (anchors h)[a := Some (aobj\<lparr>ref_count := ref_count aobj + 1\<rparr>)]),
              update_drep_certs := update_drep_certs h @
                [Some \<lparr>ref_count = 1, last_error = [],
                       update_drep_cert_credential = Some c,
                       update_drep_cert_anchor = anchor\<rparr>],
              avail := avail h - 1\<rparr>)"
  using assms
  by (cases anchor)
     (auto simp: cardano_update_drep_cert_new_def cardano_credential_ref_def cardano_anchor_ref_def
        cardano_object_ref_def Let_def)

lemma stake_registration_cert_new_ok:
  assumes c: "deref (credentials h) (Some c) = Some cobj"
    and av: "0 < avail h"
  shows "cardano_stake_registration_cert_new h (Some c) (Some slot) =
           (Inr (), Some (Some (length (stake_registration_certs h))),
            h\<lparr>credentials := (credentials h)[c := Some (cobj\<lparr>ref_count := ref_count cobj + 1\<rparr>)],
              stake_registration_certs := stake_registration_certs h @
                [Some \<lparr>ref_count = 1, last_error = [],
                       stake_registration_cert_credential = Some c\<rparr>],
              avail := avail h - 1\<rparr>)"
  using assms
  by (auto simp: cardano_stake_registration_cert_new_def cardano_credential_ref_def
        cardano_object_ref_def Let_def)

lemma credential_ref_frame [simp]:
  "anchors (cardano_credential_ref h p) = anchors h"
  "update_drep_certs (cardano_credential_ref h p) = update_drep_certs h"
  "stake_registration_certs (cardano_credential_ref h p) = stake_registration_certs h"
  "avail (cardano_credential_ref h p) = avail h"
  "length (credentials (cardano_credential_ref h p)) = length (credentials h)"
  by (simp_all add: cardano_credential_ref_def split: option.splits)

lemma anchor_ref_frame [simp]:
  "credentials (cardano_anchor_ref h p) = credentials h"
  "update_drep_certs (cardano_anchor_ref h p) = update_drep_certs h"
  "stake_registration_certs (cardano_anchor_ref h p) = stake_registration_certs h"
  "avail (cardano_anchor_ref h p) = avail h"
  "length (anchors (cardano_anchor_ref h p)) = length (anchors h)"
  by (simp_all add: cardano_anchor_ref_def split: option.splits)

lemma credential_unref_frame [simp]:
  "anchors (fst (cardano_credential_unref h p)) = anchors h"
  "update_drep_certs (fst (cardano_credential_unref h p)) = update_drep_certs h"
  "stake_registration_certs (fst (cardano_credential_unref h p)) = stake_registration_certs h"
  "length (credentials (fst (cardano_credential_unref h p))) = length (credentials h)"
  by (simp_all add: cardano_credential_unref_def split: option.splits)

lemma anchor_unref_frame [simp]:
  "credentials (fst (cardano_anchor_unref h p)) = credentials h"
  "update_drep_certs (fst (cardano_anchor_unref h p)) = update_drep_certs h"
  "stake_registration_certs (fst (cardano_anchor_unref h p)) = stake_registration_certs h"
  "length (anchors (fst (cardano_anchor_unref h p))) = length (anchors h)"
  by (simp_all add: cardano_anchor_unref_def split: option.splits)

lemma update_drep_cert_deallocate_cell:
  "deref (update_drep_certs (cardano_update_drep_cert_deallocate h p)) (Some p) = None"
  by (simp add: cardano_update_drep_cert_deallocate_def deref_update_same split_beta Let_def
      split: option.splits)

lemma stake_registration_cert_deallocate_cell:
  "deref (stake_registration_certs (cardano_stake_registration_cert_deallocate h p)) (Some p) = None"
  by (simp add: cardano_stake_registration_cert_deallocate_def deref_update_same split_beta Let_def
      split: option.splits)

lemma update_drep_cert_new_refcount:
  assumes "cardano_update_drep_cert_new h0 cred anchor out = (Inr (), Some (Some q), h1)"
  shows "cardano_update_drep_cert_refcount h1 (Some q) = 1"
  using assms
  by (auto simp: cardano_update_drep_cert_new_def cardano_update_drep_cert_refcount_def
      cardano_object_refcount_def Let_def split: if_splits)

lemma stake_registration_cert_new_refcount:
  assumes "cardano_stake_registration_cert_new h0 cred out = (Inr (), Some (Some q), h1)"
  shows "cardano_stake_registration_cert_refcount h1 (Some q) = 1"
  using assms
  by (auto simp: cardano_stake_registration_cert_new_def cardano_stake_registration_cert_refcount_def
      cardano_object_refcount_def Let_def split: if_splits)

lemma update_drep_cert_ref_refcount:
  assumes "deref (update_drep_certs h) (Some p) = Some data"
  shows "cardano_update_drep_cert_refcount (cardano_update_drep_cert_ref h (Some p)) (Some p)
           = cardano_update_drep_cert_refcount h (Some p) + 1"
  using assms deref_Some_length [OF assms]
  by (simp add: cardano_update_drep_cert_ref_def cardano_update_drep_cert_refcount_def
      cardano_object_refcount_def cardano_object_ref_def deref_update_same)

lemma stake_registration_cert_ref_refcount:
  assumes "deref (stake_registration_certs h) (Some p) = Some data"
  shows "cardano_stake_registration_cert_refcount (cardano_stake_registration_cert_ref h (Some p)) (Some p)
           = cardano_stake_registration_cert_refcount h (Some p) + 1"
  using assms deref_Some_length [OF assms]
  by (simp add: cardano_stake_registration_cert_ref_def cardano_stake_registration_cert_refcount_def
      cardano_object_refcount_def cardano_object_ref_def deref_update_same)

lemma update_drep_cert_unref_last:
  assumes "deref (update_drep_certs h) (Some p) = Some data"
    and "cardano_update_drep_cert_refcount h (Some p) = 1"
  shows "snd (cardano_update_drep_cert_unref h (Some (Some p))) = Some None
       \<and> deref (update_drep_certs (fst (cardano_update_drep_cert_unref h (Some (Some p))))) (Some p) = None
       \<and> cardano_update_drep_cert_refcount (fst (cardano_update_drep_cert_unref h (Some (Some p)))) (Some p) = 0"
  using assms
  by (simp add: cardano_update_drep_cert_unref_def cardano_update_drep_cert_refcount_def
      cardano_object_refcount_def cardano_object_unref_def update_drep_cert_deallocate_cell)

lemma update_drep_cert_unref_shared:
  assumes "deref (update_drep_certs h) (Some p) = Some data"
    and "1 < cardano_update_drep_cert_refcount h (Some p)"
  shows "snd (cardano_update_drep_cert_unref h (Some (Some p))) = Some (Some p)
       \<and> cardano_update_drep_cert_refcount (fst (cardano_update_drep_cert_unref h (Some (Some p)))) (Some p)
           = cardano_update_drep_cert_refcount h (Some p) - 1"
  using assms deref_Some_length [OF assms(1)]
  by (simp add: cardano_update_drep_cert_unref_def cardano_update_drep_cert_refcount_def
      cardano_object_refcount_def cardano_object_unref_def deref_update_same)

lemma stake_registration_cert_unref_last:
  assumes "deref (stake_registration_certs h) (Some p) = Some data"
    and "cardano_stake_registration_cert_refcount h (Some p) = 1"
  shows "snd (cardano_stake_registration_cert_unref h (Some (Some p))) = Some None
       \<and> deref (stake_registration_certs (fst (cardano_stake_registration_cert_unref h (Some (Some p))))) (Some p) = None
       \<and> cardano_stake_registration_cert_refcount (fst (cardano_stake_registration_cert_unref h (Some (Some p)))) (Some p) = 0"
  using assms
  by (simp add: cardano_stake_registration_cert_unref_def cardano_stake_registration_cert_refcount_def
      cardano_object_refcount_def cardano_object_unref_def stake_registration_cert_deallocate_cell)

lemma stake_registration_cert_unref_shared:
  assumes "deref (stake_registration_certs h) (Some p) = Some data"
    and "1 < cardano_stake_registration_cert_refcount h (Some p)"
  shows "snd (cardano_stake_registration_cert_unref h (Some (Some p))) = Some (Some p)
       \<and> cardano_stake_registration_cert_refcount (fst (cardano_stake_registration_cert_unref h (Some (Some p)))) (Some p)
           = cardano_stake_registration_cert_refcount h (Some p) - 1"
  using assms deref_Some_length [OF assms(1)]
  by (simp add: cardano_stake_registration_cert_unref_def cardano_stake_registration_cert_refcount_def
      cardano_object_refcount_def cardano_object_unref_def deref_update_same)

lemma update_drep_cert_new_null_out:
  "cardano_update_drep_cert_new h (Some c) anchor None = (Inl CARDANO_ERROR_POINTER_IS_NULL, None, h)"
  by (simp add: cardano_update_drep_cert_new_def)

lemma stake_registration_cert_new_null_out:
  "cardano_stake_registration_cert_new h (Some c) None = (Inl CARDANO_ERROR_POINTER_IS_NULL, None, h)"
  by (simp add: cardano_stake_registration_cert_new_def)

lemma update_drep_cert_new_no_memory:
  "avail h = 0 \<Longrightarrow>
   cardano_update_drep_cert_new h (Some c) anchor (Some slot)
     = (Inl CARDANO_ERROR_MEMORY_ALLOCATION_FAILED, Some slot, h)"
  by (simp add: cardano_update_drep_cert_new_def)

lemma stake_registration_cert_new_no_memory:
  "avail h = 0 \<Longrightarrow>
   cardano_stake_registration_cert_new h (Some c) (Some slot)
     = (Inl CARDANO_ERROR_MEMORY_ALLOCATION_FAILED, Some slot, h)"
  by (simp add: cardano_stake_registration_cert_new_def)

lemma update_drep_cert_new_counts:
  assumes c: "deref (credentials h) (Some c) = Some cobj"
    and a: "anchor = None \<or> deref (anchors h) anchor = Some aobj"
    and av: "0 < avail h"
  shows "cardano_credential_refcount
           (snd (snd (cardano_update_drep_cert_new h (Some c) anchor (Some slot)))) (Some c)
           = cardano_credential_refcount h (Some c) + 1"
    and "credential_value_at
           (snd (snd (cardano_update_drep_cert_new h (Some c) anchor (Some slot)))) (Some c)
           = credential_value_at h (Some c)"
    and "anchor \<noteq> None \<Longrightarrow>
         cardano_anchor_refcount
           (snd (snd (cardano_update_drep_cert_new h (Some c) anchor (Some slot)))) anchor
           = cardano_anchor_refcount h anchor + 1"
    and "anchor \<noteq> None \<Longrightarrow>
         anchor_value_at
           (snd (snd (cardano_update_drep_cert_new h (Some c) anchor (Some slot)))) anchor
           = anchor_value_at h anchor"
    and "cardano_update_drep_cert_refcount
           (snd (snd (cardano_update_drep_cert_new h (Some c) anchor (Some slot))))
           (Some (length (update_drep_certs h))) = 1"
proof -
  from c have lc: "c < length (credentials h)" by (rule deref_Some_length)
  note eq = update_drep_cert_new_ok [OF c a av, of slot]
  show "cardano_credential_refcount
           (snd (snd (cardano_update_drep_cert_new h (Some c) anchor (Some slot)))) (Some c)
           = cardano_credential_refcount h (Some c) + 1"
    unfolding eq using c lc
    by (simp add: cardano_credential_refcount_def cardano_object_refcount_def deref_update_same)
  show "credential_value_at
           (snd (snd (cardano_update_drep_cert_new h (Some c) anchor (Some slot)))) (Some c)
           = credential_value_at h (Some c)"
    unfolding eq using c lc
    by (simp add: credential_value_at_def deref_update_same)
  show "cardano_update_drep_cert_refcount
           (snd (snd (cardano_update_drep_cert_new h (Some c) anchor (Some slot))))
           (Some (length (update_drep_certs h))) = 1"
    unfolding eq
    by (simp add: cardano_update_drep_cert_refcount_def cardano_object_refcount_def)
  {
    assume nn: "anchor \<noteq> None"
    then obtain x where x: "anchor = Some x" by (cases anchor) simp_all
    with a have ax: "deref (anchors h) (Some x) = Some aobj" by simp
    then have lx: "x < length (anchors h)" by (rule deref_Some_length)
    show "cardano_anchor_refcount
           (snd (snd (cardano_update_drep_cert_new h (Some c) anchor (Some slot)))) anchor
           = cardano_anchor_refcount h anchor + 1"
      unfolding eq using x ax lx
      by (simp add: cardano_anchor_refcount_def cardano_object_refcount_def deref_update_same)
    show "anchor_value_at
           (snd (snd (cardano_update_drep_cert_new h (Some c) anchor (Some slot)))) anchor
           = anchor_value_at h anchor"
      unfolding eq using x ax lx
      by (simp add: anchor_value_at_def deref_update_same)
  }
qed

lemma stake_registration_cert_new_counts:
  assumes c: "deref (credentials h) (Some c) = Some cobj"
    and av: "0 < avail h"
  shows "cardano_credential_refcount
           (snd (snd (cardano_stake_registration_cert_new h (Some c) (Some slot)))) (Some c)
           = cardano_credential_refcount h (Some c) + 1"
    and "credential_value_at
           (snd (snd (cardano_stake_registration_cert_new h (Some c) (Some slot)))) (Some c)
           = credential_value_at h (Some c)"
    and "cardano_stake_registration_cert_refcount
           (snd (snd (cardano_stake_registration_cert_new h (Some c) (Some slot))))
           (Some (length (stake_registration_certs h))) = 1"
proof -
  from c have lc: "c < length (credentials h)" by (rule deref_Some_length)
  note eq = stake_registration_cert_new_ok [OF c av, of slot]
  show "cardano_credential_refcount
           (snd (snd (cardano_stake_registration_cert_new h (Some c) (Some slot)))) (Some c)
           = cardano_credential_refcount h (Some c) + 1"
    unfolding eq using c lc
    by (simp add: cardano_credential_refcount_def cardano_object_refcount_def deref_update_same)
  show "credential_value_at
           (snd (snd (cardano_stake_registration_cert_new h (Some c) (Some slot)))) (Some c)
           = credential_value_at h (Some c)"
    unfolding eq using c lc
    by (simp add: credential_value_at_def deref_update_same)
  show "cardano_stake_registration_cert_refcount
           (snd (snd (cardano_stake_registration_cert_new h (Some c) (Some slot))))
           (Some (length (stake_registration_certs h))) = 1"
    unfolding eq
    by (simp add: cardano_stake_registration_cert_refcount_def cardano_object_refcount_def)
qed

text \<open>
  Claim C6. A constructor given a NULL credential returns
  \<^verbatim>\<open>CARDANO_ERROR_POINTER_IS_NULL\<close> whatever its other arguments and the heap: nothing is
  allocated and the out-parameter keeps its content. Given a live credential, an anchor
  that is NULL or live and one allocation left, \<^verbatim>\<open>cardano_update_drep_cert_new\<close> succeeds:
  it stores in the out-parameter a new certificate of count 1 that holds the credential
  and the anchor, absent when the anchor is NULL; the credential's count has grown by 1
  and its value is the same, so the caller's reference stays valid; the anchor's count has
  grown by 1 when it is not NULL, and no anchor is touched when it is.
  \<^verbatim>\<open>cardano_stake_registration_cert_new\<close> does the same with its credential.
\<close>

theorem constructors_check_null_and_share_arguments:
  "cardano_update_drep_cert_new h None anchor out = (Inl CARDANO_ERROR_POINTER_IS_NULL, out, h)
   \<and> cardano_stake_registration_cert_new h None out = (Inl CARDANO_ERROR_POINTER_IS_NULL, out, h)
   \<and> (deref (credentials h) (Some c) = Some cobj \<and> 0 < avail h
        \<and> (anchor = None \<or> deref (anchors h) anchor = Some aobj) \<longrightarrow>
        cardano_update_drep_cert_new h (Some c) anchor (Some slot) =
          (Inr (), Some (Some (length (update_drep_certs h))),
           h\<lparr>credentials := (credentials h)[c := Some (cobj\<lparr>ref_count := ref_count cobj + 1\<rparr>)],
             anchors := (case anchor of None \<Rightarrow> anchors h
                         | Some a \<Rightarrow> (anchors h)[a := Some (aobj\<lparr>ref_count := ref_count aobj + 1\<rparr>)]),
             update_drep_certs := update_drep_certs h @
               [Some \<lparr>ref_count = 1, last_error = [],
                      update_drep_cert_credential = Some c,
                      update_drep_cert_anchor = anchor\<rparr>],
             avail := avail h - 1\<rparr>)
      \<and> cardano_credential_refcount
           (snd (snd (cardano_update_drep_cert_new h (Some c) anchor (Some slot)))) (Some c)
           = cardano_credential_refcount h (Some c) + 1
      \<and> credential_value_at
           (snd (snd (cardano_update_drep_cert_new h (Some c) anchor (Some slot)))) (Some c)
           = credential_value_at h (Some c)
      \<and> (if anchor = None
          then anchors (snd (snd (cardano_update_drep_cert_new h (Some c) anchor (Some slot))))
                 = anchors h
          else cardano_anchor_refcount
                 (snd (snd (cardano_update_drep_cert_new h (Some c) anchor (Some slot)))) anchor
                 = cardano_anchor_refcount h anchor + 1
             \<and> anchor_value_at
                 (snd (snd (cardano_update_drep_cert_new h (Some c) anchor (Some slot)))) anchor
                 = anchor_value_at h anchor))
   \<and> (deref (credentials h) (Some c) = Some cobj \<and> 0 < avail h \<longrightarrow>
        cardano_stake_registration_cert_new h (Some c) (Some slot) =
          (Inr (), Some (Some (length (stake_registration_certs h))),
           h\<lparr>credentials := (credentials h)[c := Some (cobj\<lparr>ref_count := ref_count cobj + 1\<rparr>)],
             stake_registration_certs := stake_registration_certs h @
               [Some \<lparr>ref_count = 1, last_error = [],
                      stake_registration_cert_credential = Some c\<rparr>],
             avail := avail h - 1\<rparr>)
      \<and> cardano_credential_refcount
           (snd (snd (cardano_stake_registration_cert_new h (Some c) (Some slot)))) (Some c)
           = cardano_credential_refcount h (Some c) + 1
      \<and> credential_value_at
           (snd (snd (cardano_stake_registration_cert_new h (Some c) (Some slot)))) (Some c)
           = credential_value_at h (Some c))"
proof (intro conjI impI)
  show "cardano_update_drep_cert_new h None anchor out = (Inl CARDANO_ERROR_POINTER_IS_NULL, out, h)"
    by (rule update_drep_cert_new_null_credential)
  show "cardano_stake_registration_cert_new h None out = (Inl CARDANO_ERROR_POINTER_IS_NULL, out, h)"
    by (rule stake_registration_cert_new_null_credential)
next
  assume H: "deref (credentials h) (Some c) = Some cobj \<and> 0 < avail h
        \<and> (anchor = None \<or> deref (anchors h) anchor = Some aobj)"
  then have c: "deref (credentials h) (Some c) = Some cobj" and av: "0 < avail h"
    and a: "anchor = None \<or> deref (anchors h) anchor = Some aobj" by simp_all
  note eq = update_drep_cert_new_ok [OF c a av, of slot]
  show "cardano_update_drep_cert_new h (Some c) anchor (Some slot) =
          (Inr (), Some (Some (length (update_drep_certs h))),
           h\<lparr>credentials := (credentials h)[c := Some (cobj\<lparr>ref_count := ref_count cobj + 1\<rparr>)],
             anchors := (case anchor of None \<Rightarrow> anchors h
                         | Some a \<Rightarrow> (anchors h)[a := Some (aobj\<lparr>ref_count := ref_count aobj + 1\<rparr>)]),
             update_drep_certs := update_drep_certs h @
               [Some \<lparr>ref_count = 1, last_error = [],
                      update_drep_cert_credential = Some c,
                      update_drep_cert_anchor = anchor\<rparr>],
             avail := avail h - 1\<rparr>)"
    by (rule eq)
  show "cardano_credential_refcount
           (snd (snd (cardano_update_drep_cert_new h (Some c) anchor (Some slot)))) (Some c)
           = cardano_credential_refcount h (Some c) + 1"
    by (rule update_drep_cert_new_counts(1) [OF c a av])
  show "credential_value_at
           (snd (snd (cardano_update_drep_cert_new h (Some c) anchor (Some slot)))) (Some c)
           = credential_value_at h (Some c)"
    by (rule update_drep_cert_new_counts(2) [OF c a av])
  show "if anchor = None
          then anchors (snd (snd (cardano_update_drep_cert_new h (Some c) anchor (Some slot))))
                 = anchors h
          else cardano_anchor_refcount
                 (snd (snd (cardano_update_drep_cert_new h (Some c) anchor (Some slot)))) anchor
                 = cardano_anchor_refcount h anchor + 1
             \<and> anchor_value_at
                 (snd (snd (cardano_update_drep_cert_new h (Some c) anchor (Some slot)))) anchor
                 = anchor_value_at h anchor"
  proof (cases "anchor = None")
    case True
    then show ?thesis unfolding eq by simp
  next
    case False
    from update_drep_cert_new_counts(3) [OF c a av False, of slot]
      update_drep_cert_new_counts(4) [OF c a av False, of slot]
    show ?thesis by (simp only: False if_False simp_thms)
  qed
next
  assume H: "deref (credentials h) (Some c) = Some cobj \<and> 0 < avail h"
  then have c: "deref (credentials h) (Some c) = Some cobj" and av: "0 < avail h" by simp_all
  show "cardano_stake_registration_cert_new h (Some c) (Some slot) =
          (Inr (), Some (Some (length (stake_registration_certs h))),
           h\<lparr>credentials := (credentials h)[c := Some (cobj\<lparr>ref_count := ref_count cobj + 1\<rparr>)],
             stake_registration_certs := stake_registration_certs h @
               [Some \<lparr>ref_count = 1, last_error = [],
                      stake_registration_cert_credential = Some c\<rparr>],
             avail := avail h - 1\<rparr>)"
    by (rule stake_registration_cert_new_ok [OF c av])
  show "cardano_credential_refcount
           (snd (snd (cardano_stake_registration_cert_new h (Some c) (Some slot)))) (Some c)
           = cardano_credential_refcount h (Some c) + 1"
    by (rule stake_registration_cert_new_counts(1) [OF c av])
  show "credential_value_at
           (snd (snd (cardano_stake_registration_cert_new h (Some c) (Some slot)))) (Some c)
           = credential_value_at h (Some c)"
    by (rule stake_registration_cert_new_counts(2) [OF c av])
qed

theorem constructors_check_null_and_share_arguments_witness:
  "deref (credentials sample_heap) (Some 0)
     = Some \<lparr>ref_count = 1, last_error = [], credential_value = (1, [7, 8, 9])\<rparr>
   \<and> deref (anchors sample_heap) (Some 0)
     = Some \<lparr>ref_count = 1, last_error = [], anchor_value = (''https://example.org'', [4, 5])\<rparr>
   \<and> 0 < avail sample_heap
   \<and> cardano_update_drep_cert_new sample_heap None (Some 0) (Some None)
     = (Inl CARDANO_ERROR_POINTER_IS_NULL, Some None, sample_heap)
   \<and> cardano_stake_registration_cert_new sample_heap None (Some None)
     = (Inl CARDANO_ERROR_POINTER_IS_NULL, Some None, sample_heap)
   \<and> fst (cardano_update_drep_cert_new sample_heap (Some 0) (Some 0) (Some None)) = Inr ()
   \<and> cardano_credential_refcount
        (snd (snd (cardano_update_drep_cert_new sample_heap (Some 0) (Some 0) (Some None)))) (Some 0) = 2
   \<and> cardano_anchor_refcount
        (snd (snd (cardano_update_drep_cert_new sample_heap (Some 0) (Some 0) (Some None)))) (Some 0) = 2
   \<and> fst (cardano_stake_registration_cert_new sample_heap (Some 0) (Some None)) = Inr ()
   \<and> cardano_credential_refcount
        (snd (snd (cardano_stake_registration_cert_new sample_heap (Some 0) (Some None)))) (Some 0) = 2
   \<and> fst (cardano_update_drep_cert_new sample_heap (Some 0) None (Some None)) = Inr ()
   \<and> deref (update_drep_certs
               (snd (snd (cardano_update_drep_cert_new sample_heap (Some 0) None (Some None)))))
        (Some 0)
     = Some \<lparr>ref_count = 1, last_error = [], update_drep_cert_credential = Some 0,
             update_drep_cert_anchor = None\<rparr>
   \<and> anchors (snd (snd (cardano_update_drep_cert_new sample_heap (Some 0) None (Some None))))
     = anchors sample_heap"
  using constructors_check_null_and_share_arguments
          [where h = sample_heap and c = 0 and anchor = "Some 0" and out = "Some None"
             and slot = None
             and cobj = "\<lparr>ref_count = 1, last_error = [], credential_value = (1, [7, 8, 9])\<rparr>"
             and aobj = "\<lparr>ref_count = 1, last_error = [],
                           anchor_value = (''https://example.org'', [4, 5])\<rparr>"]
        constructors_check_null_and_share_arguments
          [where h = sample_heap and c = 0 and anchor = None and out = "Some None"
             and slot = None
             and cobj = "\<lparr>ref_count = 1, last_error = [], credential_value = (1, [7, 8, 9])\<rparr>"]
  by (simp add: sample_heap_def deref_def cardano_credential_refcount_def
        cardano_anchor_refcount_def cardano_object_refcount_def)

text \<open>
  Claim C8. Whenever a constructor succeeds, the certificate it returns has count 1; and
  it does succeed, with a fresh certificate of count 1, when the credential is live (the
  anchor NULL or live) and one allocation is left. On every live certificate, of either
  type, the count read by \<^verbatim>\<open>refcount\<close> is the stored one and \<^verbatim>\<open>ref\<close> adds exactly 1 to it;
  \<^verbatim>\<open>unref\<close> at count 1 frees the object and sets the caller's pointer to NULL, and at a
  larger count it subtracts 1 and leaves the pointer as it is.
\<close>

theorem certificate_reference_counting:
  "(cardano_update_drep_cert_new h0 cred anchor out = (Inr (), Some (Some q), h1) \<longrightarrow>
      cardano_update_drep_cert_refcount h1 (Some q) = 1)
   \<and> (cardano_stake_registration_cert_new h0 cred out = (Inr (), Some (Some q'), h2) \<longrightarrow>
      cardano_stake_registration_cert_refcount h2 (Some q') = 1)
   \<and> (deref (credentials h0) (Some c) = Some cobj \<and> 0 < avail h0
        \<and> (anchor = None \<or> deref (anchors h0) anchor = Some aobj) \<longrightarrow>
      fst (cardano_update_drep_cert_new h0 (Some c) anchor (Some slot)) = Inr ()
    \<and> fst (snd (cardano_update_drep_cert_new h0 (Some c) anchor (Some slot)))
        = Some (Some (length (update_drep_certs h0)))
    \<and> cardano_update_drep_cert_refcount
        (snd (snd (cardano_update_drep_cert_new h0 (Some c) anchor (Some slot))))
        (Some (length (update_drep_certs h0))) = 1)
   \<and> (deref (credentials h0) (Some c) = Some cobj \<and> 0 < avail h0 \<longrightarrow>
      fst (cardano_stake_registration_cert_new h0 (Some c) (Some slot)) = Inr ()
    \<and> fst (snd (cardano_stake_registration_cert_new h0 (Some c) (Some slot)))
        = Some (Some (length (stake_registration_certs h0)))
    \<and> cardano_stake_registration_cert_refcount
        (snd (snd (cardano_stake_registration_cert_new h0 (Some c) (Some slot))))
        (Some (length (stake_registration_certs h0))) = 1)
   \<and> (deref (update_drep_certs h) (Some p) = Some data \<longrightarrow>
      cardano_update_drep_cert_refcount h (Some p) = ref_count data
    \<and> cardano_update_drep_cert_refcount (cardano_update_drep_cert_ref h (Some p)) (Some p)
        = cardano_update_drep_cert_refcount h (Some p) + 1
    \<and> (cardano_update_drep_cert_refcount h (Some p) = 1 \<longrightarrow>
          snd (cardano_update_drep_cert_unref h (Some (Some p))) = Some None
        \<and> deref (update_drep_certs (fst (cardano_update_drep_cert_unref h (Some (Some p)))))
            (Some p) = None
        \<and> cardano_update_drep_cert_refcount
            (fst (cardano_update_drep_cert_unref h (Some (Some p)))) (Some p) = 0)
    \<and> (1 < cardano_update_drep_cert_refcount h (Some p) \<longrightarrow>
          snd (cardano_update_drep_cert_unref h (Some (Some p))) = Some (Some p)
        \<and> cardano_update_drep_cert_refcount
            (fst (cardano_update_drep_cert_unref h (Some (Some p)))) (Some p)
            = cardano_update_drep_cert_refcount h (Some p) - 1))
   \<and> (deref (stake_registration_certs h) (Some p') = Some data' \<longrightarrow>
      cardano_stake_registration_cert_refcount h (Some p') = ref_count data'
    \<and> cardano_stake_registration_cert_refcount
          (cardano_stake_registration_cert_ref h (Some p')) (Some p')
        = cardano_stake_registration_cert_refcount h (Some p') + 1
    \<and> (cardano_stake_registration_cert_refcount h (Some p') = 1 \<longrightarrow>
          snd (cardano_stake_registration_cert_unref h (Some (Some p'))) = Some None
        \<and> deref (stake_registration_certs
                   (fst (cardano_stake_registration_cert_unref h (Some (Some p')))))
            (Some p') = None
        \<and> cardano_stake_registration_cert_refcount
            (fst (cardano_stake_registration_cert_unref h (Some (Some p')))) (Some p') = 0)
    \<and> (1 < cardano_stake_registration_cert_refcount h (Some p') \<longrightarrow>
          snd (cardano_stake_registration_cert_unref h (Some (Some p'))) = Some (Some p')
        \<and> cardano_stake_registration_cert_refcount
            (fst (cardano_stake_registration_cert_unref h (Some (Some p')))) (Some p')
            = cardano_stake_registration_cert_refcount h (Some p') - 1))"
proof (intro conjI)
  show "cardano_update_drep_cert_new h0 cred anchor out = (Inr (), Some (Some q), h1) \<longrightarrow>
      cardano_update_drep_cert_refcount h1 (Some q) = 1"
    by (blast dest: update_drep_cert_new_refcount)
  show "cardano_stake_registration_cert_new h0 cred out = (Inr (), Some (Some q'), h2) \<longrightarrow>
      cardano_stake_registration_cert_refcount h2 (Some q') = 1"
    by (blast dest: stake_registration_cert_new_refcount)
  show "deref (credentials h0) (Some c) = Some cobj \<and> 0 < avail h0
        \<and> (anchor = None \<or> deref (anchors h0) anchor = Some aobj) \<longrightarrow>
      fst (cardano_update_drep_cert_new h0 (Some c) anchor (Some slot)) = Inr ()
    \<and> fst (snd (cardano_update_drep_cert_new h0 (Some c) anchor (Some slot)))
        = Some (Some (length (update_drep_certs h0)))
    \<and> cardano_update_drep_cert_refcount
        (snd (snd (cardano_update_drep_cert_new h0 (Some c) anchor (Some slot))))
        (Some (length (update_drep_certs h0))) = 1"
  proof (intro impI, elim conjE)
    assume c: "deref (credentials h0) (Some c) = Some cobj" and av: "0 < avail h0"
      and a: "anchor = None \<or> deref (anchors h0) anchor = Some aobj"
    from update_drep_cert_new_ok [OF c a av, of slot]
      update_drep_cert_new_counts(5) [OF c a av, of slot]
    show "fst (cardano_update_drep_cert_new h0 (Some c) anchor (Some slot)) = Inr ()
    \<and> fst (snd (cardano_update_drep_cert_new h0 (Some c) anchor (Some slot)))
        = Some (Some (length (update_drep_certs h0)))
    \<and> cardano_update_drep_cert_refcount
        (snd (snd (cardano_update_drep_cert_new h0 (Some c) anchor (Some slot))))
        (Some (length (update_drep_certs h0))) = 1"
      by simp
  qed
  show "deref (credentials h0) (Some c) = Some cobj \<and> 0 < avail h0 \<longrightarrow>
      fst (cardano_stake_registration_cert_new h0 (Some c) (Some slot)) = Inr ()
    \<and> fst (snd (cardano_stake_registration_cert_new h0 (Some c) (Some slot)))
        = Some (Some (length (stake_registration_certs h0)))
    \<and> cardano_stake_registration_cert_refcount
        (snd (snd (cardano_stake_registration_cert_new h0 (Some c) (Some slot))))
        (Some (length (stake_registration_certs h0))) = 1"
  proof (intro impI, elim conjE)
    assume c: "deref (credentials h0) (Some c) = Some cobj" and av: "0 < avail h0"
    from stake_registration_cert_new_ok [OF c av, of slot]
      stake_registration_cert_new_counts(3) [OF c av, of slot]
    show "fst (cardano_stake_registration_cert_new h0 (Some c) (Some slot)) = Inr ()
    \<and> fst (snd (cardano_stake_registration_cert_new h0 (Some c) (Some slot)))
        = Some (Some (length (stake_registration_certs h0)))
    \<and> cardano_stake_registration_cert_refcount
        (snd (snd (cardano_stake_registration_cert_new h0 (Some c) (Some slot))))
        (Some (length (stake_registration_certs h0))) = 1"
      by simp
  qed
  show "deref (update_drep_certs h) (Some p) = Some data \<longrightarrow>
      cardano_update_drep_cert_refcount h (Some p) = ref_count data
    \<and> cardano_update_drep_cert_refcount (cardano_update_drep_cert_ref h (Some p)) (Some p)
        = cardano_update_drep_cert_refcount h (Some p) + 1
    \<and> (cardano_update_drep_cert_refcount h (Some p) = 1 \<longrightarrow>
          snd (cardano_update_drep_cert_unref h (Some (Some p))) = Some None
        \<and> deref (update_drep_certs (fst (cardano_update_drep_cert_unref h (Some (Some p)))))
            (Some p) = None
        \<and> cardano_update_drep_cert_refcount
            (fst (cardano_update_drep_cert_unref h (Some (Some p)))) (Some p) = 0)
    \<and> (1 < cardano_update_drep_cert_refcount h (Some p) \<longrightarrow>
          snd (cardano_update_drep_cert_unref h (Some (Some p))) = Some (Some p)
        \<and> cardano_update_drep_cert_refcount
            (fst (cardano_update_drep_cert_unref h (Some (Some p)))) (Some p)
            = cardano_update_drep_cert_refcount h (Some p) - 1)"
  proof
    assume live: "deref (update_drep_certs h) (Some p) = Some data"
    have rc: "cardano_update_drep_cert_refcount h (Some p) = ref_count data"
      using live by (simp add: cardano_update_drep_cert_refcount_def cardano_object_refcount_def)
    from rc update_drep_cert_ref_refcount [OF live] update_drep_cert_unref_last [OF live]
      update_drep_cert_unref_shared [OF live]
    show "cardano_update_drep_cert_refcount h (Some p) = ref_count data
    \<and> cardano_update_drep_cert_refcount (cardano_update_drep_cert_ref h (Some p)) (Some p)
        = cardano_update_drep_cert_refcount h (Some p) + 1
    \<and> (cardano_update_drep_cert_refcount h (Some p) = 1 \<longrightarrow>
          snd (cardano_update_drep_cert_unref h (Some (Some p))) = Some None
        \<and> deref (update_drep_certs (fst (cardano_update_drep_cert_unref h (Some (Some p)))))
            (Some p) = None
        \<and> cardano_update_drep_cert_refcount
            (fst (cardano_update_drep_cert_unref h (Some (Some p)))) (Some p) = 0)
    \<and> (1 < cardano_update_drep_cert_refcount h (Some p) \<longrightarrow>
          snd (cardano_update_drep_cert_unref h (Some (Some p))) = Some (Some p)
        \<and> cardano_update_drep_cert_refcount
            (fst (cardano_update_drep_cert_unref h (Some (Some p)))) (Some p)
            = cardano_update_drep_cert_refcount h (Some p) - 1)"
      by blast
  qed
  show "deref (stake_registration_certs h) (Some p') = Some data' \<longrightarrow>
      cardano_stake_registration_cert_refcount h (Some p') = ref_count data'
    \<and> cardano_stake_registration_cert_refcount
          (cardano_stake_registration_cert_ref h (Some p')) (Some p')
        = cardano_stake_registration_cert_refcount h (Some p') + 1
    \<and> (cardano_stake_registration_cert_refcount h (Some p') = 1 \<longrightarrow>
          snd (cardano_stake_registration_cert_unref h (Some (Some p'))) = Some None
        \<and> deref (stake_registration_certs
                   (fst (cardano_stake_registration_cert_unref h (Some (Some p')))))
            (Some p') = None
        \<and> cardano_stake_registration_cert_refcount
            (fst (cardano_stake_registration_cert_unref h (Some (Some p')))) (Some p') = 0)
    \<and> (1 < cardano_stake_registration_cert_refcount h (Some p') \<longrightarrow>
          snd (cardano_stake_registration_cert_unref h (Some (Some p'))) = Some (Some p')
        \<and> cardano_stake_registration_cert_refcount
            (fst (cardano_stake_registration_cert_unref h (Some (Some p')))) (Some p')
            = cardano_stake_registration_cert_refcount h (Some p') - 1)"
  proof
    assume live: "deref (stake_registration_certs h) (Some p') = Some data'"
    have rc: "cardano_stake_registration_cert_refcount h (Some p') = ref_count data'"
      using live
      by (simp add: cardano_stake_registration_cert_refcount_def cardano_object_refcount_def)
    from rc stake_registration_cert_ref_refcount [OF live]
      stake_registration_cert_unref_last [OF live] stake_registration_cert_unref_shared [OF live]
    show "cardano_stake_registration_cert_refcount h (Some p') = ref_count data'
    \<and> cardano_stake_registration_cert_refcount
          (cardano_stake_registration_cert_ref h (Some p')) (Some p')
        = cardano_stake_registration_cert_refcount h (Some p') + 1
    \<and> (cardano_stake_registration_cert_refcount h (Some p') = 1 \<longrightarrow>
          snd (cardano_stake_registration_cert_unref h (Some (Some p'))) = Some None
        \<and> deref (stake_registration_certs
                   (fst (cardano_stake_registration_cert_unref h (Some (Some p')))))
            (Some p') = None
        \<and> cardano_stake_registration_cert_refcount
            (fst (cardano_stake_registration_cert_unref h (Some (Some p')))) (Some p') = 0)
    \<and> (1 < cardano_stake_registration_cert_refcount h (Some p') \<longrightarrow>
          snd (cardano_stake_registration_cert_unref h (Some (Some p'))) = Some (Some p')
        \<and> cardano_stake_registration_cert_refcount
            (fst (cardano_stake_registration_cert_unref h (Some (Some p')))) (Some p')
            = cardano_stake_registration_cert_refcount h (Some p') - 1)"
      by blast
  qed
qed

theorem certificate_reference_counting_witness:
  "fst (cardano_update_drep_cert_new sample_heap (Some 0) None (Some None)) = Inr ()
   \<and> cardano_update_drep_cert_refcount
        (snd (snd (cardano_update_drep_cert_new sample_heap (Some 0) None (Some None)))) (Some 0) = 1
   \<and> fst (cardano_stake_registration_cert_new sample_heap (Some 0) (Some None)) = Inr ()
   \<and> cardano_stake_registration_cert_refcount
        (snd (snd (cardano_stake_registration_cert_new sample_heap (Some 0) (Some None)))) (Some 0) = 1
   \<and> cardano_update_drep_cert_refcount sample_cert_heap (Some 0) = 1
   \<and> cardano_update_drep_cert_refcount
        (cardano_update_drep_cert_ref sample_cert_heap (Some 0)) (Some 0) = 2
   \<and> snd (cardano_update_drep_cert_unref sample_cert_heap (Some (Some 0))) = Some None
   \<and> cardano_stake_registration_cert_refcount
        (cardano_stake_registration_cert_ref sample_cert_heap (Some 0)) (Some 0) = 2
   \<and> snd (cardano_stake_registration_cert_unref sample_cert_heap (Some (Some 0))) = Some None
   \<and> snd (cardano_update_drep_cert_unref
             (cardano_update_drep_cert_ref sample_cert_heap (Some 0)) (Some (Some 0)))
     = Some (Some 0)
   \<and> cardano_update_drep_cert_refcount
        (fst (cardano_update_drep_cert_unref
                (cardano_update_drep_cert_ref sample_cert_heap (Some 0)) (Some (Some 0))))
        (Some 0) = 1
   \<and> snd (cardano_stake_registration_cert_unref
             (cardano_stake_registration_cert_ref sample_cert_heap (Some 0)) (Some (Some 0)))
     = Some (Some 0)
   \<and> cardano_stake_registration_cert_refcount
        (fst (cardano_stake_registration_cert_unref
                (cardano_stake_registration_cert_ref sample_cert_heap (Some 0)) (Some (Some 0))))
        (Some 0) = 1"
  using certificate_reference_counting
          [where ?h0.0 = sample_heap and c = 0 and anchor = None and slot = None
             and cobj = "\<lparr>ref_count = 1, last_error = [], credential_value = (1, [7, 8, 9])\<rparr>"
             and h = sample_cert_heap and p = 0 and p' = 0
             and data = "\<lparr>ref_count = 1, last_error = [], update_drep_cert_credential = Some 0,
                update_drep_cert_anchor = None\<rparr>"
             and data' = "\<lparr>ref_count = 1, last_error = [],
                stake_registration_cert_credential = Some 0\<rparr>"]
        certificate_reference_counting
          [where h = "sample_cert_heap
                 \<lparr>update_drep_certs :=
                    [Some \<lparr>ref_count = 2, last_error = [], update_drep_cert_credential = Some 0,
                            update_drep_cert_anchor = None\<rparr>],
                  stake_registration_certs :=
                    [Some \<lparr>ref_count = 2, last_error = [],
                            stake_registration_cert_credential = Some 0\<rparr>]\<rparr>"
             and p = 0 and p' = 0
             and data = "\<lparr>ref_count = 2, last_error = [], update_drep_cert_credential = Some 0,
                update_drep_cert_anchor = None\<rparr>"
             and data' = "\<lparr>ref_count = 2, last_error = [],
                stake_registration_cert_credential = Some 0\<rparr>",
           THEN conjunct2, THEN conjunct2, THEN conjunct2, THEN conjunct2]
  by (simp add: sample_heap_def sample_cert_heap_def deref_def
      cardano_update_drep_cert_ref_def cardano_stake_registration_cert_ref_def
      cardano_update_drep_cert_unref_def cardano_stake_registration_cert_unref_def
      cardano_object_ref_def cardano_object_unref_def
      cardano_update_drep_cert_refcount_def cardano_stake_registration_cert_refcount_def
      cardano_object_refcount_def)

text \<open>
  Claim C10. On a NULL certificate, in every heap, \<^verbatim>\<open>get_credential\<close> and \<^verbatim>\<open>get_anchor\<close>
  return NULL and leave the heap as it is, \<^verbatim>\<open>refcount\<close> returns 0, \<^verbatim>\<open>ref\<close> is a no-op, and
  \<^verbatim>\<open>unref\<close> is a no-op on a NULL slot as on a slot that holds NULL. On a live update-DRep
  certificate whose anchor is absent \<^verbatim>\<open>get_anchor\<close> returns NULL and the heap is unchanged,
  so no count changes. A getter on a live certificate whose child is live returns the
  stored child, and the heap differs only by the count of that child, which has grown by
  exactly 1.
\<close>

theorem accessors_total_on_null_and_getters_share:
  "cardano_update_drep_cert_get_credential h None = (None, h)
   \<and> cardano_update_drep_cert_get_anchor h None = (None, h)
   \<and> cardano_stake_registration_cert_get_credential h None = (None, h)
   \<and> cardano_update_drep_cert_refcount h None = 0
   \<and> cardano_stake_registration_cert_refcount h None = 0
   \<and> cardano_update_drep_cert_ref h None = h
   \<and> cardano_stake_registration_cert_ref h None = h
   \<and> cardano_update_drep_cert_unref h None = (h, None)
   \<and> cardano_update_drep_cert_unref h (Some None) = (h, Some None)
   \<and> cardano_stake_registration_cert_unref h None = (h, None)
   \<and> cardano_stake_registration_cert_unref h (Some None) = (h, Some None)
   \<and> (deref (update_drep_certs h) (Some p) = Some data
        \<and> update_drep_cert_anchor data = None \<longrightarrow>
        cardano_update_drep_cert_get_anchor h (Some p) = (None, h))
   \<and> (deref (update_drep_certs h) (Some p) = Some data
        \<and> update_drep_cert_anchor data = Some a
        \<and> deref (anchors h) (Some a) = Some aobj \<longrightarrow>
        cardano_update_drep_cert_get_anchor h (Some p) =
          (Some a,
           h\<lparr>anchors := (anchors h)[a := Some (aobj\<lparr>ref_count := ref_count aobj + 1\<rparr>)]\<rparr>)
      \<and> cardano_anchor_refcount (snd (cardano_update_drep_cert_get_anchor h (Some p))) (Some a)
          = cardano_anchor_refcount h (Some a) + 1)
   \<and> (deref (update_drep_certs h) (Some p) = Some data
        \<and> update_drep_cert_credential data = Some c
        \<and> deref (credentials h) (Some c) = Some cobj \<longrightarrow>
        cardano_update_drep_cert_get_credential h (Some p) =
          (Some c,
           h\<lparr>credentials := (credentials h)
                [c := Some (cobj\<lparr>ref_count := ref_count cobj + 1\<rparr>)]\<rparr>)
      \<and> cardano_credential_refcount
            (snd (cardano_update_drep_cert_get_credential h (Some p))) (Some c)
          = cardano_credential_refcount h (Some c) + 1)
   \<and> (deref (stake_registration_certs h) (Some p') = Some data'
        \<and> stake_registration_cert_credential data' = Some c'
        \<and> deref (credentials h) (Some c') = Some cobj' \<longrightarrow>
        cardano_stake_registration_cert_get_credential h (Some p') =
          (Some c',
           h\<lparr>credentials := (credentials h)
                [c' := Some (cobj'\<lparr>ref_count := ref_count cobj' + 1\<rparr>)]\<rparr>)
      \<and> cardano_credential_refcount
            (snd (cardano_stake_registration_cert_get_credential h (Some p'))) (Some c')
          = cardano_credential_refcount h (Some c') + 1)"
  by (auto simp: cardano_update_drep_cert_get_credential_def cardano_update_drep_cert_get_anchor_def
      cardano_stake_registration_cert_get_credential_def cardano_update_drep_cert_refcount_def
      cardano_stake_registration_cert_refcount_def cardano_update_drep_cert_ref_def
      cardano_stake_registration_cert_ref_def cardano_update_drep_cert_unref_def
      cardano_stake_registration_cert_unref_def cardano_credential_ref_def cardano_anchor_ref_def
      cardano_object_ref_def cardano_credential_refcount_def cardano_anchor_refcount_def
      cardano_object_refcount_def deref_update_same
      dest: deref_Some_length)

theorem accessors_total_on_null_and_getters_share_witness:
  "deref (update_drep_certs sample_cert_heap) (Some 0)
     = Some \<lparr>ref_count = 1, last_error = [], update_drep_cert_credential = Some 0,
             update_drep_cert_anchor = None\<rparr>
   \<and> cardano_update_drep_cert_refcount sample_cert_heap None = 0
   \<and> cardano_update_drep_cert_get_credential sample_cert_heap None = (None, sample_cert_heap)
   \<and> cardano_update_drep_cert_get_anchor sample_cert_heap (Some 0) = (None, sample_cert_heap)
   \<and> fst (cardano_update_drep_cert_get_credential sample_cert_heap (Some 0)) = Some 0
   \<and> cardano_credential_refcount sample_cert_heap (Some 0) = 3
   \<and> cardano_credential_refcount
        (snd (cardano_update_drep_cert_get_credential sample_cert_heap (Some 0))) (Some 0) = 4
   \<and> cardano_credential_refcount
        (snd (cardano_stake_registration_cert_get_credential sample_cert_heap (Some 0))) (Some 0) = 4
   \<and> fst (cardano_update_drep_cert_get_anchor
             (sample_cert_heap
                \<lparr>update_drep_certs :=
                   [Some \<lparr>ref_count = 1, last_error = [], update_drep_cert_credential = Some 0,
                           update_drep_cert_anchor = Some 0\<rparr>]\<rparr>)
             (Some 0)) = Some 0
   \<and> cardano_anchor_refcount
        (snd (cardano_update_drep_cert_get_anchor
                (sample_cert_heap
                   \<lparr>update_drep_certs :=
                      [Some \<lparr>ref_count = 1, last_error = [], update_drep_cert_credential = Some 0,
                              update_drep_cert_anchor = Some 0\<rparr>]\<rparr>)
                (Some 0)))
        (Some 0) = 2"
  using accessors_total_on_null_and_getters_share
          [where h = sample_cert_heap and p = 0 and p' = 0 and c = 0 and c' = 0
             and data = "\<lparr>ref_count = 1, last_error = [], update_drep_cert_credential = Some 0,
                update_drep_cert_anchor = None\<rparr>"
             and data' = "\<lparr>ref_count = 1, last_error = [],
                stake_registration_cert_credential = Some 0\<rparr>"
             and cobj = "\<lparr>ref_count = 3, last_error = [], credential_value = (1, [7, 8, 9])\<rparr>"
             and cobj' = "\<lparr>ref_count = 3, last_error = [], credential_value = (1, [7, 8, 9])\<rparr>"]
        accessors_total_on_null_and_getters_share
          [where h = "sample_cert_heap
                \<lparr>update_drep_certs :=
                   [Some \<lparr>ref_count = 1, last_error = [], update_drep_cert_credential = Some 0,
                           update_drep_cert_anchor = Some 0\<rparr>]\<rparr>"
             and p = 0 and a = 0
             and data = "\<lparr>ref_count = 1, last_error = [], update_drep_cert_credential = Some 0,
                update_drep_cert_anchor = Some 0\<rparr>"
             and aobj = "\<lparr>ref_count = 1, last_error = [],
                           anchor_value = (''https://example.org'', [4, 5])\<rparr>"]
  by (simp add: sample_cert_heap_def deref_def cardano_credential_refcount_def
        cardano_anchor_refcount_def cardano_object_refcount_def)

section \<open>Setters\<close>

lemma deref_Some_nth: "deref xs (Some a) = Some x \<Longrightarrow> xs ! a = Some x"
  by (simp add: deref_def split: if_splits)

lemma credential_ref_then_unref:
  assumes c: "deref (credentials h) (Some c) = Some cobj" and pos: "0 < ref_count cobj"
  shows "cardano_credential_refcount (cardano_credential_ref h (Some c)) (Some c) = ref_count cobj + 1"
    and "cardano_credential_unref (cardano_credential_ref h (Some c)) (Some c) = (h, Some c)"
proof -
  from c have lc: "c < length (credentials h)" by (rule deref_Some_length)
  from c have nth: "(credentials h)[c := Some cobj] = credentials h"
    by (simp add: deref_Some_nth list_update_same_conv lc)
  show "cardano_credential_refcount (cardano_credential_ref h (Some c)) (Some c) = ref_count cobj + 1"
    using c lc
    by (simp add: cardano_credential_refcount_def cardano_credential_ref_def
        cardano_object_refcount_def cardano_object_ref_def deref_update_same)
  show "cardano_credential_unref (cardano_credential_ref h (Some c)) (Some c) = (h, Some c)"
    using c lc pos nth
    by (simp add: cardano_credential_unref_def cardano_credential_ref_def
        cardano_object_unref_def cardano_object_ref_def deref_update_same)
qed

lemma anchor_ref_then_unref:
  assumes a: "deref (anchors h) (Some a) = Some aobj" and pos: "0 < ref_count aobj"
  shows "cardano_anchor_refcount (cardano_anchor_ref h (Some a)) (Some a) = ref_count aobj + 1"
    and "cardano_anchor_unref (cardano_anchor_ref h (Some a)) (Some a) = (h, Some a)"
proof -
  from a have la: "a < length (anchors h)" by (rule deref_Some_length)
  from a have nth: "(anchors h)[a := Some aobj] = anchors h"
    by (simp add: deref_Some_nth list_update_same_conv la)
  show "cardano_anchor_refcount (cardano_anchor_ref h (Some a)) (Some a) = ref_count aobj + 1"
    using a la
    by (simp add: cardano_anchor_refcount_def cardano_anchor_ref_def
        cardano_object_refcount_def cardano_object_ref_def deref_update_same)
  show "cardano_anchor_unref (cardano_anchor_ref h (Some a)) (Some a) = (h, Some a)"
    using a la pos nth
    by (simp add: cardano_anchor_unref_def cardano_anchor_ref_def
        cardano_object_unref_def cardano_object_ref_def deref_update_same)
qed

lemma update_drep_cert_set_credential_ok:
  assumes "deref (update_drep_certs h) (Some p) = Some data"
  shows "cardano_update_drep_cert_set_credential h (Some p) (Some c) =
           (Inr (),
            (fst (cardano_credential_unref (cardano_credential_ref h (Some c))
                    (update_drep_cert_credential data)))
            \<lparr>update_drep_certs := (update_drep_certs h)
                 [p := Some (data\<lparr>update_drep_cert_credential := Some c\<rparr>)]\<rparr>)"
  using assms
  by (simp add: cardano_update_drep_cert_set_credential_def Let_def split_beta)

lemma update_drep_cert_set_anchor_ok:
  assumes "deref (update_drep_certs h) (Some p) = Some data"
  shows "cardano_update_drep_cert_set_anchor h (Some p) (Some a) =
           (Inr (),
            (fst (cardano_anchor_unref (cardano_anchor_ref h (Some a))
                    (update_drep_cert_anchor data)))
            \<lparr>update_drep_certs := (update_drep_certs h)
                 [p := Some (data\<lparr>update_drep_cert_anchor := Some a\<rparr>)]\<rparr>)"
  using assms
  by (simp add: cardano_update_drep_cert_set_anchor_def Let_def split_beta)

lemma stake_registration_cert_set_credential_ok:
  assumes "deref (stake_registration_certs h) (Some p) = Some data"
  shows "cardano_stake_registration_cert_set_credential h (Some p) (Some c) =
           (Inr (),
            (fst (cardano_credential_unref (cardano_credential_ref h (Some c))
                    (stake_registration_cert_credential data)))
            \<lparr>stake_registration_certs := (stake_registration_certs h)
                 [p := Some (data\<lparr>stake_registration_cert_credential := Some c\<rparr>)]\<rparr>)"
  using assms
  by (simp add: cardano_stake_registration_cert_set_credential_def Let_def split_beta)

lemma update_drep_cert_set_credential_self:
  assumes live: "deref (update_drep_certs h) (Some p) = Some data"
    and c: "deref (credentials h) (Some c) = Some cobj" and pos: "0 < ref_count cobj"
    and self: "update_drep_cert_credential data = Some c"
  shows "cardano_update_drep_cert_set_credential h (Some p) (Some c) = (Inr (), h)"
proof -
  from live have e1: "(update_drep_certs h)[p := Some data] = update_drep_certs h"
    by (simp add: deref_Some_nth list_update_same_conv deref_Some_length)
  from self have e2: "data\<lparr>update_drep_cert_credential := Some c\<rparr> = data" by simp
  show ?thesis
    by (simp add: e2 e1 update_drep_cert_set_credential_ok [OF live] self
        credential_ref_then_unref(2) [OF c pos])
qed

lemma update_drep_cert_set_anchor_self:
  assumes live: "deref (update_drep_certs h) (Some p) = Some data"
    and a: "deref (anchors h) (Some a) = Some aobj" and pos: "0 < ref_count aobj"
    and self: "update_drep_cert_anchor data = Some a"
  shows "cardano_update_drep_cert_set_anchor h (Some p) (Some a) = (Inr (), h)"
proof -
  from live have e1: "(update_drep_certs h)[p := Some data] = update_drep_certs h"
    by (simp add: deref_Some_nth list_update_same_conv deref_Some_length)
  from self have e2: "data\<lparr>update_drep_cert_anchor := Some a\<rparr> = data" by simp
  show ?thesis
    by (simp add: e2 e1 update_drep_cert_set_anchor_ok [OF live] self
        anchor_ref_then_unref(2) [OF a pos])
qed

lemma stake_registration_cert_set_credential_self:
  assumes live: "deref (stake_registration_certs h) (Some p) = Some data"
    and c: "deref (credentials h) (Some c) = Some cobj" and pos: "0 < ref_count cobj"
    and self: "stake_registration_cert_credential data = Some c"
  shows "cardano_stake_registration_cert_set_credential h (Some p) (Some c) = (Inr (), h)"
proof -
  from live have e1: "(stake_registration_certs h)[p := Some data] = stake_registration_certs h"
    by (simp add: deref_Some_nth list_update_same_conv deref_Some_length)
  from self have e2: "data\<lparr>stake_registration_cert_credential := Some c\<rparr> = data" by simp
  show ?thesis
    by (simp add: e2 e1 stake_registration_cert_set_credential_ok [OF live] self
        credential_ref_then_unref(2) [OF c pos])
qed

text \<open>
  Claim C7. Each of the three setters, given a NULL value, returns
  \<^verbatim>\<open>CARDANO_ERROR_POINTER_IS_NULL\<close> and leaves the heap, hence the certificate, unchanged,
  for every certificate pointer and every heap. On a live certificate a setter succeeds,
  and the heap it returns is obtained by referencing the new value first, releasing the
  old value in the heap so obtained second, and assigning the field last. Referencing a
  live object adds 1 to its count, so that the release that follows cannot free it and
  gives the heap back; hence setting a field to the value it already holds leaves the
  whole heap unchanged and never frees that value.
\<close>

theorem setters_check_null_and_reference_before_release:
  "cardano_update_drep_cert_set_credential h certificate None
     = (Inl CARDANO_ERROR_POINTER_IS_NULL, h)
   \<and> cardano_update_drep_cert_set_anchor h certificate None
     = (Inl CARDANO_ERROR_POINTER_IS_NULL, h)
   \<and> cardano_stake_registration_cert_set_credential h certificate None
     = (Inl CARDANO_ERROR_POINTER_IS_NULL, h)
   \<and> (deref (update_drep_certs h) (Some p) = Some data \<longrightarrow>
        cardano_update_drep_cert_set_credential h (Some p) (Some c) =
          (Inr (),
           (fst (cardano_credential_unref (cardano_credential_ref h (Some c))
                   (update_drep_cert_credential data)))
           \<lparr>update_drep_certs := (update_drep_certs h)
                [p := Some (data\<lparr>update_drep_cert_credential := Some c\<rparr>)]\<rparr>)
      \<and> cardano_update_drep_cert_set_anchor h (Some p) (Some a) =
          (Inr (),
           (fst (cardano_anchor_unref (cardano_anchor_ref h (Some a))
                   (update_drep_cert_anchor data)))
           \<lparr>update_drep_certs := (update_drep_certs h)
                [p := Some (data\<lparr>update_drep_cert_anchor := Some a\<rparr>)]\<rparr>))
   \<and> (deref (stake_registration_certs h) (Some p') = Some data' \<longrightarrow>
        cardano_stake_registration_cert_set_credential h (Some p') (Some c) =
          (Inr (),
           (fst (cardano_credential_unref (cardano_credential_ref h (Some c))
                   (stake_registration_cert_credential data')))
           \<lparr>stake_registration_certs := (stake_registration_certs h)
                [p' := Some (data'\<lparr>stake_registration_cert_credential := Some c\<rparr>)]\<rparr>))
   \<and> (deref (credentials h) (Some c) = Some cobj \<and> 0 < ref_count cobj \<longrightarrow>
        cardano_credential_refcount (cardano_credential_ref h (Some c)) (Some c)
          = ref_count cobj + 1
      \<and> cardano_credential_unref (cardano_credential_ref h (Some c)) (Some c) = (h, Some c))
   \<and> (deref (anchors h) (Some a) = Some aobj \<and> 0 < ref_count aobj \<longrightarrow>
        cardano_anchor_refcount (cardano_anchor_ref h (Some a)) (Some a) = ref_count aobj + 1
      \<and> cardano_anchor_unref (cardano_anchor_ref h (Some a)) (Some a) = (h, Some a))
   \<and> (deref (update_drep_certs h) (Some p) = Some data
        \<and> deref (credentials h) (Some c) = Some cobj \<and> 0 < ref_count cobj
        \<and> update_drep_cert_credential data = Some c \<longrightarrow>
        cardano_update_drep_cert_set_credential h (Some p) (Some c) = (Inr (), h))
   \<and> (deref (update_drep_certs h) (Some p) = Some data
        \<and> deref (anchors h) (Some a) = Some aobj \<and> 0 < ref_count aobj
        \<and> update_drep_cert_anchor data = Some a \<longrightarrow>
        cardano_update_drep_cert_set_anchor h (Some p) (Some a) = (Inr (), h))
   \<and> (deref (stake_registration_certs h) (Some p') = Some data'
        \<and> deref (credentials h) (Some c) = Some cobj \<and> 0 < ref_count cobj
        \<and> stake_registration_cert_credential data' = Some c \<longrightarrow>
        cardano_stake_registration_cert_set_credential h (Some p') (Some c) = (Inr (), h))"
proof -
  have nulls:
    "cardano_update_drep_cert_set_credential h certificate None
       = (Inl CARDANO_ERROR_POINTER_IS_NULL, h)"
    "cardano_update_drep_cert_set_anchor h certificate None
       = (Inl CARDANO_ERROR_POINTER_IS_NULL, h)"
    "cardano_stake_registration_cert_set_credential h certificate None
       = (Inl CARDANO_ERROR_POINTER_IS_NULL, h)"
    by (simp_all add: cardano_update_drep_cert_set_credential_def
        cardano_update_drep_cert_set_anchor_def
        cardano_stake_registration_cert_set_credential_def split: option.splits)
  show ?thesis
    using nulls
      update_drep_cert_set_credential_ok [of h p data c]
      update_drep_cert_set_anchor_ok [of h p data a]
      stake_registration_cert_set_credential_ok [of h p' data' c]
      credential_ref_then_unref [of h c cobj]
      anchor_ref_then_unref [of h a aobj]
      update_drep_cert_set_credential_self [of h p data c cobj]
      update_drep_cert_set_anchor_self [of h p data a aobj]
      stake_registration_cert_set_credential_self [of h p' data' c cobj]
    by blast
qed

theorem setters_check_null_and_reference_before_release_witness:
  "deref (update_drep_certs sample_cert_heap) (Some 0)
     = Some \<lparr>ref_count = 1, last_error = [], update_drep_cert_credential = Some 0,
             update_drep_cert_anchor = None\<rparr>
   \<and> cardano_update_drep_cert_set_credential sample_cert_heap (Some 0) (Some 0)
     = (Inr (), sample_cert_heap)
   \<and> cardano_stake_registration_cert_set_credential sample_cert_heap (Some 0) (Some 0)
     = (Inr (), sample_cert_heap)
   \<and> cardano_credential_refcount
        (cardano_credential_ref sample_cert_heap (Some 0)) (Some 0) = 4
   \<and> cardano_credential_unref (cardano_credential_ref sample_cert_heap (Some 0)) (Some 0)
     = (sample_cert_heap, Some 0)
   \<and> cardano_anchor_refcount
        (snd (cardano_update_drep_cert_set_anchor sample_cert_heap (Some 0) (Some 0))) (Some 0) = 2
   \<and> cardano_update_drep_cert_set_anchor sample_cert_heap (Some 0) None
     = (Inl CARDANO_ERROR_POINTER_IS_NULL, sample_cert_heap)
   \<and> cardano_stake_registration_cert_set_credential sample_cert_heap (Some 0) None
     = (Inl CARDANO_ERROR_POINTER_IS_NULL, sample_cert_heap)"
  using setters_check_null_and_reference_before_release
          [where h = sample_cert_heap and p = 0 and p' = 0 and c = 0 and a = 0
             and certificate = "Some 0"
             and data = "\<lparr>ref_count = 1, last_error = [], update_drep_cert_credential = Some 0,
                update_drep_cert_anchor = None\<rparr>"
             and data' = "\<lparr>ref_count = 1, last_error = [],
                stake_registration_cert_credential = Some 0\<rparr>"
             and cobj = "\<lparr>ref_count = 3, last_error = [], credential_value = (1, [7, 8, 9])\<rparr>"
             and aobj = "\<lparr>ref_count = 1, last_error = [],
                   anchor_value = (''https://example.org'', [4, 5])\<rparr>"]
  by (simp add: sample_cert_heap_def deref_def cardano_anchor_refcount_def
        cardano_object_refcount_def cardano_anchor_unref_def cardano_anchor_ref_def
        cardano_object_ref_def)

section \<open>Rejecting a wrong discriminant\<close>

lemma update_drep_wrong_discriminant:
  assumes "\<not> at_end_of_array fs" and "v \<noteq> CARDANO_CERT_TYPE_UPDATE_DREP ext"
  shows "cardano_update_drep_cert_from_cbor ext h
           (Some \<lparr>tokens = TArray n # TUInt v # ts, frames = fs\<rparr>) (Some slot) =
           (Inl (if n = 3
                 then DiscriminantViolation ''update_drep_cert'' ''type''
                        (CARDANO_CERT_TYPE_UPDATE_DREP ext)
                        (cardano_cert_type_to_string ext (CARDANO_CERT_TYPE_UPDATE_DREP ext))
                        v (cardano_cert_type_to_string ext v)
                 else ArityViolation ''update_drep_cert'' 3 n),
            Some slot, h)"
  using assms
  by (simp add: cardano_update_drep_cert_from_cbor_def UPDATE_DREP_EMBEDDED_GROUP_SIZE_def
      validate_array_TArray validate_enum_TUInt)

lemma stake_registration_wrong_discriminant:
  assumes "\<not> at_end_of_array fs" and "v \<noteq> CARDANO_CERT_TYPE_STAKE_REGISTRATION ext"
  shows "cardano_stake_registration_cert_from_cbor ext h
           (Some \<lparr>tokens = TArray n # TUInt v # ts, frames = fs\<rparr>) (Some slot) =
           (Inl (if n = 2
                 then DiscriminantViolation ''stake_registration_cert'' ''type''
                        (CARDANO_CERT_TYPE_STAKE_REGISTRATION ext)
                        (cardano_cert_type_to_string ext (CARDANO_CERT_TYPE_STAKE_REGISTRATION ext))
                        v (cardano_cert_type_to_string ext v)
                 else ArityViolation ''stake_registration_cert'' 2 n),
            Some slot, h)"
  using assms
  by (simp add: cardano_stake_registration_cert_from_cbor_def
      STAKE_REGISTRATION_EMBEDDED_GROUP_SIZE_def validate_array_TArray validate_enum_TUInt)

text \<open>
  Claim C5, as amended. Let the input be an array header announcing \<open>n\<close> elements, followed
  by an unsigned integer \<open>v\<close> other than the expected certificate type. When \<open>n\<close> is the
  arity of the certificate (3 for update DRep, 2 for stake registration), \<^verbatim>\<open>from_cbor\<close>
  fails with the discriminant violation that names the validator, the field \<open>type\<close>, the
  one allowed value with its canonical name, and the value received with its name. For
  any other \<open>n\<close> the arity check, which runs first, fails with the arity violation naming
  the expected and the actual length, and the discriminant is not looked at. In both
  cases nothing is allocated and the out-parameter keeps its content.
\<close>

theorem wrong_discriminant_rejected_after_arity_check:
  "(\<not> at_end_of_array fs \<and> v \<noteq> CARDANO_CERT_TYPE_UPDATE_DREP ext \<longrightarrow>
      cardano_update_drep_cert_from_cbor ext h
        (Some \<lparr>tokens = TArray n # TUInt v # ts, frames = fs\<rparr>) (Some slot) =
        (Inl (if n = 3
              then DiscriminantViolation ''update_drep_cert'' ''type''
                     (CARDANO_CERT_TYPE_UPDATE_DREP ext)
                     (cardano_cert_type_to_string ext (CARDANO_CERT_TYPE_UPDATE_DREP ext))
                     v (cardano_cert_type_to_string ext v)
              else ArityViolation ''update_drep_cert'' 3 n),
         Some slot, h))
   \<and> (\<not> at_end_of_array fs \<and> v \<noteq> CARDANO_CERT_TYPE_STAKE_REGISTRATION ext \<longrightarrow>
      cardano_stake_registration_cert_from_cbor ext h
        (Some \<lparr>tokens = TArray n # TUInt v # ts, frames = fs\<rparr>) (Some slot) =
        (Inl (if n = 2
              then DiscriminantViolation ''stake_registration_cert'' ''type''
                     (CARDANO_CERT_TYPE_STAKE_REGISTRATION ext)
                     (cardano_cert_type_to_string ext (CARDANO_CERT_TYPE_STAKE_REGISTRATION ext))
                     v (cardano_cert_type_to_string ext v)
              else ArityViolation ''stake_registration_cert'' 2 n),
         Some slot, h))"
  using update_drep_wrong_discriminant [of fs v ext h n ts slot]
    stake_registration_wrong_discriminant [of fs v ext h n ts slot]
  by blast

theorem wrong_discriminant_rejected_after_arity_check_witness:
  "cardano_update_drep_cert_from_cbor sample_externals sample_heap
     (Some \<lparr>tokens = [TArray 3, TUInt 0, TArray 2, TUInt 1, TBytes [7, 8, 9], TNull], frames = []\<rparr>)
     (Some None)
   = (Inl (DiscriminantViolation ''update_drep_cert'' ''type'' 18 ''Update DRep''
             0 ''Stake Registration''),
      Some None, sample_heap)
   \<and> cardano_stake_registration_cert_from_cbor sample_externals sample_heap
     (Some \<lparr>tokens = [TArray 3, TUInt 18, TArray 2, TUInt 1, TBytes [7, 8, 9], TNull], frames = []\<rparr>)
     (Some None)
   = (Inl (ArityViolation ''stake_registration_cert'' 2 3), Some None, sample_heap)
   \<and> cardano_stake_registration_cert_from_cbor sample_externals sample_heap
     (Some \<lparr>tokens = [TArray 2, TUInt 18, TArray 2, TUInt 1, TBytes [7, 8, 9]], frames = []\<rparr>)
     (Some None)
   = (Inl (DiscriminantViolation ''stake_registration_cert'' ''type'' 0 ''Stake Registration''
             18 ''Update DRep''),
      Some None, sample_heap)
   \<and> cardano_update_drep_cert_from_cbor sample_externals sample_heap
     (Some \<lparr>tokens = [TArray 2, TUInt 0, TArray 2, TUInt 1, TBytes [7, 8, 9]], frames = []\<rparr>)
     (Some None)
   = (Inl (ArityViolation ''update_drep_cert'' 3 2), Some None, sample_heap)"
  using wrong_discriminant_rejected_after_arity_check
          [where fs = "[]" and v = 0 and ext = sample_externals and h = sample_heap and n = 3
             and ts = "[TArray 2, TUInt 1, TBytes [7, 8, 9], TNull]" and slot = None]
        wrong_discriminant_rejected_after_arity_check
          [where fs = "[]" and v = 18 and ext = sample_externals and h = sample_heap and n = 3
             and ts = "[TArray 2, TUInt 1, TBytes [7, 8, 9], TNull]" and slot = None]
        wrong_discriminant_rejected_after_arity_check
          [where fs = "[]" and v = 18 and ext = sample_externals and h = sample_heap and n = 2
             and ts = "[TArray 2, TUInt 1, TBytes [7, 8, 9]]" and slot = None]
        wrong_discriminant_rejected_after_arity_check
          [where fs = "[]" and v = 0 and ext = sample_externals and h = sample_heap and n = 2
             and ts = "[TArray 2, TUInt 1, TBytes [7, 8, 9]]" and slot = None]
  by (simp add: sample_cert_type_to_string_def)

text \<open>
  The claim as stated fails: the encoding of a stake-registration certificate, whose
  leading discriminant 0 is not the update-DRep one, is rejected by the update-DRep
  decoder with an arity violation, which names no allowed discriminant.
\<close>

theorem wrong_discriminant_wrong_arity_counterexample:
  "fst (cardano_update_drep_cert_from_cbor sample_externals sample_heap
          (Some (cardano_cbor_reader_new [TArray 2, TUInt 0, TArray 2, TUInt 1, TBytes [7, 8, 9]]))
          (Some None))
   = Inl (ArityViolation ''update_drep_cert'' 3 2)
   \<and> fst (cardano_update_drep_cert_from_cbor sample_externals sample_heap
          (Some (cardano_cbor_reader_new [TArray 2, TUInt 0, TArray 2, TUInt 1, TBytes [7, 8, 9]]))
          (Some None))
   \<noteq> Inl (DiscriminantViolation ''update_drep_cert'' ''type'' 18 ''Update DRep''
            0 ''Stake Registration'')"
  by (simp add: cardano_cbor_reader_new_def cardano_update_drep_cert_from_cbor_def
      UPDATE_DREP_EMBEDDED_GROUP_SIZE_def validate_array_TArray)

section \<open>The optional anchor of the update-DRep certificate\<close>

lemma peek_state_token:
  "cardano_cbor_reader_peek_state \<lparr>tokens = t # ts, frames = fs\<rparr> =
     (if at_end_of_array fs then Inr CARDANO_CBOR_READER_STATE_END_ARRAY
      else Inr (token_state t))"
  by (simp add: cardano_cbor_reader_peek_state_def)

lemma token_state_null [simp]: "token_state t = CARDANO_CBOR_READER_STATE_NULL \<longleftrightarrow> t = TNull"
  by (cases t) simp_all


lemmas update_drep_from_cbor_defs =
  cardano_update_drep_cert_from_cbor_def UPDATE_DREP_EMBEDDED_GROUP_SIZE_def
  cardano_credential_from_cbor_def cardano_anchor_from_cbor_def
  cardano_update_drep_cert_new_def
  cardano_credential_ref_def cardano_credential_unref_def
  cardano_anchor_ref_def cardano_anchor_unref_def
  cardano_object_ref_def cardano_object_unref_def









section \<open>Round trip of the certificates\<close>




















section \<open>Failing runs of from_cbor\<close>

lemma same_objects_refl [simp]: "same_objects h h"
  by (simp add: same_objects_def)

lemma deref_append_None [simp]: "deref (xs @ [None]) p = deref xs p"
  by (cases p) (auto simp: deref_def nth_append less_Suc_eq)

lemma validate_array_frames:
  "cardano_cbor_validate_array_of_n_elements name r n = Inr r1 \<Longrightarrow>
     frames r1 = n # item_read (frames r)"
  by (auto simp: cardano_cbor_validate_array_of_n_elements_def
      cardano_cbor_reader_read_start_array_def
      split: sum.splits list.splits cbor_token.splits if_splits)

lemma validate_enum_frames:
  "cardano_cbor_validate_enum_value name field r expected to_s = Inr (v, r1) \<Longrightarrow>
     frames r1 = item_read (frames r)"
  by (auto simp: cardano_cbor_validate_enum_value_def cardano_cbor_reader_read_uint_def
      split: sum.splits list.splits cbor_token.splits if_splits)

lemma read_null_after_peek:
  "cardano_cbor_reader_peek_state r = Inr CARDANO_CBOR_READER_STATE_NULL \<Longrightarrow>
     \<exists>r'. cardano_cbor_reader_read_null r = Inr r' \<and> frames r' = item_read (frames r)"
  by (auto simp: cardano_cbor_reader_read_null_def cardano_cbor_reader_peek_state_def
      split: list.splits cbor_token.splits if_splits)

lemma credential_from_cbor_cases:
  "(\<exists>e. cardano_credential_from_cbor ext h r = (Inl e, h))
   \<or> (\<exists>v r'. credential_value_from_cbor ext r = Inr (v, r') \<and> 0 < avail h
        \<and> cardano_credential_from_cbor ext h r =
            (Inr (Some (length (credentials h)), r'),
             h\<lparr>credentials := credentials h @
                  [Some \<lparr>ref_count = 1, last_error = [], credential_value = v\<rparr>],
                avail := avail h - 1\<rparr>))"
  by (auto simp: cardano_credential_from_cbor_def split: sum.splits)

lemma anchor_from_cbor_cases:
  "(\<exists>e. cardano_anchor_from_cbor ext h r = (Inl e, h))
   \<or> (\<exists>v r'. anchor_value_from_cbor ext r = Inr (v, r') \<and> 0 < avail h
        \<and> cardano_anchor_from_cbor ext h r =
            (Inr (Some (length (anchors h)), r'),
             h\<lparr>anchors := anchors h @
                  [Some \<lparr>ref_count = 1, last_error = [], anchor_value = v\<rparr>],
                avail := avail h - 1\<rparr>))"
  by (auto simp: cardano_anchor_from_cbor_def split: sum.splits)

lemma credential_unref_fresh:
  "0 < avail h \<Longrightarrow>
   cardano_credential_unref
     (h\<lparr>credentials := credentials h @
           [Some \<lparr>ref_count = 1, last_error = [], credential_value = v\<rparr>],
        avail := avail h - 1\<rparr>)
     (Some (length (credentials h)))
   = (h\<lparr>credentials := credentials h @ [None]\<rparr>, None)"
  by (simp add: cardano_credential_unref_def cardano_object_unref_def)

lemma anchor_unref_fresh:
  "0 < avail h \<Longrightarrow>
   cardano_anchor_unref
     (h\<lparr>anchors := anchors h @
           [Some \<lparr>ref_count = 1, last_error = [], anchor_value = v\<rparr>],
        avail := avail h - 1\<rparr>)
     (Some (length (anchors h)))
   = (h\<lparr>anchors := anchors h @ [None]\<rparr>, None)"
  by (simp add: cardano_anchor_unref_def cardano_object_unref_def)

lemma same_objects_freed_credential [simp]:
  "same_objects h (h\<lparr>credentials := credentials h @ [None]\<rparr>)"
  by (simp add: same_objects_def)

lemma same_objects_freed_both [simp]:
  "same_objects h (h\<lparr>credentials := credentials h @ [None], anchors := anchors h @ [None]\<rparr>)"
  by (simp add: same_objects_def)


lemma update_drep_tail_anchor:
  assumes "cardano_cbor_validate_array_of_n_elements ''update_drep_cert'' r 3 = Inr r1"
    and "cardano_cbor_validate_enum_value ''update_drep_cert'' ''type'' r1
           (CARDANO_CERT_TYPE_UPDATE_DREP ext) (cardano_cert_type_to_string ext) = Inr (ty, r2)"
    and "cardano_credential_from_cbor ext h r2 = (Inr (c, r3), h1)"
    and "cardano_cbor_reader_peek_state r3 = Inr st"
    and "st \<noteq> CARDANO_CBOR_READER_STATE_NULL"
    and "cardano_anchor_from_cbor ext h1 r3 = (Inr (anchor, r4), h2)"
  shows "cardano_update_drep_cert_from_cbor ext h (Some r) (Some slot) =
           (case fst (cardano_update_drep_cert_new h2 c anchor (Some slot)) of
              Inl e \<Rightarrow>
                (Inl e, fst (snd (cardano_update_drep_cert_new h2 c anchor (Some slot))),
                 fst (cardano_anchor_unref
                        (fst (cardano_credential_unref
                                (snd (snd (cardano_update_drep_cert_new h2 c anchor (Some slot))))
                                c))
                        anchor))
            | Inr _ \<Rightarrow>
                (cardano_cbor_validate_end_array ''update_drep_cert'' r4,
                 fst (snd (cardano_update_drep_cert_new h2 c anchor (Some slot))),
                 fst (cardano_anchor_unref
                        (fst (cardano_credential_unref
                                (snd (snd (cardano_update_drep_cert_new h2 c anchor (Some slot))))
                                c))
                        anchor)))"
  using assms
  by (simp add: cardano_update_drep_cert_from_cbor_def UPDATE_DREP_EMBEDDED_GROUP_SIZE_def
      Let_def split_beta split: sum.splits)

lemma read_uint_frames:
  "cardano_cbor_reader_read_uint r = Inr (v, r1) \<Longrightarrow> frames r1 = item_read (frames r)"
  by (auto simp: cardano_cbor_reader_read_uint_def
      split: sum.splits list.splits cbor_token.splits if_splits)

lemma read_bytestring_frames:
  "cardano_cbor_reader_read_bytestring r = Inr (v, r1) \<Longrightarrow> frames r1 = item_read (frames r)"
  by (auto simp: cardano_cbor_reader_read_bytestring_def
      split: sum.splits list.splits cbor_token.splits if_splits)

lemma read_textstring_frames:
  "cardano_cbor_reader_read_textstring r = Inr (v, r1) \<Longrightarrow> frames r1 = item_read (frames r)"
  by (auto simp: cardano_cbor_reader_read_textstring_def
      split: sum.splits list.splits cbor_token.splits if_splits)

lemma validate_end_array_pops:
  "cardano_cbor_validate_end_array name r = Inr r1 \<Longrightarrow> frames r = 0 # frames r1"
  by (auto simp: cardano_cbor_validate_end_array_def cardano_cbor_reader_read_end_array_def
      split: sum.splits list.splits if_splits)

lemma sample_credential_reads_one_item: "reads_one_item sample_credential_from_cbor"
  unfolding reads_one_item_def
proof (intro allI impI)
  fix r v r'
  assume dec: "sample_credential_from_cbor r = Inr (v, r')"
  then obtain r1 t r2 bs r3 where
    "cardano_cbor_validate_array_of_n_elements ''credential'' r 2 = Inr r1"
    "cardano_cbor_reader_read_uint r1 = Inr (t, r2)"
    "cardano_cbor_reader_read_bytestring r2 = Inr (bs, r3)"
    "cardano_cbor_validate_end_array ''credential'' r3 = Inr r'"
    by (auto simp: sample_credential_from_cbor_def split: sum.splits)
  then show "frames r' = item_read (frames r)"
    using validate_array_frames [of "''credential''" r 2 r1] read_uint_frames [of r1 t r2]
      read_bytestring_frames [of r2 bs r3] validate_end_array_pops [of "''credential''" r3 r']
    by simp
qed

lemma sample_anchor_reads_one_item: "reads_one_item sample_anchor_from_cbor"
  unfolding reads_one_item_def
proof (intro allI impI)
  fix r v r'
  assume dec: "sample_anchor_from_cbor r = Inr (v, r')"
  then obtain r1 t r2 bs r3 where
    "cardano_cbor_validate_array_of_n_elements ''anchor'' r 2 = Inr r1"
    "cardano_cbor_reader_read_textstring r1 = Inr (t, r2)"
    "cardano_cbor_reader_read_bytestring r2 = Inr (bs, r3)"
    "cardano_cbor_validate_end_array ''anchor'' r3 = Inr r'"
    by (auto simp: sample_anchor_from_cbor_def split: sum.splits)
  then show "frames r' = item_read (frames r)"
    using validate_array_frames [of "''anchor''" r 2 r1] read_textstring_frames [of r1 t r2]
      read_bytestring_frames [of r2 bs r3] validate_end_array_pops [of "''anchor''" r3 r']
    by simp
qed

lemma stake_registration_end_check_after_new:
  assumes "cardano_cbor_validate_array_of_n_elements ''stake_registration_cert'' r 2 = Inr r1"
    and "cardano_cbor_validate_enum_value ''stake_registration_cert'' ''type'' r1
           (CARDANO_CERT_TYPE_STAKE_REGISTRATION ext) (cardano_cert_type_to_string ext)
         = Inr (ty, r2)"
    and "cardano_credential_from_cbor ext h r2 = (Inr (c, r3), h1)"
    and "cardano_stake_registration_cert_new h1 c (Some slot) = (Inr (), out1, h2)"
    and "cardano_cbor_validate_end_array ''stake_registration_cert'' r3 = Inl e"
  shows "cardano_stake_registration_cert_from_cbor ext h (Some r) (Some slot) =
           (Inl e, out1, fst (cardano_credential_unref h2 c))"
  using assms
  by (simp add: cardano_stake_registration_cert_from_cbor_def
      STAKE_REGISTRATION_EMBEDDED_GROUP_SIZE_def split_beta)

lemma stake_registration_step_array:
  "cardano_cbor_validate_array_of_n_elements ''stake_registration_cert'' r 2 = Inl e \<Longrightarrow>
   cardano_stake_registration_cert_from_cbor ext h (Some r) (Some slot) = (Inl e, Some slot, h)"
  by (simp add: cardano_stake_registration_cert_from_cbor_def
      STAKE_REGISTRATION_EMBEDDED_GROUP_SIZE_def)

lemma stake_registration_step_enum:
  "cardano_cbor_validate_array_of_n_elements ''stake_registration_cert'' r 2 = Inr r1 \<Longrightarrow>
   cardano_cbor_validate_enum_value ''stake_registration_cert'' ''type'' r1
     (CARDANO_CERT_TYPE_STAKE_REGISTRATION ext) (cardano_cert_type_to_string ext) = Inl e \<Longrightarrow>
   cardano_stake_registration_cert_from_cbor ext h (Some r) (Some slot) = (Inl e, Some slot, h)"
  by (simp add: cardano_stake_registration_cert_from_cbor_def
      STAKE_REGISTRATION_EMBEDDED_GROUP_SIZE_def)

lemma credential_from_cbor_failure:
  "fst (cardano_credential_from_cbor ext h r) = Inl e \<Longrightarrow>
   cardano_credential_from_cbor ext h r = (Inl e, h)"
  using credential_from_cbor_cases [of ext h r] by auto

lemma anchor_from_cbor_failure:
  "fst (cardano_anchor_from_cbor ext h r) = Inl e \<Longrightarrow>
   cardano_anchor_from_cbor ext h r = (Inl e, h)"
  using anchor_from_cbor_cases [of ext h r] by auto

lemma credential_from_cbor_success:
  "cardano_credential_from_cbor ext h r = (Inr (c, r'), h1) \<Longrightarrow>
   \<exists>v. credential_value_from_cbor ext r = Inr (v, r') \<and> 0 < avail h
      \<and> c = Some (length (credentials h))
      \<and> h1 = h\<lparr>credentials := credentials h @
                  [Some \<lparr>ref_count = 1, last_error = [], credential_value = v\<rparr>],
                avail := avail h - 1\<rparr>"
  using credential_from_cbor_cases [of ext h r] by auto

lemma anchor_from_cbor_success:
  "cardano_anchor_from_cbor ext h r = (Inr (a, r'), h1) \<Longrightarrow>
   \<exists>v. anchor_value_from_cbor ext r = Inr (v, r') \<and> 0 < avail h
      \<and> a = Some (length (anchors h))
      \<and> h1 = h\<lparr>anchors := anchors h @
                  [Some \<lparr>ref_count = 1, last_error = [], anchor_value = v\<rparr>],
                avail := avail h - 1\<rparr>"
  using anchor_from_cbor_cases [of ext h r] by auto

lemma stake_registration_step_credential:
  assumes "cardano_cbor_validate_array_of_n_elements ''stake_registration_cert'' r 2 = Inr r1"
    and "cardano_cbor_validate_enum_value ''stake_registration_cert'' ''type'' r1
           (CARDANO_CERT_TYPE_STAKE_REGISTRATION ext) (cardano_cert_type_to_string ext)
         = Inr (ty, r2)"
    and "fst (cardano_credential_from_cbor ext h r2) = Inl e"
  shows "cardano_stake_registration_cert_from_cbor ext h (Some r) (Some slot)
           = (Inl e, Some slot, h)"
  using assms(1,2) credential_from_cbor_failure [OF assms(3)]
  by (simp add: cardano_stake_registration_cert_from_cbor_def
      STAKE_REGISTRATION_EMBEDDED_GROUP_SIZE_def)

lemma stake_registration_tail:
  assumes "cardano_cbor_validate_array_of_n_elements ''stake_registration_cert'' r 2 = Inr r1"
    and "cardano_cbor_validate_enum_value ''stake_registration_cert'' ''type'' r1
           (CARDANO_CERT_TYPE_STAKE_REGISTRATION ext) (cardano_cert_type_to_string ext)
         = Inr (ty, r2)"
    and "cardano_credential_from_cbor ext h r2 = (Inr (c, r3), h1)"
  shows "cardano_stake_registration_cert_from_cbor ext h (Some r) (Some slot) =
           (case fst (cardano_stake_registration_cert_new h1 c (Some slot)) of
              Inl e \<Rightarrow>
                (Inl e, fst (snd (cardano_stake_registration_cert_new h1 c (Some slot))),
                 fst (cardano_credential_unref
                        (snd (snd (cardano_stake_registration_cert_new h1 c (Some slot)))) c))
            | Inr _ \<Rightarrow>
                (cardano_cbor_validate_end_array ''stake_registration_cert'' r3,
                 fst (snd (cardano_stake_registration_cert_new h1 c (Some slot))),
                 fst (cardano_credential_unref
                        (snd (snd (cardano_stake_registration_cert_new h1 c (Some slot)))) c)))"
  using assms
  by (simp add: cardano_stake_registration_cert_from_cbor_def
      STAKE_REGISTRATION_EMBEDDED_GROUP_SIZE_def Let_def split_beta split: sum.splits)

lemma stake_registration_new_failure:
  "fst (cardano_stake_registration_cert_new h (Some c) (Some slot)) = Inl e \<Longrightarrow>
   avail h = 0 \<and> cardano_stake_registration_cert_new h (Some c) (Some slot)
                   = (Inl e, Some slot, h)"
  by (auto simp: cardano_stake_registration_cert_new_def Let_def split: if_splits)

lemma update_drep_new_failure:
  "fst (cardano_update_drep_cert_new h (Some c) anchor (Some slot)) = Inl e \<Longrightarrow>
   avail h = 0 \<and> cardano_update_drep_cert_new h (Some c) anchor (Some slot)
                   = (Inl e, Some slot, h)"
  by (auto simp: cardano_update_drep_cert_new_def Let_def split: if_splits)

lemma stake_registration_step_new:
  assumes arr: "cardano_cbor_validate_array_of_n_elements ''stake_registration_cert'' r 2
                  = Inr r1"
    and enum: "cardano_cbor_validate_enum_value ''stake_registration_cert'' ''type'' r1
           (CARDANO_CERT_TYPE_STAKE_REGISTRATION ext) (cardano_cert_type_to_string ext)
         = Inr (ty, r2)"
    and cred: "cardano_credential_from_cbor ext h r2 = (Inr (c, r3), h1)"
    and new: "fst (cardano_stake_registration_cert_new h1 c (Some slot)) = Inl e"
  shows "cardano_stake_registration_cert_from_cbor ext h (Some r) (Some slot)
           = (Inl e, Some slot, h\<lparr>credentials := credentials h @ [None]\<rparr>)"
proof -
  from credential_from_cbor_success [OF cred] obtain v where
    av: "0 < avail h" and c: "c = Some (length (credentials h))"
    and h1: "h1 = h\<lparr>credentials := credentials h @
                  [Some \<lparr>ref_count = 1, last_error = [], credential_value = v\<rparr>],
                avail := avail h - 1\<rparr>"
    by blast
  from new c have nf: "cardano_stake_registration_cert_new h1 c (Some slot)
                         = (Inl e, Some slot, h1)"
    using stake_registration_new_failure [of h1 "length (credentials h)" slot e] by simp
  show ?thesis
    unfolding stake_registration_tail [OF arr enum cred] nf
    using credential_unref_fresh [OF av, of v]
    by (simp add: h1 c)
qed

lemma stake_registration_failure_steps:
  assumes one: "reads_one_item (credential_value_from_cbor ext)"
    and fail: "cardano_stake_registration_cert_from_cbor ext h (Some r) (Some slot)
                 = (Inl e, out, h')"
  shows "out = Some slot \<and> same_objects h h'
       \<and> (cardano_cbor_validate_array_of_n_elements ''stake_registration_cert'' r 2 = Inl e
          \<or> (\<exists>r1. cardano_cbor_validate_array_of_n_elements ''stake_registration_cert'' r 2
                      = Inr r1
                \<and> cardano_cbor_validate_enum_value ''stake_registration_cert'' ''type'' r1
                      (CARDANO_CERT_TYPE_STAKE_REGISTRATION ext)
                      (cardano_cert_type_to_string ext) = Inl e)
          \<or> (\<exists>r1 ty r2. cardano_cbor_validate_array_of_n_elements ''stake_registration_cert'' r 2
                      = Inr r1
                \<and> cardano_cbor_validate_enum_value ''stake_registration_cert'' ''type'' r1
                      (CARDANO_CERT_TYPE_STAKE_REGISTRATION ext)
                      (cardano_cert_type_to_string ext) = Inr (ty, r2)
                \<and> (fst (cardano_credential_from_cbor ext h r2) = Inl e
                   \<or> (\<exists>c r3 h1. cardano_credential_from_cbor ext h r2 = (Inr (c, r3), h1)
                        \<and> fst (cardano_stake_registration_cert_new h1 c (Some slot))
                            = Inl e))))"
proof (cases "cardano_cbor_validate_array_of_n_elements ''stake_registration_cert'' r 2")
  case (Inl e1)
  from stake_registration_step_array [OF Inl, of ext h slot] fail Inl
  show ?thesis by simp
next
  case (Inr r1)
  note arr = this
  show ?thesis
  proof (cases "cardano_cbor_validate_enum_value ''stake_registration_cert'' ''type'' r1
                  (CARDANO_CERT_TYPE_STAKE_REGISTRATION ext) (cardano_cert_type_to_string ext)")
    case (Inl e1)
    from stake_registration_step_enum [OF arr Inl, of h slot] fail arr Inl
    show ?thesis by simp
  next
    case (Inr x)
    then obtain ty r2 where
      enum: "cardano_cbor_validate_enum_value ''stake_registration_cert'' ''type'' r1
               (CARDANO_CERT_TYPE_STAKE_REGISTRATION ext) (cardano_cert_type_to_string ext)
             = Inr (ty, r2)"
      by (cases x) simp
    obtain cres h1 where cr: "cardano_credential_from_cbor ext h r2 = (cres, h1)"
      by (cases "cardano_credential_from_cbor ext h r2")
    show ?thesis
    proof (cases cres)
      case (Inl e1)
      with cr have f: "fst (cardano_credential_from_cbor ext h r2) = Inl e1" by simp
      from stake_registration_step_credential [OF arr enum f, of slot] fail
      have "e = e1 \<and> out = Some slot \<and> h' = h" by simp
      with f arr enum show ?thesis by simp
    next
      case (Inr y)
      then obtain c r3 where cred: "cardano_credential_from_cbor ext h r2 = (Inr (c, r3), h1)"
        using cr by (cases y) simp
      show ?thesis
      proof (cases "fst (cardano_stake_registration_cert_new h1 c (Some slot))")
        case (Inl e1)
        from stake_registration_step_new [OF arr enum cred Inl] fail
        have "e = e1 \<and> out = Some slot \<and> h' = h\<lparr>credentials := credentials h @ [None]\<rparr>"
          by simp
        with Inl arr enum cred show ?thesis by auto
      next
        case (Inr u)
        from credential_from_cbor_success [OF cred] obtain v where
          cv: "credential_value_from_cbor ext r2 = Inr (v, r3)" by blast
        from one cv have "frames r3 = item_read (frames r2)"
          unfolding reads_one_item_def by blast
        with validate_array_frames [OF arr] validate_enum_frames [OF enum]
        have fr3: "frames r3 = 0 # item_read (frames r)" by simp
        then have endok: "cardano_cbor_validate_end_array ''stake_registration_cert'' r3
                            = Inr \<lparr>tokens = tokens r3, frames = item_read (frames r)\<rparr>"
          by (simp add: cardano_cbor_validate_end_array_def
              cardano_cbor_reader_read_end_array_def)
        from fail [unfolded stake_registration_tail [OF arr enum cred]] Inr endok
        show ?thesis by simp
      qed
    qed
  qed
qed

lemma update_drep_step_array:
  "cardano_cbor_validate_array_of_n_elements ''update_drep_cert'' r 3 = Inl e \<Longrightarrow>
   cardano_update_drep_cert_from_cbor ext h (Some r) (Some slot) = (Inl e, Some slot, h)"
  by (simp add: cardano_update_drep_cert_from_cbor_def UPDATE_DREP_EMBEDDED_GROUP_SIZE_def)

lemma update_drep_step_enum:
  "cardano_cbor_validate_array_of_n_elements ''update_drep_cert'' r 3 = Inr r1 \<Longrightarrow>
   cardano_cbor_validate_enum_value ''update_drep_cert'' ''type'' r1
     (CARDANO_CERT_TYPE_UPDATE_DREP ext) (cardano_cert_type_to_string ext) = Inl e \<Longrightarrow>
   cardano_update_drep_cert_from_cbor ext h (Some r) (Some slot) = (Inl e, Some slot, h)"
  by (simp add: cardano_update_drep_cert_from_cbor_def UPDATE_DREP_EMBEDDED_GROUP_SIZE_def)

lemma update_drep_step_credential:
  assumes "cardano_cbor_validate_array_of_n_elements ''update_drep_cert'' r 3 = Inr r1"
    and "cardano_cbor_validate_enum_value ''update_drep_cert'' ''type'' r1
           (CARDANO_CERT_TYPE_UPDATE_DREP ext) (cardano_cert_type_to_string ext) = Inr (ty, r2)"
    and "fst (cardano_credential_from_cbor ext h r2) = Inl e"
  shows "cardano_update_drep_cert_from_cbor ext h (Some r) (Some slot) = (Inl e, Some slot, h)"
  using assms(1,2) credential_from_cbor_failure [OF assms(3)]
  by (simp add: cardano_update_drep_cert_from_cbor_def UPDATE_DREP_EMBEDDED_GROUP_SIZE_def)

lemma update_drep_step_peek:
  assumes arr: "cardano_cbor_validate_array_of_n_elements ''update_drep_cert'' r 3 = Inr r1"
    and enum: "cardano_cbor_validate_enum_value ''update_drep_cert'' ''type'' r1
           (CARDANO_CERT_TYPE_UPDATE_DREP ext) (cardano_cert_type_to_string ext) = Inr (ty, r2)"
    and cred: "cardano_credential_from_cbor ext h r2 = (Inr (c, r3), h1)"
    and peek: "cardano_cbor_reader_peek_state r3 = Inl e"
  shows "cardano_update_drep_cert_from_cbor ext h (Some r) (Some slot)
           = (Inl e, Some slot, h\<lparr>credentials := credentials h @ [None]\<rparr>)"
proof -
  from credential_from_cbor_success [OF cred] obtain v where
    av: "0 < avail h" and c: "c = Some (length (credentials h))"
    and h1: "h1 = h\<lparr>credentials := credentials h @
                  [Some \<lparr>ref_count = 1, last_error = [], credential_value = v\<rparr>],
                avail := avail h - 1\<rparr>"
    by blast
  from arr enum cred peek credential_unref_fresh [OF av, of v] show ?thesis
    by (simp add: cardano_update_drep_cert_from_cbor_def UPDATE_DREP_EMBEDDED_GROUP_SIZE_def
        h1 c)
qed

lemma update_drep_step_anchor:
  assumes arr: "cardano_cbor_validate_array_of_n_elements ''update_drep_cert'' r 3 = Inr r1"
    and enum: "cardano_cbor_validate_enum_value ''update_drep_cert'' ''type'' r1
           (CARDANO_CERT_TYPE_UPDATE_DREP ext) (cardano_cert_type_to_string ext) = Inr (ty, r2)"
    and cred: "cardano_credential_from_cbor ext h r2 = (Inr (c, r3), h1)"
    and peek: "cardano_cbor_reader_peek_state r3 = Inr st"
    and notnull: "st \<noteq> CARDANO_CBOR_READER_STATE_NULL"
    and anch: "fst (cardano_anchor_from_cbor ext h1 r3) = Inl e"
  shows "cardano_update_drep_cert_from_cbor ext h (Some r) (Some slot)
           = (Inl e, Some slot, h\<lparr>credentials := credentials h @ [None]\<rparr>)"
proof -
  from credential_from_cbor_success [OF cred] obtain v where
    av: "0 < avail h" and c: "c = Some (length (credentials h))"
    and h1: "h1 = h\<lparr>credentials := credentials h @
                  [Some \<lparr>ref_count = 1, last_error = [], credential_value = v\<rparr>],
                avail := avail h - 1\<rparr>"
    by blast
  note a = anchor_from_cbor_failure [OF anch]
  have u: "cardano_credential_unref h1 c = (h\<lparr>credentials := credentials h @ [None]\<rparr>, None)"
    unfolding h1 c by (rule credential_unref_fresh [OF av])
  from arr enum cred peek notnull a u show ?thesis
    by (simp add: cardano_update_drep_cert_from_cbor_def UPDATE_DREP_EMBEDDED_GROUP_SIZE_def)
qed

lemma update_drep_tail_null:
  assumes "cardano_cbor_validate_array_of_n_elements ''update_drep_cert'' r 3 = Inr r1"
    and "cardano_cbor_validate_enum_value ''update_drep_cert'' ''type'' r1
           (CARDANO_CERT_TYPE_UPDATE_DREP ext) (cardano_cert_type_to_string ext) = Inr (ty, r2)"
    and "cardano_credential_from_cbor ext h r2 = (Inr (c, r3), h1)"
    and "cardano_cbor_reader_peek_state r3 = Inr CARDANO_CBOR_READER_STATE_NULL"
  shows "cardano_update_drep_cert_from_cbor ext h (Some r) (Some slot) =
           (case fst (cardano_update_drep_cert_new h1 c None (Some slot)) of
              Inl e \<Rightarrow>
                (Inl e, fst (snd (cardano_update_drep_cert_new h1 c None (Some slot))),
                 fst (cardano_credential_unref
                        (snd (snd (cardano_update_drep_cert_new h1 c None (Some slot)))) c))
            | Inr _ \<Rightarrow>
                (cardano_cbor_validate_end_array ''update_drep_cert''
                   (case cardano_cbor_reader_read_null r3 of Inl read_null \<Rightarrow> r3 | Inr r' \<Rightarrow> r'),
                 fst (snd (cardano_update_drep_cert_new h1 c None (Some slot))),
                 fst (cardano_credential_unref
                        (snd (snd (cardano_update_drep_cert_new h1 c None (Some slot)))) c)))"
  using assms
  by (simp add: cardano_update_drep_cert_from_cbor_def UPDATE_DREP_EMBEDDED_GROUP_SIZE_def
      cardano_anchor_unref_def Let_def split_beta split: sum.splits)

lemma update_drep_step_new_null:
  assumes arr: "cardano_cbor_validate_array_of_n_elements ''update_drep_cert'' r 3 = Inr r1"
    and enum: "cardano_cbor_validate_enum_value ''update_drep_cert'' ''type'' r1
           (CARDANO_CERT_TYPE_UPDATE_DREP ext) (cardano_cert_type_to_string ext) = Inr (ty, r2)"
    and cred: "cardano_credential_from_cbor ext h r2 = (Inr (c, r3), h1)"
    and peek: "cardano_cbor_reader_peek_state r3 = Inr CARDANO_CBOR_READER_STATE_NULL"
    and new: "fst (cardano_update_drep_cert_new h1 c None (Some slot)) = Inl e"
  shows "cardano_update_drep_cert_from_cbor ext h (Some r) (Some slot)
           = (Inl e, Some slot, h\<lparr>credentials := credentials h @ [None]\<rparr>)"
proof -
  from credential_from_cbor_success [OF cred] obtain v where
    av: "0 < avail h" and c: "c = Some (length (credentials h))"
    and h1: "h1 = h\<lparr>credentials := credentials h @
                  [Some \<lparr>ref_count = 1, last_error = [], credential_value = v\<rparr>],
                avail := avail h - 1\<rparr>"
    by blast
  from new c have nf: "cardano_update_drep_cert_new h1 c None (Some slot)
                         = (Inl e, Some slot, h1)"
    using update_drep_new_failure [of h1 "length (credentials h)" None slot e] by simp
  show ?thesis
    unfolding update_drep_tail_null [OF arr enum cred peek] nf
    using credential_unref_fresh [OF av, of v]
    by (simp add: h1 c)
qed

lemma update_drep_step_new_anchor:
  assumes arr: "cardano_cbor_validate_array_of_n_elements ''update_drep_cert'' r 3 = Inr r1"
    and enum: "cardano_cbor_validate_enum_value ''update_drep_cert'' ''type'' r1
           (CARDANO_CERT_TYPE_UPDATE_DREP ext) (cardano_cert_type_to_string ext) = Inr (ty, r2)"
    and cred: "cardano_credential_from_cbor ext h r2 = (Inr (c, r3), h1)"
    and peek: "cardano_cbor_reader_peek_state r3 = Inr st"
    and notnull: "st \<noteq> CARDANO_CBOR_READER_STATE_NULL"
    and anch: "cardano_anchor_from_cbor ext h1 r3 = (Inr (a, r4), h2)"
    and new: "fst (cardano_update_drep_cert_new h2 c a (Some slot)) = Inl e"
  shows "\<exists>h'. cardano_update_drep_cert_from_cbor ext h (Some r) (Some slot)
                 = (Inl e, Some slot, h') \<and> same_objects h h'"
proof -
  from credential_from_cbor_success [OF cred] obtain v where
    av: "0 < avail h" and c: "c = Some (length (credentials h))"
    and h1: "h1 = h\<lparr>credentials := credentials h @
                  [Some \<lparr>ref_count = 1, last_error = [], credential_value = v\<rparr>],
                avail := avail h - 1\<rparr>"
    by blast
  from anchor_from_cbor_success [OF anch] obtain va where
    av1: "0 < avail h1" and a: "a = Some (length (anchors h1))"
    and h2: "h2 = h1\<lparr>anchors := anchors h1 @
                  [Some \<lparr>ref_count = 1, last_error = [], anchor_value = va\<rparr>],
                avail := avail h1 - 1\<rparr>"
    by blast
  from new c have nf: "cardano_update_drep_cert_new h2 c a (Some slot)
                         = (Inl e, Some slot, h2)"
    using update_drep_new_failure [of h2 "length (credentials h)" a slot e] by simp
  have run: "cardano_update_drep_cert_from_cbor ext h (Some r) (Some slot)
           = (Inl e, Some slot,
              fst (cardano_anchor_unref (fst (cardano_credential_unref h2 c)) a))"
    unfolding update_drep_tail_anchor [OF arr enum cred peek notnull anch] nf
    by simp
  have "same_objects h (fst (cardano_anchor_unref (fst (cardano_credential_unref h2 c)) a))"
    using av av1
    by (simp add: h2 h1 a c cardano_anchor_unref_def cardano_credential_unref_def
        cardano_object_unref_def same_objects_def)
  with run show ?thesis by blast
qed

lemma update_drep_failure_steps:
  assumes one_c: "reads_one_item (credential_value_from_cbor ext)"
    and one_a: "reads_one_item (anchor_value_from_cbor ext)"
    and fail: "cardano_update_drep_cert_from_cbor ext h (Some r) (Some slot) = (Inl e, out, h')"
  shows "out = Some slot \<and> same_objects h h'
       \<and> (cardano_cbor_validate_array_of_n_elements ''update_drep_cert'' r 3 = Inl e
          \<or> (\<exists>r1. cardano_cbor_validate_array_of_n_elements ''update_drep_cert'' r 3 = Inr r1
                \<and> cardano_cbor_validate_enum_value ''update_drep_cert'' ''type'' r1
                      (CARDANO_CERT_TYPE_UPDATE_DREP ext)
                      (cardano_cert_type_to_string ext) = Inl e)
          \<or> (\<exists>r1 ty r2. cardano_cbor_validate_array_of_n_elements ''update_drep_cert'' r 3
                      = Inr r1
                \<and> cardano_cbor_validate_enum_value ''update_drep_cert'' ''type'' r1
                      (CARDANO_CERT_TYPE_UPDATE_DREP ext)
                      (cardano_cert_type_to_string ext) = Inr (ty, r2)
                \<and> (fst (cardano_credential_from_cbor ext h r2) = Inl e
                   \<or> (\<exists>c r3 h1. cardano_credential_from_cbor ext h r2 = (Inr (c, r3), h1)
                        \<and> (cardano_cbor_reader_peek_state r3 = Inl e
                           \<or> (cardano_cbor_reader_peek_state r3
                                 = Inr CARDANO_CBOR_READER_STATE_NULL
                               \<and> fst (cardano_update_drep_cert_new h1 c None (Some slot))
                                   = Inl e)
                           \<or> (\<exists>st. cardano_cbor_reader_peek_state r3 = Inr st
                                \<and> st \<noteq> CARDANO_CBOR_READER_STATE_NULL
                                \<and> (fst (cardano_anchor_from_cbor ext h1 r3) = Inl e
                                   \<or> (\<exists>a r4 h2.
                                         cardano_anchor_from_cbor ext h1 r3
                                           = (Inr (a, r4), h2)
                                       \<and> fst (cardano_update_drep_cert_new h2 c a (Some slot))
                                           = Inl e))))))))"
proof (cases "cardano_cbor_validate_array_of_n_elements ''update_drep_cert'' r 3")
  case (Inl e1)
  from update_drep_step_array [OF Inl, of ext h slot] fail Inl
  show ?thesis by simp
next
  case (Inr r1)
  note arr = this
  show ?thesis
  proof (cases "cardano_cbor_validate_enum_value ''update_drep_cert'' ''type'' r1
                  (CARDANO_CERT_TYPE_UPDATE_DREP ext) (cardano_cert_type_to_string ext)")
    case (Inl e1)
    from update_drep_step_enum [OF arr Inl, of h slot] fail arr Inl
    show ?thesis by simp
  next
    case (Inr x)
    then obtain ty r2 where
      enum: "cardano_cbor_validate_enum_value ''update_drep_cert'' ''type'' r1
               (CARDANO_CERT_TYPE_UPDATE_DREP ext) (cardano_cert_type_to_string ext)
             = Inr (ty, r2)"
      by (cases x) simp
    obtain cres h1 where cr: "cardano_credential_from_cbor ext h r2 = (cres, h1)"
      by (cases "cardano_credential_from_cbor ext h r2")
    show ?thesis
    proof (cases cres)
      case (Inl e1)
      with cr have f: "fst (cardano_credential_from_cbor ext h r2) = Inl e1" by simp
      from update_drep_step_credential [OF arr enum f, of slot] fail
      have "e = e1 \<and> out = Some slot \<and> h' = h" by simp
      with f arr enum show ?thesis by simp
    next
      case (Inr y)
      then obtain c r3 where cred: "cardano_credential_from_cbor ext h r2 = (Inr (c, r3), h1)"
        using cr by (cases y) simp
      from credential_from_cbor_success [OF cred] obtain v where
        cv: "credential_value_from_cbor ext r2 = Inr (v, r3)" by blast
      from one_c cv have "frames r3 = item_read (frames r2)"
        unfolding reads_one_item_def by blast
      with validate_array_frames [OF arr] validate_enum_frames [OF enum]
      have fr3: "frames r3 = 1 # item_read (frames r)" by simp
      show ?thesis
      proof (cases "cardano_cbor_reader_peek_state r3")
        case (Inl e1)
        from update_drep_step_peek [OF arr enum cred Inl, of slot] fail
        have "e = e1 \<and> out = Some slot \<and> h' = h\<lparr>credentials := credentials h @ [None]\<rparr>"
          by simp
        with Inl arr enum cred show ?thesis by auto
      next
        case (Inr st)
        note peek = this
        show ?thesis
        proof (cases "st = CARDANO_CBOR_READER_STATE_NULL")
          case True
          with peek have peekn: "cardano_cbor_reader_peek_state r3
                                   = Inr CARDANO_CBOR_READER_STATE_NULL" by simp
          show ?thesis
          proof (cases "fst (cardano_update_drep_cert_new h1 c None (Some slot))")
            case (Inl e1)
            from update_drep_step_new_null [OF arr enum cred peekn Inl] fail
            have "e = e1 \<and> out = Some slot
                  \<and> h' = h\<lparr>credentials := credentials h @ [None]\<rparr>"
              by simp
            with Inl arr enum cred peekn show ?thesis by auto
          next
            case (Inr u)
            from read_null_after_peek [OF peekn] obtain r4 where
              rn: "cardano_cbor_reader_read_null r3 = Inr r4"
              and fr4: "frames r4 = item_read (frames r3)" by auto
            from fr3 fr4 have
              endok: "cardano_cbor_validate_end_array ''update_drep_cert'' r4
                        = Inr \<lparr>tokens = tokens r4, frames = item_read (frames r)\<rparr>"
              by (simp add: cardano_cbor_validate_end_array_def
                  cardano_cbor_reader_read_end_array_def)
            from fail [unfolded update_drep_tail_null [OF arr enum cred peekn]] Inr rn endok
            show ?thesis by simp
          qed
        next
          case False
          note notnull = this
          obtain ares h2 where ar: "cardano_anchor_from_cbor ext h1 r3 = (ares, h2)"
            by (cases "cardano_anchor_from_cbor ext h1 r3")
          show ?thesis
          proof (cases ares)
            case (Inl e1)
            with ar have f: "fst (cardano_anchor_from_cbor ext h1 r3) = Inl e1" by simp
            from update_drep_step_anchor [OF arr enum cred peek notnull f, of slot] fail
            have "e = e1 \<and> out = Some slot
                  \<and> h' = h\<lparr>credentials := credentials h @ [None]\<rparr>"
              by simp
            with f arr enum cred peek notnull show ?thesis by auto
          next
            case (Inr z)
            then obtain a r4 where
              anch: "cardano_anchor_from_cbor ext h1 r3 = (Inr (a, r4), h2)"
              using ar by (cases z) simp
            show ?thesis
            proof (cases "fst (cardano_update_drep_cert_new h2 c a (Some slot))")
              case (Inl e1)
              from update_drep_step_new_anchor [OF arr enum cred peek notnull anch Inl] fail
              have "e = e1 \<and> out = Some slot \<and> same_objects h h'" by auto
              with Inl arr enum cred peek notnull anch show ?thesis by auto
            next
              case (Inr u)
              from anchor_from_cbor_success [OF anch] obtain va where
                avv: "anchor_value_from_cbor ext r3 = Inr (va, r4)" by blast
              from one_a avv have "frames r4 = item_read (frames r3)"
                unfolding reads_one_item_def by blast
              with fr3 have
                endok: "cardano_cbor_validate_end_array ''update_drep_cert'' r4
                          = Inr \<lparr>tokens = tokens r4, frames = item_read (frames r)\<rparr>"
                by (simp add: cardano_cbor_validate_end_array_def
                    cardano_cbor_reader_read_end_array_def)
              from fail [unfolded update_drep_tail_anchor [OF arr enum cred peek notnull anch]]
                Inr endok
              show ?thesis by simp
            qed
          qed
        qed
      qed
    qed
  qed
qed

text \<open>
  Claim C3. Let the credential and anchor decoders read exactly one item when they
  succeed. Then every failing run of either \<^verbatim>\<open>from_cbor\<close> leaves the out-parameter with the
  content it had and a heap holding the same objects as before, with the same counts, and
  the error it returns is the error of the first step that failed, as that step returned
  it: the arity check; else the discriminant check; else the credential decoder; else,
  for the update-DRep certificate, the peek at the anchor slot, or the anchor decoder,
  which runs only when the slot is not null; else the constructor. Conversely, and
  whatever the child decoders do, a failure of any of these steps, the steps before it
  having succeeded, ends the run with that very error and the out-parameter unchanged:
  the heap is untouched when the arity check, the discriminant check or the credential
  decoder fails, and holds the same objects as before, the credential and the anchor
  created by the run having been released, when a later step fails. A NULL reader or
  out-parameter is rejected before anything is read.
\<close>

theorem from_cbor_fails_fast_and_unwinds:
  "(reads_one_item (credential_value_from_cbor ext)
      \<and> reads_one_item (anchor_value_from_cbor ext) \<longrightarrow>
      (\<forall>e out h'.
         cardano_update_drep_cert_from_cbor ext h (Some r) (Some slot) = (Inl e, out, h') \<longrightarrow>
         out = Some slot \<and> same_objects h h'
       \<and> (cardano_cbor_validate_array_of_n_elements ''update_drep_cert'' r 3 = Inl e
          \<or> (\<exists>r1. cardano_cbor_validate_array_of_n_elements ''update_drep_cert'' r 3 = Inr r1
                \<and> cardano_cbor_validate_enum_value ''update_drep_cert'' ''type'' r1
                      (CARDANO_CERT_TYPE_UPDATE_DREP ext)
                      (cardano_cert_type_to_string ext) = Inl e)
          \<or> (\<exists>r1 ty r2. cardano_cbor_validate_array_of_n_elements ''update_drep_cert'' r 3
                      = Inr r1
                \<and> cardano_cbor_validate_enum_value ''update_drep_cert'' ''type'' r1
                      (CARDANO_CERT_TYPE_UPDATE_DREP ext)
                      (cardano_cert_type_to_string ext) = Inr (ty, r2)
                \<and> (fst (cardano_credential_from_cbor ext h r2) = Inl e
                   \<or> (\<exists>c r3 h1. cardano_credential_from_cbor ext h r2 = (Inr (c, r3), h1)
                        \<and> (cardano_cbor_reader_peek_state r3 = Inl e
                           \<or> (cardano_cbor_reader_peek_state r3
                                 = Inr CARDANO_CBOR_READER_STATE_NULL
                               \<and> fst (cardano_update_drep_cert_new h1 c None (Some slot))
                                   = Inl e)
                           \<or> (\<exists>st. cardano_cbor_reader_peek_state r3 = Inr st
                                \<and> st \<noteq> CARDANO_CBOR_READER_STATE_NULL
                                \<and> (fst (cardano_anchor_from_cbor ext h1 r3) = Inl e
                                   \<or> (\<exists>a r4 h2.
                                         cardano_anchor_from_cbor ext h1 r3
                                           = (Inr (a, r4), h2)
                                       \<and> fst (cardano_update_drep_cert_new h2 c a (Some slot))
                                           = Inl e))))))))))
   \<and> (reads_one_item (credential_value_from_cbor ext) \<longrightarrow>
      (\<forall>e out h'.
         cardano_stake_registration_cert_from_cbor ext h (Some r) (Some slot)
           = (Inl e, out, h') \<longrightarrow>
         out = Some slot \<and> same_objects h h'
       \<and> (cardano_cbor_validate_array_of_n_elements ''stake_registration_cert'' r 2 = Inl e
          \<or> (\<exists>r1. cardano_cbor_validate_array_of_n_elements ''stake_registration_cert'' r 2
                      = Inr r1
                \<and> cardano_cbor_validate_enum_value ''stake_registration_cert'' ''type'' r1
                      (CARDANO_CERT_TYPE_STAKE_REGISTRATION ext)
                      (cardano_cert_type_to_string ext) = Inl e)
          \<or> (\<exists>r1 ty r2. cardano_cbor_validate_array_of_n_elements ''stake_registration_cert'' r 2
                      = Inr r1
                \<and> cardano_cbor_validate_enum_value ''stake_registration_cert'' ''type'' r1
                      (CARDANO_CERT_TYPE_STAKE_REGISTRATION ext)
                      (cardano_cert_type_to_string ext) = Inr (ty, r2)
                \<and> (fst (cardano_credential_from_cbor ext h r2) = Inl e
                   \<or> (\<exists>c r3 h1. cardano_credential_from_cbor ext h r2 = (Inr (c, r3), h1)
                        \<and> fst (cardano_stake_registration_cert_new h1 c (Some slot))
                            = Inl e))))))
   \<and> (cardano_cbor_validate_array_of_n_elements ''update_drep_cert'' r 3 = Inl e \<longrightarrow>
      cardano_update_drep_cert_from_cbor ext h (Some r) (Some slot) = (Inl e, Some slot, h))
   \<and> (cardano_cbor_validate_array_of_n_elements ''update_drep_cert'' r 3 = Inr r1
      \<and> cardano_cbor_validate_enum_value ''update_drep_cert'' ''type'' r1
           (CARDANO_CERT_TYPE_UPDATE_DREP ext) (cardano_cert_type_to_string ext) = Inl e \<longrightarrow>
      cardano_update_drep_cert_from_cbor ext h (Some r) (Some slot) = (Inl e, Some slot, h))
   \<and> (cardano_cbor_validate_array_of_n_elements ''update_drep_cert'' r 3 = Inr r1
      \<and> cardano_cbor_validate_enum_value ''update_drep_cert'' ''type'' r1
           (CARDANO_CERT_TYPE_UPDATE_DREP ext) (cardano_cert_type_to_string ext) = Inr (ty, r2)
      \<and> fst (cardano_credential_from_cbor ext h r2) = Inl e \<longrightarrow>
      cardano_update_drep_cert_from_cbor ext h (Some r) (Some slot) = (Inl e, Some slot, h))
   \<and> (cardano_cbor_validate_array_of_n_elements ''update_drep_cert'' r 3 = Inr r1
      \<and> cardano_cbor_validate_enum_value ''update_drep_cert'' ''type'' r1
           (CARDANO_CERT_TYPE_UPDATE_DREP ext) (cardano_cert_type_to_string ext) = Inr (ty, r2)
      \<and> cardano_credential_from_cbor ext h r2 = (Inr (c, r3), h1)
      \<and> cardano_cbor_reader_peek_state r3 = Inl e \<longrightarrow>
      (\<exists>h'. cardano_update_drep_cert_from_cbor ext h (Some r) (Some slot)
               = (Inl e, Some slot, h') \<and> same_objects h h'))
   \<and> (cardano_cbor_validate_array_of_n_elements ''update_drep_cert'' r 3 = Inr r1
      \<and> cardano_cbor_validate_enum_value ''update_drep_cert'' ''type'' r1
           (CARDANO_CERT_TYPE_UPDATE_DREP ext) (cardano_cert_type_to_string ext) = Inr (ty, r2)
      \<and> cardano_credential_from_cbor ext h r2 = (Inr (c, r3), h1)
      \<and> cardano_cbor_reader_peek_state r3 = Inr st
      \<and> st \<noteq> CARDANO_CBOR_READER_STATE_NULL
      \<and> fst (cardano_anchor_from_cbor ext h1 r3) = Inl e \<longrightarrow>
      (\<exists>h'. cardano_update_drep_cert_from_cbor ext h (Some r) (Some slot)
               = (Inl e, Some slot, h') \<and> same_objects h h'))
   \<and> (cardano_cbor_validate_array_of_n_elements ''update_drep_cert'' r 3 = Inr r1
      \<and> cardano_cbor_validate_enum_value ''update_drep_cert'' ''type'' r1
           (CARDANO_CERT_TYPE_UPDATE_DREP ext) (cardano_cert_type_to_string ext) = Inr (ty, r2)
      \<and> cardano_credential_from_cbor ext h r2 = (Inr (c, r3), h1)
      \<and> cardano_cbor_reader_peek_state r3 = Inr CARDANO_CBOR_READER_STATE_NULL
      \<and> fst (cardano_update_drep_cert_new h1 c None (Some slot)) = Inl e \<longrightarrow>
      (\<exists>h'. cardano_update_drep_cert_from_cbor ext h (Some r) (Some slot)
               = (Inl e, Some slot, h') \<and> same_objects h h'))
   \<and> (cardano_cbor_validate_array_of_n_elements ''update_drep_cert'' r 3 = Inr r1
      \<and> cardano_cbor_validate_enum_value ''update_drep_cert'' ''type'' r1
           (CARDANO_CERT_TYPE_UPDATE_DREP ext) (cardano_cert_type_to_string ext) = Inr (ty, r2)
      \<and> cardano_credential_from_cbor ext h r2 = (Inr (c, r3), h1)
      \<and> cardano_cbor_reader_peek_state r3 = Inr st
      \<and> st \<noteq> CARDANO_CBOR_READER_STATE_NULL
      \<and> cardano_anchor_from_cbor ext h1 r3 = (Inr (a, r4), h2)
      \<and> fst (cardano_update_drep_cert_new h2 c a (Some slot)) = Inl e \<longrightarrow>
      (\<exists>h'. cardano_update_drep_cert_from_cbor ext h (Some r) (Some slot)
               = (Inl e, Some slot, h') \<and> same_objects h h'))
   \<and> (cardano_cbor_validate_array_of_n_elements ''stake_registration_cert'' r 2 = Inl e \<longrightarrow>
      cardano_stake_registration_cert_from_cbor ext h (Some r) (Some slot)
        = (Inl e, Some slot, h))
   \<and> (cardano_cbor_validate_array_of_n_elements ''stake_registration_cert'' r 2 = Inr r1
      \<and> cardano_cbor_validate_enum_value ''stake_registration_cert'' ''type'' r1
           (CARDANO_CERT_TYPE_STAKE_REGISTRATION ext) (cardano_cert_type_to_string ext)
         = Inl e \<longrightarrow>
      cardano_stake_registration_cert_from_cbor ext h (Some r) (Some slot)
        = (Inl e, Some slot, h))
   \<and> (cardano_cbor_validate_array_of_n_elements ''stake_registration_cert'' r 2 = Inr r1
      \<and> cardano_cbor_validate_enum_value ''stake_registration_cert'' ''type'' r1
           (CARDANO_CERT_TYPE_STAKE_REGISTRATION ext) (cardano_cert_type_to_string ext)
         = Inr (ty, r2)
      \<and> fst (cardano_credential_from_cbor ext h r2) = Inl e \<longrightarrow>
      cardano_stake_registration_cert_from_cbor ext h (Some r) (Some slot)
        = (Inl e, Some slot, h))
   \<and> (cardano_cbor_validate_array_of_n_elements ''stake_registration_cert'' r 2 = Inr r1
      \<and> cardano_cbor_validate_enum_value ''stake_registration_cert'' ''type'' r1
           (CARDANO_CERT_TYPE_STAKE_REGISTRATION ext) (cardano_cert_type_to_string ext)
         = Inr (ty, r2)
      \<and> cardano_credential_from_cbor ext h r2 = (Inr (c, r3), h1)
      \<and> fst (cardano_stake_registration_cert_new h1 c (Some slot)) = Inl e \<longrightarrow>
      (\<exists>h'. cardano_stake_registration_cert_from_cbor ext h (Some r) (Some slot)
               = (Inl e, Some slot, h') \<and> same_objects h h'))
   \<and> cardano_update_drep_cert_from_cbor ext h None out0
       = (Inl CARDANO_ERROR_POINTER_IS_NULL, out0, h)
   \<and> cardano_update_drep_cert_from_cbor ext h reader None
       = (Inl CARDANO_ERROR_POINTER_IS_NULL, None, h)
   \<and> cardano_stake_registration_cert_from_cbor ext h None out0
       = (Inl CARDANO_ERROR_POINTER_IS_NULL, out0, h)
   \<and> cardano_stake_registration_cert_from_cbor ext h reader None
       = (Inl CARDANO_ERROR_POINTER_IS_NULL, None, h)"
  (is "?P1 \<and> ?P2 \<and> ?U1 \<and> ?U2 \<and> ?U3 \<and> ?U4 \<and> ?U5 \<and> ?U6 \<and> ?U7
       \<and> ?S1 \<and> ?S2 \<and> ?S3 \<and> ?S4 \<and> ?N1 \<and> ?N2 \<and> ?N3 \<and> ?N4")
proof (intro conjI)
  show ?P1 using update_drep_failure_steps [of ext h r slot] by blast
  show ?P2 using stake_registration_failure_steps [of ext h r slot] by blast
  show ?U1 using update_drep_step_array by blast
  show ?U2 using update_drep_step_enum by blast
  show ?U3 using update_drep_step_credential by blast
  show ?U4 using update_drep_step_peek same_objects_freed_credential by blast
  show ?U5 using update_drep_step_anchor same_objects_freed_credential by blast
  show ?U6 using update_drep_step_new_null same_objects_freed_credential by blast
  show ?U7 using update_drep_step_new_anchor by blast
  show ?S1 using stake_registration_step_array by blast
  show ?S2 using stake_registration_step_enum by blast
  show ?S3 using stake_registration_step_credential by blast
  show ?S4 using stake_registration_step_new same_objects_freed_credential by blast
  show ?N1 by (simp add: cardano_update_drep_cert_from_cbor_def)
  show ?N2 by (simp add: cardano_update_drep_cert_from_cbor_def split: option.splits)
  show ?N3 by (simp add: cardano_stake_registration_cert_from_cbor_def)
  show ?N4 by (simp add: cardano_stake_registration_cert_from_cbor_def split: option.splits)
qed

theorem from_cbor_fails_fast_and_unwinds_witness:
  "reads_one_item (credential_value_from_cbor sample_externals)
   \<and> reads_one_item (anchor_value_from_cbor sample_externals)
   \<and> cardano_update_drep_cert_from_cbor sample_externals sample_heap
       (Some (cardano_cbor_reader_new
                [TArray 3, TUInt 18, TArray 2, TUInt 1, TBytes [7, 8, 9], TUInt 5]))
       (Some None)
     = (Inl CARDANO_ERROR_UNEXPECTED_CBOR_TYPE, Some None,
        sample_heap\<lparr>credentials := credentials sample_heap @ [None]\<rparr>)
   \<and> same_objects sample_heap (sample_heap\<lparr>credentials := credentials sample_heap @ [None]\<rparr>)
   \<and> cardano_stake_registration_cert_from_cbor sample_externals (sample_heap\<lparr>avail := 1\<rparr>)
       (Some (cardano_cbor_reader_new [TArray 2, TUInt 0, TArray 2, TUInt 1, TBytes [7, 8, 9]]))
       (Some None)
     = (Inl CARDANO_ERROR_MEMORY_ALLOCATION_FAILED, Some None,
        sample_heap\<lparr>credentials := credentials sample_heap @ [None], avail := 1\<rparr>)
   \<and> same_objects (sample_heap\<lparr>avail := 1\<rparr>)
        (sample_heap\<lparr>credentials := credentials sample_heap @ [None], avail := 1\<rparr>)
   \<and> cardano_stake_registration_cert_from_cbor sample_externals sample_heap
       (Some \<lparr>tokens = [TArray 3, TUInt 0, TArray 2, TUInt 1, TBytes [7, 8, 9], TNull],
              frames = []\<rparr>)
       (Some None)
     = (Inl (ArityViolation ''stake_registration_cert'' 2 3), Some None, sample_heap)"
proof -
  have run: "cardano_update_drep_cert_from_cbor sample_externals sample_heap
       (Some (cardano_cbor_reader_new
                [TArray 3, TUInt 18, TArray 2, TUInt 1, TBytes [7, 8, 9], TUInt 5]))
       (Some None)
     = (Inl CARDANO_ERROR_UNEXPECTED_CBOR_TYPE, Some None,
        sample_heap\<lparr>credentials := credentials sample_heap @ [None]\<rparr>)"
    by (simp add: cardano_cbor_reader_new_def update_drep_from_cbor_defs
        validate_array_TArray validate_enum_TUInt sample_credential_from_cbor_tokens
        peek_state_token sample_anchor_from_cbor_def
        cardano_cbor_validate_array_of_n_elements_def cardano_cbor_reader_read_start_array_def
        sample_heap_def Let_def deref_def)
  have run': "cardano_stake_registration_cert_from_cbor sample_externals
       (sample_heap\<lparr>avail := 1\<rparr>)
       (Some (cardano_cbor_reader_new [TArray 2, TUInt 0, TArray 2, TUInt 1, TBytes [7, 8, 9]]))
       (Some None)
     = (Inl CARDANO_ERROR_MEMORY_ALLOCATION_FAILED, Some None,
        sample_heap\<lparr>credentials := credentials sample_heap @ [None], avail := 1\<rparr>)"
    by (simp add: cardano_cbor_reader_new_def stake_registration_from_cbor_defs
        validate_array_TArray validate_enum_TUInt sample_credential_from_cbor_tokens
        sample_heap_def Let_def deref_def)
  have ud: "same_objects sample_heap
              (sample_heap\<lparr>credentials := credentials sample_heap @ [None]\<rparr>)"
    using from_cbor_fails_fast_and_unwinds
         [where ext = sample_externals and h = sample_heap and slot = None
            and r = "cardano_cbor_reader_new
                [TArray 3, TUInt 18, TArray 2, TUInt 1, TBytes [7, 8, 9], TUInt 5]",
          THEN conjunct1]
       run sample_credential_reads_one_item sample_anchor_reads_one_item
    by simp
  have sr: "same_objects (sample_heap\<lparr>avail := 1\<rparr>)
        (sample_heap\<lparr>credentials := credentials sample_heap @ [None], avail := 1\<rparr>)"
    using from_cbor_fails_fast_and_unwinds
         [where ext = sample_externals and h = "sample_heap\<lparr>avail := 1\<rparr>" and slot = None
            and r = "cardano_cbor_reader_new
                [TArray 2, TUInt 0, TArray 2, TUInt 1, TBytes [7, 8, 9]]",
          THEN conjunct2, THEN conjunct1]
       run' sample_credential_reads_one_item
    by simp
  have ar: "cardano_stake_registration_cert_from_cbor sample_externals sample_heap
       (Some \<lparr>tokens = [TArray 3, TUInt 0, TArray 2, TUInt 1, TBytes [7, 8, 9], TNull],
              frames = []\<rparr>)
       (Some None)
     = (Inl (ArityViolation ''stake_registration_cert'' 2 3), Some None, sample_heap)"
    using from_cbor_fails_fast_and_unwinds
         [where ext = sample_externals and h = sample_heap and slot = None
            and r = "\<lparr>tokens = [TArray 3, TUInt 0, TArray 2, TUInt 1, TBytes [7, 8, 9], TNull],
                      frames = []\<rparr>"
            and e = "ArityViolation ''stake_registration_cert'' 2 3",
          THEN conjunct2, THEN conjunct2, THEN conjunct2, THEN conjunct2, THEN conjunct2,
          THEN conjunct2, THEN conjunct2, THEN conjunct2, THEN conjunct2, THEN conjunct1]
    by (simp add: validate_array_TArray)
  from run run' ud sr ar sample_credential_reads_one_item sample_anchor_reads_one_item
  show ?thesis by simp
qed

section \<open>The n-of-k scenario\<close>

lemma write_token_room:
  "write_token t \<lparr>buffer = b, capacity = Suc n\<rparr> = Inr \<lparr>buffer = b @ [t], capacity = n\<rparr>"
  by (simp add: write_token_def)

lemma n_of_k_scenario_encode:
  "cardano_script_n_of_k_to_cbor
     (Some \<lparr>required = 2,
            native_scripts = [Script_PubKey a, Script_PubKey b, Script_PubKey c]\<rparr>)
     (Some (cardano_cbor_writer_new (13 + k)))
   = Inr \<lparr>buffer = [TArray 3, TUInt 3, TUInt 2, TArray 3,
                    TArray 2, TUInt 0, TBytes a,
                    TArray 2, TUInt 0, TBytes b,
                    TArray 2, TUInt 0, TBytes c],
          capacity = k\<rparr>"
  by (simp add: cardano_script_n_of_k_to_cbor_def cardano_cbor_writer_new_def
      cardano_cbor_writer_write_start_array_def cardano_cbor_writer_write_uint_def
      cardano_cbor_writer_write_bytestring_def write_token_room
      eval_nat_numeral)

lemma n_of_k_scenario_decode:
  "cardano_script_n_of_k_from_cbor
     (Some (cardano_cbor_reader_new
              [TArray 3, TUInt 3, TUInt 2, TArray 3,
               TArray 2, TUInt 0, TBytes a,
               TArray 2, TUInt 0, TBytes b,
               TArray 2, TUInt 0, TBytes c]))
   = Inr (\<lparr>required = 2,
           native_scripts = [Script_PubKey a, Script_PubKey b, Script_PubKey c]\<rparr>,
          \<lparr>tokens = [], frames = []\<rparr>)"
  by (simp add: cardano_script_n_of_k_from_cbor_def cardano_cbor_reader_new_def
      validate_array_TArray validate_enum_TUInt validate_end_array_frames
      reader_defs eval_nat_numeral)

text \<open>
  Claim C9. Encoding the n-of-k script with required count 2 and the children PubKey
  \<open>a\<close>, PubKey \<open>b\<close>, PubKey \<open>c\<close> (into a writer with room for its 13 tokens) and decoding
  the result yields the required count 2 and the same three children in the same order,
  with nothing left to read; on that node \<open>cardano_script_n_of_k_get_required\<close> returns 2
  and \<open>cardano_script_n_of_k_get_length\<close> returns 3.
\<close>

theorem n_of_k_scenario_round_trip:
  "cardano_script_n_of_k_to_cbor
     (Some \<lparr>required = 2,
            native_scripts = [Script_PubKey a, Script_PubKey b, Script_PubKey c]\<rparr>)
     (Some (cardano_cbor_writer_new (13 + k)))
   = Inr \<lparr>buffer = [TArray 3, TUInt 3, TUInt 2, TArray 3,
                    TArray 2, TUInt 0, TBytes a,
                    TArray 2, TUInt 0, TBytes b,
                    TArray 2, TUInt 0, TBytes c],
          capacity = k\<rparr>
   \<and> cardano_script_n_of_k_from_cbor
     (Some (cardano_cbor_reader_new
              [TArray 3, TUInt 3, TUInt 2, TArray 3,
               TArray 2, TUInt 0, TBytes a,
               TArray 2, TUInt 0, TBytes b,
               TArray 2, TUInt 0, TBytes c]))
   = Inr (\<lparr>required = 2,
           native_scripts = [Script_PubKey a, Script_PubKey b, Script_PubKey c]\<rparr>,
          \<lparr>tokens = [], frames = []\<rparr>)
   \<and> cardano_script_n_of_k_get_required
       \<lparr>required = 2,
        native_scripts = [Script_PubKey a, Script_PubKey b, Script_PubKey c]\<rparr> = 2
   \<and> cardano_script_n_of_k_get_length
       (Some \<lparr>required = 2,
              native_scripts = [Script_PubKey a, Script_PubKey b, Script_PubKey c]\<rparr>) = 3"
  by (simp add: n_of_k_scenario_encode n_of_k_scenario_decode
      cardano_script_n_of_k_get_required_def cardano_script_n_of_k_get_length_def)

theorem n_of_k_scenario_round_trip_witness:
  "cardano_script_n_of_k_from_cbor
     (Some (cardano_cbor_reader_new
              (buffer (projr (cardano_script_n_of_k_to_cbor
                 (Some \<lparr>required = 2,
                        native_scripts = [Script_PubKey [1], Script_PubKey [2],
                                          Script_PubKey [3]]\<rparr>)
                 (Some (cardano_cbor_writer_new 13)))))))
   = Inr (\<lparr>required = 2,
           native_scripts = [Script_PubKey [1], Script_PubKey [2], Script_PubKey [3]]\<rparr>,
          \<lparr>tokens = [], frames = []\<rparr>)"
  using n_of_k_scenario_round_trip [of "[1]" "[2]" "[3]" 0]
  by simp


lemma read_start_array_tokens:
  "cardano_cbor_reader_read_start_array r = Inr (n, r1) \<Longrightarrow>
     length (tokens r) = Suc (length (tokens r1))"
  by (auto simp: cardano_cbor_reader_read_start_array_def
      split: sum.splits list.splits cbor_token.splits if_splits)

lemma read_uint_tokens:
  "cardano_cbor_reader_read_uint r = Inr (n, r1) \<Longrightarrow>
     length (tokens r) = Suc (length (tokens r1))"
  by (auto simp: cardano_cbor_reader_read_uint_def
      split: sum.splits list.splits cbor_token.splits if_splits)

lemma read_bytestring_tokens:
  "cardano_cbor_reader_read_bytestring r = Inr (n, r1) \<Longrightarrow>
     length (tokens r) = Suc (length (tokens r1))"
  by (auto simp: cardano_cbor_reader_read_bytestring_def
      split: sum.splits list.splits cbor_token.splits if_splits)

lemma read_end_array_tokens:
  "cardano_cbor_reader_read_end_array r = Inr r1 \<Longrightarrow> tokens r1 = tokens r"
  by (auto simp: cardano_cbor_reader_read_end_array_def split: list.splits if_splits)

lemma validate_end_array_tokens:
  "cardano_cbor_validate_end_array name r = Inr r1 \<Longrightarrow> tokens r1 = tokens r"
  by (auto simp: cardano_cbor_validate_end_array_def dest: read_end_array_tokens
      split: sum.splits)

lemma reader_not_exhausted [simp]:
  "cardano_cbor_reader_read_start_array r \<noteq> Inl RECURSION_BUDGET_EXHAUSTED"
  "cardano_cbor_reader_read_uint r \<noteq> Inl RECURSION_BUDGET_EXHAUSTED"
  "cardano_cbor_reader_read_bytestring r \<noteq> Inl RECURSION_BUDGET_EXHAUSTED"
  "cardano_cbor_reader_read_end_array r \<noteq> Inl RECURSION_BUDGET_EXHAUSTED"
  "cardano_cbor_validate_end_array name r \<noteq> Inl RECURSION_BUDGET_EXHAUSTED"
  "cardano_cbor_validate_array_of_n_elements name r k \<noteq> Inl RECURSION_BUDGET_EXHAUSTED"
  "cardano_cbor_validate_enum_value name field r v to_s \<noteq> Inl RECURSION_BUDGET_EXHAUSTED"
  by (auto simp: reader_defs cardano_cbor_validate_end_array_def
      cardano_cbor_validate_array_of_n_elements_def cardano_cbor_validate_enum_value_def
      split: sum.splits list.splits cbor_token.splits if_splits)

lemma items_decode_consumes:
  assumes P: "\<And>r s r'. native_script_decode f r = Inr (s, r') \<Longrightarrow>
                length (tokens r') < length (tokens r)"
  shows "native_script_items_decode f n r = Inr (ss, r') \<Longrightarrow>
           length (tokens r') \<le> length (tokens r)"
proof (induction n arbitrary: r ss r')
  case 0
  then show ?case by simp
next
  case (Suc n)
  from Suc.prems obtain s r1 ss' where
    d: "native_script_decode f r = Inr (s, r1)"
    and i: "native_script_items_decode f n r1 = Inr (ss', r')"
    by (auto split: sum.splits)
  from P [OF d] Suc.IH [OF i] show ?case by simp
qed

lemma list_decode_consumes:
  assumes P: "\<And>r s r'. native_script_decode f r = Inr (s, r') \<Longrightarrow>
                length (tokens r') < length (tokens r)"
    and dec: "native_script_list_decode f r = Inr (ss, r')"
  shows "length (tokens r') < length (tokens r)"
proof -
  from dec obtain n r1 r2 where
    a: "cardano_cbor_reader_read_start_array r = Inr (n, r1)"
    and i: "native_script_items_decode f n r1 = Inr (ss, r2)"
    and e: "cardano_cbor_reader_read_end_array r2 = Inr r'"
    by (auto split: sum.splits)
  have "length (tokens r2) \<le> length (tokens r1)"
    by (rule items_decode_consumes [where f = f, OF _ i]) (erule P)
  with read_start_array_tokens [OF a] read_end_array_tokens [OF e]
  show ?thesis by simp
qed

lemma native_script_decode_consumes:
  "native_script_decode f r = Inr (s, r') \<Longrightarrow> length (tokens r') < length (tokens r)"
proof (induction f arbitrary: r s r')
  case 0
  then show ?case by simp
next
  case (Suc f)
  have L: "\<And>r ss r'. native_script_list_decode f r = Inr (ss, r') \<Longrightarrow>
              length (tokens r') < length (tokens r)"
    by (rule list_decode_consumes [where f = f]) (erule Suc.IH, assumption)
  from Suc.prems show ?case
    by (auto simp del: native_script_list_decode.simps split: sum.splits if_splits
        dest!: read_start_array_tokens read_uint_tokens read_bytestring_tokens
          validate_end_array_tokens L)
qed

lemma items_decode_within_budget:
  assumes P: "\<And>r. length (tokens r) < f \<Longrightarrow>
                native_script_decode f r \<noteq> Inl RECURSION_BUDGET_EXHAUSTED"
  shows "length (tokens r) < f \<Longrightarrow>
           native_script_items_decode f n r \<noteq> Inl RECURSION_BUDGET_EXHAUSTED"
proof (induction n arbitrary: r)
  case 0
  then show ?case by simp
next
  case (Suc n)
  show ?case
  proof (cases "native_script_decode f r")
    case (Inl e)
    with P [OF Suc.prems] show ?thesis by simp
  next
    case (Inr x)
    then obtain s r1 where d: "native_script_decode f r = Inr (s, r1)" by (cases x) simp
    from native_script_decode_consumes [OF d] Suc.prems have "length (tokens r1) < f" by simp
    from Suc.IH [OF this] d show ?thesis by (auto split: sum.splits)
  qed
qed

lemma list_decode_within_budget:
  assumes P: "\<And>r. length (tokens r) < f \<Longrightarrow>
                native_script_decode f r \<noteq> Inl RECURSION_BUDGET_EXHAUSTED"
    and len: "length (tokens r) \<le> f"
  shows "native_script_list_decode f r \<noteq> Inl RECURSION_BUDGET_EXHAUSTED"
proof (cases "cardano_cbor_reader_read_start_array r")
  case (Inl e)
  then show ?thesis using reader_not_exhausted(1) [of r] by simp
next
  case (Inr x)
  then obtain n r1 where a: "cardano_cbor_reader_read_start_array r = Inr (n, r1)"
    by (cases x) simp
  from read_start_array_tokens [OF a] len have "length (tokens r1) < f" by simp
  have "native_script_items_decode f n r1 \<noteq> Inl RECURSION_BUDGET_EXHAUSTED"
    by (rule items_decode_within_budget [where f = f]) (erule P, fact)
  with a show ?thesis
    by (auto split: sum.splits)
qed

lemma native_script_decode_within_budget:
  "length (tokens r) < f \<Longrightarrow> native_script_decode f r \<noteq> Inl RECURSION_BUDGET_EXHAUSTED"
proof (induction f arbitrary: r)
  case 0
  then show ?case by simp
next
  case (Suc f)
  have L: "\<And>r. length (tokens r) \<le> f \<Longrightarrow>
             native_script_list_decode f r \<noteq> Inl RECURSION_BUDGET_EXHAUSTED"
    by (rule list_decode_within_budget [where f = f]) (erule Suc.IH, assumption)
  show ?case
  proof (cases "cardano_cbor_reader_read_start_array r")
    case (Inl e)
    then show ?thesis using reader_not_exhausted(1) [of r] by simp
  next
    case (Inr x)
    then obtain n r1 where a: "cardano_cbor_reader_read_start_array r = Inr (n, r1)"
      by (cases x) simp
    show ?thesis
    proof (cases "cardano_cbor_reader_read_uint r1")
      case (Inl e)
      then show ?thesis using a reader_not_exhausted(2) [of r1] by simp
    next
      case (Inr y)
      then obtain tag r2 where u: "cardano_cbor_reader_read_uint r1 = Inr (tag, r2)"
        by (cases y) simp
      from read_start_array_tokens [OF a] read_uint_tokens [OF u] Suc.prems
      have len2: "Suc (length (tokens r2)) \<le> f" by simp
      then have l2: "native_script_list_decode f r2 \<noteq> Inl RECURSION_BUDGET_EXHAUSTED"
        by (intro L) simp
      have l3: "\<And>m r3. cardano_cbor_reader_read_uint r2 = Inr (m, r3) \<Longrightarrow>
                  native_script_list_decode f r3 \<noteq> Inl RECURSION_BUDGET_EXHAUSTED"
        using len2 by (intro L) (auto dest!: read_uint_tokens)
      from a u l2 l3 show ?thesis
        by (auto simp del: native_script_list_decode.simps split: sum.splits)
    qed
  qed
qed

theorem native_script_decoders_never_exhaust_budget:
  "cardano_native_script_from_cbor r \<noteq> Inl RECURSION_BUDGET_EXHAUSTED
   \<and> cardano_script_n_of_k_from_cbor reader \<noteq> Inl RECURSION_BUDGET_EXHAUSTED"
proof
  show "cardano_native_script_from_cbor r \<noteq> Inl RECURSION_BUDGET_EXHAUSTED"
    unfolding cardano_native_script_from_cbor_def
    by (rule native_script_decode_within_budget) simp
next
  have L: "\<And>r. native_script_list_decode (length (tokens r)) r
             \<noteq> Inl RECURSION_BUDGET_EXHAUSTED"
    by (rule list_decode_within_budget) (erule native_script_decode_within_budget, simp)
  show "cardano_script_n_of_k_from_cbor reader \<noteq> Inl RECURSION_BUDGET_EXHAUSTED"
    using L
    by (auto simp: cardano_script_n_of_k_from_cbor_def
        simp del: native_script_list_decode.simps
        split: option.splits sum.splits)
qed

end
